(* ===== verification/Prelude.thy ===== *)
theory Prelude
  imports Main "HOL-Library.Word"
begin

text \<open>
  Shared vocabulary of the development: the byte type, the parts of Python's
  sequence semantics that the repository's code relies on (slicing with
  integer bounds, item assignment that raises \<open>IndexError\<close>), and the
  generic list lemmas the component theories use.  Nothing here models a
  line of the repository; it models the language the repository is written
  in.
\<close>

named_theorems py_simps \<open>evaluation rules for the Python sequence operations\<close>

type_synonym byte = "8 word"

section \<open>Python slicing \<open>xs[a:b]\<close>\<close>

text \<open>
  A slice bound is normalised as CPython's \<open>PySlice_AdjustIndices\<close> does for
  step 1: a negative bound counts from the end and is clamped at 0, a bound
  past the end is clamped at the length.  The slice is empty when the
  normalised stop is not after the normalised start.
\<close>

definition py_bound :: "int \<Rightarrow> nat \<Rightarrow> nat" where
  "py_bound i n =
     (if i < 0 then (if i + int n < 0 then 0 else nat (i + int n))
      else if int n < i then n else nat i)"

definition py_slice :: "'a list \<Rightarrow> int \<Rightarrow> int \<Rightarrow> 'a list" where
  "py_slice xs a b =
     (let lo = py_bound a (length xs); hi = py_bound b (length xs)
      in take (hi - lo) (drop lo xs))"

section \<open>Python item assignment \<open>xs[i] = v\<close>\<close>

text \<open>
  Assignment to an index: a negative index counts from the end; an index
  outside \<open>[-len, len)\<close> raises \<open>IndexError\<close>, modelled as \<open>None\<close>.
\<close>

definition py_index :: "int \<Rightarrow> nat \<Rightarrow> nat option" where
  "py_index i n =
     (let j = (if i < 0 then i + int n else i)
      in if 0 \<le> j \<and> j < int n then Some (nat j) else None)"

definition py_setitem :: "'a list \<Rightarrow> int \<Rightarrow> 'a \<Rightarrow> 'a list option" where
  "py_setitem xs i v = map_option (\<lambda>j. xs[j := v]) (py_index i (length xs))"

section \<open>Overwriting a run of a list\<close>

text \<open>
  \<open>overwrite xs i ys\<close> is \<open>xs\<close> with the elements from position \<open>i\<close> on replaced
  by \<open>ys\<close>; it is the effect of a successful byte-by-byte copy loop.
\<close>

definition overwrite :: "'a list \<Rightarrow> nat \<Rightarrow> 'a list \<Rightarrow> 'a list" where
  "overwrite xs i ys = take i xs @ ys @ drop (i + length ys) xs"

section \<open>Text as bytes\<close>

definition ascii_bytes :: "string \<Rightarrow> byte list" where
  "ascii_bytes s = map (\<lambda>c. of_nat (of_char c)) s"

text \<open>
  Bytes read back as text, one character per byte; on ASCII text, which is
  all the repository sends, this is UTF-8 decoding.
\<close>

definition ascii_decode :: "byte list \<Rightarrow> string" where
  "ascii_decode bs = map (\<lambda>b. char_of (unat b)) bs"

section \<open>Lemmas\<close>

lemma py_bound_nonneg [py_simps]:
  "0 \<le> i \<Longrightarrow> i \<le> int n \<Longrightarrow> py_bound i n = nat i"
  by (simp add: py_bound_def)

lemma py_bound_le [simp]: "py_bound i n \<le> n"
  by (simp add: py_bound_def nat_le_iff)

lemma py_slice_in_range [py_simps]:
  assumes "0 \<le> a" "a \<le> b" "b \<le> int (length xs)"
  shows "py_slice xs a b = take (nat b - nat a) (drop (nat a) xs)"
  using assms by (simp add: py_slice_def Let_def py_simps)

lemma length_py_slice_in_range:
  assumes "0 \<le> a" "a \<le> b" "b \<le> int (length xs)"
  shows "length (py_slice xs a b) = nat b - nat a"
  using assms by (simp add: py_slice_in_range)

lemma py_index_nonneg [py_simps]:
  "0 \<le> i \<Longrightarrow> i < int n \<Longrightarrow> py_index i n = Some (nat i)"
  by (simp add: py_index_def)

lemma py_index_Some_less: "py_index i n = Some j \<Longrightarrow> j < n"
  by (auto simp: py_index_def Let_def split: if_splits)

lemma py_index_None_iff:
  "py_index i n = None \<longleftrightarrow> i < - int n \<or> int n \<le> i"
  by (auto simp: py_index_def Let_def)

lemma length_py_setitem:
  "py_setitem xs i v = Some ys \<Longrightarrow> length ys = length xs"
  by (auto simp: py_setitem_def)

lemma py_setitem_nonneg [py_simps]:
  "0 \<le> i \<Longrightarrow> i < int (length xs) \<Longrightarrow> py_setitem xs i v = Some (xs[nat i := v])"
  by (simp add: py_setitem_def py_simps)

lemma length_overwrite [simp]:
  "i + length ys \<le> length xs \<Longrightarrow> length (overwrite xs i ys) = length xs"
  by (simp add: overwrite_def)

lemma overwrite_Nil [simp]: "i \<le> length xs \<Longrightarrow> overwrite xs i [] = xs"
  by (simp add: overwrite_def)

lemma overwrite_Cons:
  assumes "i + length (y # ys) \<le> length xs"
  shows "overwrite xs i (y # ys) = overwrite (xs[i := y]) (Suc i) ys"
proof -
  from assms have i: "i < length xs" by simp
  have "take (Suc i) (xs[i := y]) = take i xs @ [y]"
    using i by (simp add: take_Suc_conv_app_nth)
  moreover have "drop (Suc i + length ys) (xs[i := y]) = drop (i + length (y # ys)) xs"
    by simp
  ultimately show ?thesis
    by (simp add: overwrite_def)
qed

lemma take_overwrite [simp]: "i \<le> length xs \<Longrightarrow> take i (overwrite xs i ys) = take i xs"
  by (simp add: overwrite_def)

lemma drop_take_overwrite:
  "i + length ys \<le> length xs \<Longrightarrow> take (length ys) (drop i (overwrite xs i ys)) = ys"
  by (simp add: overwrite_def)

lemma drop_overwrite_after:
  "i + length ys \<le> length xs \<Longrightarrow> drop (i + length ys) (overwrite xs i ys) = drop (i + length ys) xs"
  by (simp add: overwrite_def)

lemma take_drop_overwrite_prefix:
  assumes "i + m \<le> length xs" "length ys \<le> m"
  shows "take m (drop i (overwrite xs i ys)) = ys @ drop (length ys) (take m (drop i xs))"
  using assms by (simp add: overwrite_def take_append drop_take min_def add.commute)

lemma overwrite_overwrite_cover:
  "i + length zs \<le> length xs \<Longrightarrow> length ys \<le> length zs \<Longrightarrow>
   overwrite (overwrite xs i ys) i zs = overwrite xs i zs"
  by (simp add: overwrite_def add.commute)

lemma overwrite_overwrite_split:
  assumes "i + length ys \<le> length xs" "k + length zs = length ys"
  shows "overwrite (overwrite xs i ys) (i + k) zs = overwrite xs i (take k ys @ zs)"
proof -
  have k: "k \<le> length ys" using assms(2) by simp
  have "take (i + k) (take i xs @ ys @ drop (i + length ys) xs) = take i xs @ take k ys"
    using assms k by (simp add: take_append)
  moreover have "drop (i + k + length zs) (take i xs @ ys @ drop (i + length ys) xs) = drop (i + length ys) xs"
    using assms by (simp add: add.assoc)
  ultimately show ?thesis
    using assms by (simp add: overwrite_def add.assoc)
qed
lemma ascii_decode_bytes [simp]: "ascii_decode (ascii_bytes s) = s"
proof -
  have "char_of (unat (of_nat (of_char c) :: byte)) = c" for c
    using nat_of_char_less_256[of c] by (simp add: unat_of_nat)
  then show ?thesis by (simp add: ascii_decode_def ascii_bytes_def map_idI)
qed

end
