(* ===== verification/Base64.thy ===== *)
theory Base64
  imports Prelude
begin

text \<open>
  The Base64 transfer encoding of sector payloads.  The repository calls it
  from four places: the server encodes read data with \<open>base64.b64encode\<close> and
  decodes write data with \<open>base64.b64decode\<close> (CPython), the client encodes
  write data with \<open>binascii.b2a_base64\<close> and decodes read data with
  \<open>binascii.a2b_base64\<close> (MicroPython, on the board).  None of that code lives
  in the repository, so the four routines are modelled after the libraries'
  C sources: CPython's \<open>Modules/binascii.c\<close> (3.11 and later, non-strict
  mode) and MicroPython's \<open>extmod/modbinascii.c\<close>.  Both decoders are kept
  as the loops they are, with their state variables, so that the round trips
  below are statements about the loops and not about an idealised decoder.
\<close>

unbundle bit_operations_syntax

section \<open>The alphabet\<close>

definition b64_pad :: byte where
  "b64_pad = 61"

definition b64_newline :: byte where
  "b64_newline = 10"

text \<open>
  \<open>b64_char\<close> is the second pass of MicroPython's \<open>b2a_base64\<close> (and
  CPython's \<open>table_b2a_base64\<close>): a sextet value to its ASCII code, and the
  marker value 64 to the pad character.
\<close>

definition b64_char :: "nat \<Rightarrow> byte" where
  "b64_char n =
     (if n < 26 then of_nat (n + 65)
      else if n < 52 then of_nat (n + 71)
      else if n < 62 then of_nat (n - 4)
      else if n = 62 then 43
      else if n = 63 then 47
      else b64_pad)"

text \<open>
  \<open>b64_sextet\<close> is \<open>table_a2b_base64\<close> (CPython) and \<open>mod_binascii_sextet\<close>
  (MicroPython): an ASCII code to its sextet, \<open>None\<close> for every byte outside
  the alphabet, the pad character included.
\<close>

definition b64_sextet :: "byte \<Rightarrow> nat option" where
  "b64_sextet c =
     (let k = unat c in
      if 65 \<le> k \<and> k \<le> 90 then Some (k - 65)
      else if 97 \<le> k \<and> k \<le> 122 then Some (k - 71)
      else if 48 \<le> k \<and> k \<le> 57 then Some (k + 4)
      else if k = 43 then Some 62
      else if k = 47 then Some 63
      else None)"

section \<open>Encoding\<close>

text \<open>
  Groups of three bytes become four characters; a final group of two or one
  bytes becomes three or two characters and one or two pads.  The sextets
  are the shifts and masks of MicroPython's first pass written on
  \<open>unat\<close>: \<open>(in[0] & 0xFC) >> 2\<close> is \<open>unat a div 4\<close>, \<open>(in[0] & 0x03) << 4\<close> is
  \<open>unat a mod 4 * 16\<close>, and so on.  \<open>b64encode\<close> is CPython's
  \<open>base64.b64encode\<close>; \<open>b2a_base64\<close> (both libraries) appends a newline.
\<close>

fun b64encode :: "byte list \<Rightarrow> byte list" where
  "b64encode (a # b # c # rest) =
     [b64_char (unat a div 4),
      b64_char (unat a mod 4 * 16 + unat b div 16),
      b64_char (unat b mod 16 * 4 + unat c div 64),
      b64_char (unat c mod 64)] @ b64encode rest"
| "b64encode [a, b] =
     [b64_char (unat a div 4),
      b64_char (unat a mod 4 * 16 + unat b div 16),
      b64_char (unat b mod 16 * 4),
      b64_char 64]"
| "b64encode [a] =
     [b64_char (unat a div 4), b64_char (unat a mod 4 * 16), b64_char 64, b64_char 64]"
| "b64encode [] = []"

definition b2a_base64 :: "byte list \<Rightarrow> byte list" where
  "b2a_base64 xs = b64encode xs @ [b64_newline]"

section \<open>Decoding, CPython\<close>

datatype b64_error = InvalidLength | IncorrectPadding

text \<open>
  The loop of \<open>binascii_a2b_base64_impl\<close> with \<open>strict_mode = 0\<close>: state
  \<open>quad_pos\<close>, \<open>left_char\<close>, \<open>pads\<close> and the output written so far.  A pad
  character after at least two data characters of a quad counts towards the
  padding and ends the input once the quad is full; elsewhere it is
  skipped, as is every byte outside the alphabet.  An input that ends inside
  a quad is an error (\<open>InvalidLength\<close> with one data character,
  \<open>IncorrectPadding\<close> otherwise).
\<close>

fun cpy_a2b_loop :: "nat \<Rightarrow> byte \<Rightarrow> nat \<Rightarrow> byte list \<Rightarrow> byte list \<Rightarrow> b64_error + byte list" where
  "cpy_a2b_loop quad_pos left_char pads out [] =
     (if quad_pos = 0 then Inr out
      else if quad_pos = 1 then Inl InvalidLength
      else Inl IncorrectPadding)"
| "cpy_a2b_loop quad_pos left_char pads out (c # cs) =
     (if c = b64_pad then
        (if 2 \<le> quad_pos \<and> 4 \<le> quad_pos + Suc pads then Inr out
         else cpy_a2b_loop quad_pos left_char (if 2 \<le> quad_pos then Suc pads else pads) out cs)
      else
        (case b64_sextet c of
          None \<Rightarrow> cpy_a2b_loop quad_pos left_char pads out cs
        | Some v \<Rightarrow>
            (let this_ch = (of_nat v :: byte) in
             if quad_pos = 0 then cpy_a2b_loop 1 this_ch 0 out cs
             else if quad_pos = 1 then
               cpy_a2b_loop 2 (this_ch AND 15) 0
                 (out @ [push_bit 2 left_char OR drop_bit 4 this_ch]) cs
             else if quad_pos = 2 then
               cpy_a2b_loop 3 (this_ch AND 3) 0
                 (out @ [push_bit 4 left_char OR drop_bit 2 this_ch]) cs
             else cpy_a2b_loop 0 0 0 (out @ [push_bit 6 left_char OR this_ch]) cs)))"

definition b64decode :: "byte list \<Rightarrow> b64_error + byte list" where
  "b64decode s = cpy_a2b_loop 0 0 0 [] s"

section \<open>Decoding, MicroPython\<close>

text \<open>
  The loop of \<open>mod_binascii_a2b_base64\<close>: a 32-bit accumulator \<open>shift\<close>
  that each sextet shifts left by six (its high bits fall off), the number
  \<open>nbits\<close> of bits not yet written out, and whether a pad character was seen
  since the last sextet.  A byte is written whenever eight bits are pending.
\<close>

fun mp_a2b_loop :: "32 word \<Rightarrow> nat \<Rightarrow> bool \<Rightarrow> byte list \<Rightarrow> byte list \<Rightarrow> b64_error + byte list" where
  "mp_a2b_loop shift nbits hadpad out [] =
     (if nbits = 0 then Inr out else Inl IncorrectPadding)"
| "mp_a2b_loop shift nbits hadpad out (c # cs) =
     (if c = b64_pad \<and> (nbits = 2 \<or> nbits = 4 \<and> hadpad) then Inr out
      else
        (let hadpad' = (hadpad \<or> c = b64_pad) in
         case b64_sextet c of
           None \<Rightarrow> mp_a2b_loop shift nbits hadpad' out cs
         | Some v \<Rightarrow>
             (let shift' = push_bit 6 shift OR of_nat v; nbits' = nbits + 6 in
              if 8 \<le> nbits'
              then mp_a2b_loop shift' (nbits' - 8) False
                     (out @ [ucast (drop_bit (nbits' - 8) shift' AND 255)]) cs
              else mp_a2b_loop shift' nbits' False out cs)))"

definition mp_a2b_base64 :: "byte list \<Rightarrow> b64_error + byte list" where
  "mp_a2b_base64 s = mp_a2b_loop 0 0 False [] s"


section \<open>Lemmas\<close>

subsection \<open>Bytes and words\<close>

lemma unat_byte_less: "unat (b :: byte) < 256"
  using unsigned_less[of b] by simp

lemma bit_small_nat: "v < 2 ^ m \<Longrightarrow> bit (v::nat) n \<Longrightarrow> n < m"
  by (metis bit_take_bit_iff take_bit_nat_eq_self_iff)

lemma push_bit_or_small:
  fixes x y :: "'a::len word"
  assumes "unat y < 2 ^ m"
  shows "push_bit m x OR y = push_bit m x + y"
proof -
  have "\<not> bit (push_bit m x) n \<or> \<not> bit y n" for n
    using bit_small_nat[OF assms, of n] by (auto simp: bit_push_bit_iff bit_unsigned_iff)
  then show ?thesis by (simp add: disjunctive_add)
qed

lemma unat_of_nat_small: "n < 2 ^ LENGTH('a) \<Longrightarrow> unat (of_nat n :: 'a::len word) = n"
  by (simp add: unat_of_nat)

lemma unat_drop_bit_of_nat:
  assumes "n < 2 ^ LENGTH('a)"
  shows "unat (drop_bit k (of_nat n :: 'a::len word)) = n div 2 ^ k"
proof -
  have "unat (drop_bit k (of_nat n :: 'a word)) = drop_bit k (unat (of_nat n :: 'a word))"
    by (rule unat_drop_bit_eq)
  also have "\<dots> = n div 2 ^ k"
    using assms by (simp add: unat_of_nat_small drop_bit_eq_div)
  finally show ?thesis .
qed

lemma unat_take_bit_of_nat:
  assumes "n < 2 ^ LENGTH('a)"
  shows "unat (take_bit k (of_nat n :: 'a::len word)) = n mod 2 ^ k"
proof -
  have "unat (take_bit k (of_nat n :: 'a word)) = take_bit k (unat (of_nat n :: 'a word))"
    by (rule unsigned_take_bit_eq)
  also have "\<dots> = n mod 2 ^ k"
    using assms by (simp add: unat_of_nat_small take_bit_eq_mod)
  finally show ?thesis .
qed

lemma unat_push_bit_or:
  fixes x y :: "'a::len word"
  assumes "unat y < 2 ^ m" "unat x * 2 ^ m + unat y < 2 ^ LENGTH('a)"
  shows "unat (push_bit m x OR y) = unat x * 2 ^ m + unat y"
proof -
  have "unat x * 2 ^ m < 2 ^ LENGTH('a)" using assms(2) by linarith
  moreover have "unat (push_bit m x) = take_bit LENGTH('a) (push_bit m (unat x))"
    by (rule unsigned_push_bit_eq)
  ultimately have "unat (push_bit m x) = unat x * 2 ^ m"
    by (simp add: take_bit_eq_mod push_bit_eq_mult)
  then show ?thesis
    using assms by (simp add: push_bit_or_small unat_word_ariths)
qed

lemma and_15_take_bit: "(w :: 'a::len word) AND 15 = take_bit 4 w"
  by (simp add: take_bit_eq_mask mask_eq_exp_minus_1)

lemma and_3_take_bit: "(w :: 'a::len word) AND 3 = take_bit 2 w"
  by (simp add: take_bit_eq_mask mask_eq_exp_minus_1)

lemma and_255_take_bit: "(w :: 'a::len word) AND 255 = take_bit 8 w"
  by (simp add: take_bit_eq_mask mask_eq_exp_minus_1)

lemma cpy_byte1:
  assumes "t < 16"
  shows "push_bit 2 (of_nat (unat a div 4) :: byte) OR drop_bit 4 (of_nat (unat a mod 4 * 16 + t)) = a"
proof -
  have a: "unat a < 256" by (rule unat_byte_less)
  have "unat (push_bit 2 (of_nat (unat a div 4) :: byte) OR drop_bit 4 (of_nat (unat a mod 4 * 16 + t))) = unat a div 4 * 4 + unat a mod 4"
    using a assms by (subst unat_push_bit_or) (simp_all add: unat_drop_bit_of_nat unat_of_nat_small del: of_nat_add of_nat_mult)
  then show ?thesis by (simp add: word_unat_eq_iff)
qed

lemma cpy_byte2:
  assumes "s < 16" "t < 4"
  shows "push_bit 4 (of_nat (s * 16 + unat b div 16) AND 15 :: byte) OR drop_bit 2 (of_nat (unat b mod 16 * 4 + t)) = b"
proof -
  have b: "unat b < 256" by (rule unat_byte_less)
  have "unat (push_bit 4 (of_nat (s * 16 + unat b div 16) AND 15 :: byte) OR drop_bit 2 (of_nat (unat b mod 16 * 4 + t))) = unat b div 16 * 16 + unat b mod 16"
    using b assms by (subst unat_push_bit_or) (simp_all add: and_15_take_bit unat_take_bit_of_nat unat_drop_bit_of_nat del: of_nat_add of_nat_mult)
  then show ?thesis by (simp add: word_unat_eq_iff)
qed

lemma cpy_byte3:
  assumes "s < 16"
  shows "push_bit 6 (of_nat (s * 4 + unat c div 64) AND 3 :: byte) OR of_nat (unat c mod 64) = c"
proof -
  have c: "unat c < 256" by (rule unat_byte_less)
  have "unat (push_bit 6 (of_nat (s * 4 + unat c div 64) AND 3 :: byte) OR of_nat (unat c mod 64)) = unat c div 64 * 64 + unat c mod 64"
    using c assms by (subst unat_push_bit_or) (simp_all add: and_3_take_bit unat_take_bit_of_nat unat_of_nat_small del: of_nat_add of_nat_mult)
  then show ?thesis by (simp add: word_unat_eq_iff)
qed
subsection \<open>The alphabet\<close>

lemma unat_b64_char:
  "n < 64 \<Longrightarrow> unat (b64_char n) =
     (if n < 26 then n + 65 else if n < 52 then n + 71 else if n < 62 then n - 4
      else if n = 62 then 43 else 47)"
  by (simp add: b64_char_def unat_of_nat_small del: of_nat_add of_nat_diff)

lemma b64_sextet_char:
  assumes "n < 64"
  shows "b64_sextet (b64_char n) = Some n"
proof -
  consider "n < 26" | "26 \<le> n" "n < 52" | "52 \<le> n" "n < 62" | "n = 62" | "n = 63"
    using assms by linarith
  then show ?thesis
    by cases (auto simp: b64_sextet_def Let_def unat_b64_char assms)
qed

lemma b64_sextet_pad [simp]: "b64_sextet b64_pad = None"
  by (simp add: b64_sextet_def b64_pad_def)

lemma b64_sextet_newline [simp]: "b64_sextet b64_newline = None"
  by (simp add: b64_sextet_def b64_newline_def)

lemma b64_char_not_pad: "n < 64 \<Longrightarrow> b64_char n \<noteq> b64_pad"
  using b64_sextet_char[of n] by force

lemma b64_char_64: "b64_char 64 = b64_pad"
  by (simp add: b64_char_def)

lemma b64_sextet_less: "b64_sextet c = Some v \<Longrightarrow> v < 64"
  by (auto simp: b64_sextet_def Let_def split: if_splits)

lemma sextet_bounds:
  fixes a b :: byte
  shows "unat a div 4 < 64" "unat a mod 4 * 16 + unat b div 16 < 64"
    "unat a mod 16 * 4 + unat b div 64 < 64" "unat a mod 64 < 64"
    "unat a mod 4 * 16 < 64" "unat a mod 16 * 4 < 64" "unat a div 16 < 16" "unat a div 64 < 4"
proof -
  have m: "unat a mod 4 < 4" "unat a mod 16 < 16" "unat a mod 64 < 64"
    by simp_all
  have d: "unat a div 4 < 64" "unat a div 16 < 16" "unat b div 16 < 16"
      "unat a div 64 < 4" "unat b div 64 < 4"
    using unat_byte_less[of a] unat_byte_less[of b] by (simp_all add: div_less_iff_less_mult)
  from m d show "unat a div 4 < 64" "unat a mod 4 * 16 + unat b div 16 < 64"
    "unat a mod 16 * 4 + unat b div 64 < 64" "unat a mod 64 < 64"
    "unat a mod 4 * 16 < 64" "unat a mod 16 * 4 < 64" "unat a div 16 < 16" "unat a div 64 < 4"
    by linarith+
qed

lemmas b64_alphabet = b64_sextet_char b64_char_not_pad b64_char_64 sextet_bounds

subsection \<open>The CPython decoder on encoder output\<close>

lemma cpy_a2b_loop_group:
  "cpy_a2b_loop 0 l p out (b64encode (a # b # c # rest) @ tail)
     = cpy_a2b_loop 0 0 0 (out @ [a, b, c]) (b64encode rest @ tail)"
  by (simp add: b64_alphabet cpy_byte1 cpy_byte2 cpy_byte3 Let_def del: of_nat_add of_nat_mult push_bit_and)

lemma cpy_a2b_loop_skip:
  "\<forall>c\<in>set cs. b64_sextet c = None \<Longrightarrow> cpy_a2b_loop 0 l p out cs = Inr out"
  by (induction cs) auto

lemma cpy_a2b_loop_b64encode:
  "\<forall>c\<in>set tail. b64_sextet c = None \<Longrightarrow>
   cpy_a2b_loop 0 l p out (b64encode xs @ tail) = Inr (out @ xs)"
proof (induction xs arbitrary: l p out rule: b64encode.induct)
  case (1 a b c rest)
  then show ?case by (simp only: cpy_a2b_loop_group) simp
next
  case (2 a b)
  show ?case
    using cpy_byte1[of "unat b div 16" a] cpy_byte2[of "unat a mod 4" 0 b]
    by (simp add: b64_alphabet Let_def del: of_nat_add of_nat_mult push_bit_and)
next
  case (3 a)
  show ?case
    using cpy_byte1[of 0 a]
    by (simp add: b64_alphabet Let_def del: of_nat_add of_nat_mult push_bit_and)
next
  case 4
  then show ?case by (simp add: cpy_a2b_loop_skip)
qed

subsection \<open>The MicroPython decoder on encoder output\<close>

text \<open>
  Only the low \<open>nbits\<close> bits of the accumulator influence what the loop
  writes later, so the accumulator may be replaced by its pending bits
  (\<open>mp_a2b_loop_take_bit\<close>); on such a normalised accumulator one step of
  the loop is arithmetic on \<open>nat\<close> (\<open>mp_a2b_loop_step\<close>).
\<close>

lemma take_bit_push_bit_or_cong:
  "take_bit n s1 = take_bit n s2 \<Longrightarrow>
   take_bit (n + 6) (push_bit 6 s1 OR w) = take_bit (n + 6) (push_bit 6 s2 OR (w :: 'a::len word))"
  by (simp add: take_bit_or take_bit_push_bit)

lemma out_byte_take_bit:
  "(ucast (drop_bit k t AND 255) :: byte) = ucast (drop_bit k (take_bit (k + 8) (t :: 32 word)))"
  by (simp add: and_255_take_bit take_bit_drop_bit add.commute)

lemma mp_a2b_loop_take_bit:
  "nbits < 8 \<Longrightarrow> take_bit nbits s1 = take_bit nbits s2 \<Longrightarrow>
   mp_a2b_loop s1 nbits hp out cs = mp_a2b_loop s2 nbits hp out cs"
proof (induction cs arbitrary: s1 s2 nbits hp out)
  case Nil
  then show ?case by simp
next
  case (Cons c cs)
  show ?case
  proof (cases "b64_sextet c")
    case None
    then show ?thesis
      using Cons.IH[of nbits s1 s2 "hp \<or> c = b64_pad" out] Cons.prems by (auto simp: Let_def)
  next
    case (Some v)
    then have np: "c \<noteq> b64_pad" by auto
    define t1 where "t1 = push_bit 6 s1 OR (of_nat v :: 32 word)"
    define t2 where "t2 = push_bit 6 s2 OR (of_nat v :: 32 word)"
    have t: "take_bit (nbits + 6) t1 = take_bit (nbits + 6) t2"
      unfolding t1_def t2_def by (rule take_bit_push_bit_or_cong) (rule Cons.prems(2))
    show ?thesis
    proof (cases "8 \<le> nbits + 6")
      case True
      have k: "nbits + 6 - 8 + 8 = nbits + 6" using True by simp
      have o: "(ucast (drop_bit (nbits + 6 - 8) t1 AND 255) :: byte) = ucast (drop_bit (nbits + 6 - 8) t2 AND 255)"
        by (simp only: out_byte_take_bit k t)
      have "take_bit (nbits + 6 - 8) t1 = take_bit (nbits + 6 - 8) t2"
      proof -
        have "take_bit (nbits + 6 - 8) t1 = take_bit (nbits + 6 - 8) (take_bit (nbits + 6) t1)"
          by (simp add: take_bit_take_bit)
        also have "\<dots> = take_bit (nbits + 6 - 8) t2"
          by (simp only: t) (simp add: take_bit_take_bit)
        finally show ?thesis .
      qed
      then have "mp_a2b_loop t1 (nbits + 6 - 8) False (out @ [ucast (drop_bit (nbits + 6 - 8) t1 AND 255)]) cs
          = mp_a2b_loop t2 (nbits + 6 - 8) False (out @ [ucast (drop_bit (nbits + 6 - 8) t2 AND 255)]) cs"
        using Cons.IH[of "nbits + 6 - 8" t1 t2] Cons.prems(1) o by simp
      with Some True np show ?thesis by (simp add: Let_def t1_def t2_def)
    next
      case False
      then have "mp_a2b_loop t1 (nbits + 6) False out cs = mp_a2b_loop t2 (nbits + 6) False out cs"
        using Cons.IH[of "nbits + 6" t1 t2] t by simp
      with Some False np show ?thesis by (simp add: Let_def t1_def t2_def)
    qed
  qed
qed
lemma push_bit_or_of_nat:
  assumes "v < 64"
  shows "push_bit 6 (word_of_nat k :: 'a::len word) OR word_of_nat v = word_of_nat (k * 64 + v)"
proof -
  have "\<not> bit (push_bit 6 (word_of_nat k :: 'a word)) n \<or> \<not> bit (word_of_nat v :: 'a word) n" for n
    using bit_small_nat[of v 6 n] assms by (auto simp: bit_push_bit_iff bit_of_nat_iff)
  then have "push_bit 6 (word_of_nat k :: 'a word) OR word_of_nat v
      = push_bit 6 (word_of_nat k) + word_of_nat v"
    by (simp add: disjunctive_add)
  then show ?thesis
    by (simp add: push_bit_of_nat push_bit_eq_mult)
qed

lemma out_byte_of_nat:
  assumes "x < 2 ^ 32"
  shows "(ucast (drop_bit m (word_of_nat x :: 32 word) AND 255) :: byte) = word_of_nat (x div 2 ^ m)"
proof (rule word_unat_eq_iff[THEN iffD2])
  have "unat (word_of_nat x :: 32 word) = x" using assms by (simp add: unat_of_nat)
  then show "unat (ucast (drop_bit m (word_of_nat x :: 32 word) AND 255) :: byte) = unat (word_of_nat (x div 2 ^ m) :: byte)"
    by (simp only: and_255_take_bit unsigned_ucast_eq unsigned_take_bit_eq unat_drop_bit_eq)
      (simp add: drop_bit_eq_div take_bit_eq_mod unat_of_nat)
qed

lemma take_bit_of_nat_mod: "take_bit m (word_of_nat x :: 'a::len word) = take_bit m (word_of_nat (x mod 2 ^ m))"
  by (simp only: take_bit_of_nat) (simp add: take_bit_eq_mod)

lemma mp_a2b_loop_step:
  assumes c: "b64_sextet c = Some v" and k: "k < 2 ^ nbits" and n: "nbits < 8"
  shows "mp_a2b_loop (of_nat k) nbits hp out (c # cs) =
     (if 8 \<le> nbits + 6
      then mp_a2b_loop (of_nat ((k * 64 + v) mod 2 ^ (nbits - 2))) (nbits - 2) False
             (out @ [of_nat ((k * 64 + v) div 2 ^ (nbits - 2))]) cs
      else mp_a2b_loop (of_nat (k * 64 + v)) (nbits + 6) False out cs)"
proof -
  have v: "v < 64" using c by (rule b64_sextet_less)
  have np: "c \<noteq> b64_pad" using c by auto
  have "(2::nat) ^ nbits \<le> 2 ^ 7" using n by (intro power_increasing) simp_all
  then have x: "k * 64 + v < 2 ^ 32" using k v by simp
  have sh: "push_bit 6 (of_nat k :: 32 word) OR of_nat v = of_nat (k * 64 + v)"
    using v by (rule push_bit_or_of_nat)
  show ?thesis
  proof (cases "8 \<le> nbits + 6")
    case True
    have "mp_a2b_loop (of_nat (k * 64 + v)) (nbits - 2) False out' cs
        = mp_a2b_loop (of_nat ((k * 64 + v) mod 2 ^ (nbits - 2))) (nbits - 2) False out' cs" for out'
      using n by (intro mp_a2b_loop_take_bit take_bit_of_nat_mod) simp
    with True show ?thesis
      using c np sh out_byte_of_nat[OF x, of "nbits - 2"] by (simp add: Let_def)
  next
    case False
    with c np sh show ?thesis by (simp add: Let_def)
  qed
qed
lemma mp_a2b_loop_char:
  "n < 64 \<Longrightarrow> k < 2 ^ nbits \<Longrightarrow> nbits < 8 \<Longrightarrow>
   mp_a2b_loop (of_nat k) nbits hp out (b64_char n # cs) =
     (if 8 \<le> nbits + 6
      then mp_a2b_loop (of_nat ((k * 64 + n) mod 2 ^ (nbits - 2))) (nbits - 2) False
             (out @ [of_nat ((k * 64 + n) div 2 ^ (nbits - 2))]) cs
      else mp_a2b_loop (of_nat (k * 64 + n)) (nbits + 6) False out cs)"
  by (rule mp_a2b_loop_step) (simp_all add: b64_sextet_char)

lemma mp_group_arith:
  fixes a b :: byte
  shows "t < 16 \<Longrightarrow> (unat a div 4 * 64 + (unat a mod 4 * 16 + t)) div 16 = unat a"
    and "t < 16 \<Longrightarrow> (unat a div 4 * 64 + (unat a mod 4 * 16 + t)) mod 16 = t"
    and "(unat a div 4 * 64 + unat a mod 4 * 16) div 16 = unat a"
    and "u < 4 \<Longrightarrow> (unat b div 16 * 64 + (unat b mod 16 * 4 + u)) div 4 = unat b"
    and "u < 4 \<Longrightarrow> (unat b div 16 * 64 + (unat b mod 16 * 4 + u)) mod 4 = u"
    and "(unat b div 16 * 64 + unat b mod 16 * 4) div 4 = unat b"
proof -
  have e1: "unat a div 4 * 64 + (unat a mod 4 * 16 + t) = unat a * 16 + t" for t
    using div_mult_mod_eq[of "unat a" 4] by linarith
  have e2: "unat b div 16 * 64 + (unat b mod 16 * 4 + u) = unat b * 4 + u" for u
    using div_mult_mod_eq[of "unat b" 16] by linarith
  have e3: "unat a div 4 * 64 + unat a mod 4 * 16 = unat a * 16"
    using div_mult_mod_eq[of "unat a" 4] by linarith
  have e4: "unat b div 16 * 64 + unat b mod 16 * 4 = unat b * 4"
    using div_mult_mod_eq[of "unat b" 16] by linarith
  show "t < 16 \<Longrightarrow> (unat a div 4 * 64 + (unat a mod 4 * 16 + t)) div 16 = unat a"
    "t < 16 \<Longrightarrow> (unat a div 4 * 64 + (unat a mod 4 * 16 + t)) mod 16 = t"
    "(unat a div 4 * 64 + unat a mod 4 * 16) div 16 = unat a"
    "u < 4 \<Longrightarrow> (unat b div 16 * 64 + (unat b mod 16 * 4 + u)) div 4 = unat b"
    "u < 4 \<Longrightarrow> (unat b div 16 * 64 + (unat b mod 16 * 4 + u)) mod 4 = u"
    "(unat b div 16 * 64 + unat b mod 16 * 4) div 4 = unat b"
    by (simp_all only: e1 e2 e3 e4) simp_all
qed

lemma mp_a2b_loop_char_0:
  "n < 64 \<Longrightarrow> mp_a2b_loop 0 0 hp out (b64_char n # cs) = mp_a2b_loop (of_nat n) 6 False out cs"
  using mp_a2b_loop_char[of n 0 0 hp out cs] by simp

lemma mp_a2b_loop_group:
  "mp_a2b_loop s 0 hp out (b64encode (a # b # c # rest) @ tail)
     = mp_a2b_loop 0 0 False (out @ [a, b, c]) (b64encode rest @ tail)"
proof -
  have "mp_a2b_loop s 0 hp out (b64encode (a # b # c # rest) @ tail)
      = mp_a2b_loop 0 0 hp out (b64encode (a # b # c # rest) @ tail)"
    by (rule mp_a2b_loop_take_bit) simp_all
  also have "\<dots> = mp_a2b_loop 0 0 False (out @ [a, b, c]) (b64encode rest @ tail)"
    by (simp add: mp_a2b_loop_char mp_a2b_loop_char_0 sextet_bounds mp_group_arith
        del: of_nat_add of_nat_mult mp_a2b_loop.simps)
  finally show ?thesis .
qed
lemma mp_a2b_loop_skip:
  "\<forall>c\<in>set cs. b64_sextet c = None \<Longrightarrow> mp_a2b_loop s 0 hp out cs = Inr out"
  by (induction cs arbitrary: hp) auto

lemma mp_a2b_loop_b64encode:
  "\<forall>c\<in>set tail. b64_sextet c = None \<Longrightarrow>
   mp_a2b_loop s 0 hp out (b64encode xs @ tail) = Inr (out @ xs)"
proof (induction xs arbitrary: s hp out rule: b64encode.induct)
  case (1 a b c rest)
  then show ?case by (simp only: mp_a2b_loop_group) simp
next
  case (2 a b)
  have "mp_a2b_loop s 0 hp out (b64encode [a, b] @ tail) = mp_a2b_loop 0 0 hp out (b64encode [a, b] @ tail)"
    by (rule mp_a2b_loop_take_bit) simp_all
  also have "\<dots> = Inr (out @ [a, b])"
    by (simp add: mp_a2b_loop_char mp_a2b_loop_char_0 sextet_bounds mp_group_arith b64_char_64
        del: of_nat_add of_nat_mult mp_a2b_loop.simps) simp
  finally show ?case .
next
  case (3 a)
  have "mp_a2b_loop s 0 hp out (b64encode [a] @ tail) = mp_a2b_loop 0 0 hp out (b64encode [a] @ tail)"
    by (rule mp_a2b_loop_take_bit) simp_all
  also have "\<dots> = Inr (out @ [a])"
    by (simp add: mp_a2b_loop_char mp_a2b_loop_char_0 sextet_bounds mp_group_arith b64_char_64
        del: of_nat_add of_nat_mult mp_a2b_loop.simps) simp
  finally show ?case .
next
  case 4
  then show ?case by (simp add: mp_a2b_loop_skip)
qed


lemma length_b64encode: "length (b64encode xs) = 4 * ((length xs + 2) div 3)"
  by (induction xs rule: b64encode.induct) (simp_all, presburger)

section \<open>Round trips across the wire\<close>

text \<open>
  A write payload survives the upload: whatever bytes the client's
  \<open>writeblocks\<close> encodes with MicroPython's \<open>b2a_base64\<close> (trailing newline
  included), the server's \<open>base64.b64decode\<close> returns exactly those bytes.
\<close>

lemma b64decode_b2a_base64: "b64decode (b2a_base64 xs) = Inr xs"
  unfolding b64decode_def b2a_base64_def
  using cpy_a2b_loop_b64encode[of "[b64_newline]" 0 0 "[]" xs] by simp

text \<open>
  A read payload survives the download: whatever bytes the server's
  \<open>search\<close> handler encodes with \<open>base64.b64encode\<close>, the client's
  MicroPython \<open>a2b_base64\<close> returns exactly those bytes.
\<close>

lemma mp_a2b_base64_b64encode: "mp_a2b_base64 (b64encode xs) = Inr xs"
  unfolding mp_a2b_base64_def
  using mp_a2b_loop_b64encode[of "[]" 0 False "[]" xs] by simp

end
