(* ===== verification/Wire.thy ===== *)
theory Wire
  imports Prelude
begin

text \<open>
  Text formats on the wire other than Base64: Python's \<open>str\<close> of an integer
  and \<open>json.dumps\<close> of a flat dictionary of integers, the body of the
  server's \<open>/info/\<close> route.  Both are library behaviour, modelled from the
  Python documentation: decimal digits with a leading \<open>-\<close> for negative
  numbers, and the default separators \<open>", "\<close> and \<open>": "\<close>.
\<close>

fun py_str_nat :: "nat \<Rightarrow> string" where
  "py_str_nat n =
     (if n < 10 then [char_of (48 + n)]
      else py_str_nat (n div 10) @ [char_of (48 + n mod 10)])"

definition py_str_int :: "int \<Rightarrow> string" where
  "py_str_int i = (if i < 0 then ''-'' @ py_str_nat (nat (- i)) else py_str_nat (nat i))"

text \<open>\<open>sep.join(items)\<close>.\<close>

fun py_join :: "string \<Rightarrow> string list \<Rightarrow> string" where
  "py_join sep [] = []"
| "py_join sep [x] = x"
| "py_join sep (x # xs) = x @ sep @ py_join sep xs"

definition json_dumps :: "(string \<times> int) list \<Rightarrow> string" where
  "json_dumps d =
     ''{'' @ py_join '', ''
        (map (\<lambda>(k, v). CHR 0x22 # k @ [CHR 0x22] @ '': '' @ py_str_int v) d) @ ''}''"

text \<open>
  The HTML pages of the servers are triple-quoted literals whose every line
  is indented by four spaces: \<open>"""\<close>, a newline, the lines each followed
  by a newline, and four spaces before the closing \<open>"""\<close>.  \<open>dq\<close> and \<open>sq\<close> put a
  string in double and in single quotes.
\<close>

definition py_triple_quoted :: "string list \<Rightarrow> string" where
  "py_triple_quoted ls = concat (map (\<lambda>l. [CHR 10] @ ''    '' @ l) ls) @ [CHR 10] @ ''    ''"

definition dq :: "string \<Rightarrow> string" where
  "dq s = [CHR 0x22] @ s @ [CHR 0x22]"

definition sq :: "string \<Rightarrow> string" where
  "sq s = [CHR 0x27] @ s @ [CHR 0x27]"

text \<open>
  The digit recursion of \<open>py_str_nat\<close> is unfolded on demand
  (\<open>py_str_nat.simps[of n]\<close>): as a rewrite rule it loops on a variable.
\<close>

declare py_str_nat.simps [simp del]

text \<open>The characters of the ten digits, so that \<open>simp\<close> prints a numeral.\<close>

lemma char_of_eqI: "(of_char c :: nat) = n \<Longrightarrow> char_of n = c"
  by (metis char_of_char)

lemma char_of_digits [simp]:
  "char_of (48::nat) = CHR ''0''" "char_of (49::nat) = CHR ''1''" "char_of (50::nat) = CHR ''2''"
  "char_of (51::nat) = CHR ''3''" "char_of (52::nat) = CHR ''4''" "char_of (53::nat) = CHR ''5''"
  "char_of (54::nat) = CHR ''6''" "char_of (55::nat) = CHR ''7''" "char_of (56::nat) = CHR ''8''"
  "char_of (57::nat) = CHR ''9''"
  by (rule char_of_eqI, simp)+

lemma py_str_int_numeral [simp]: "py_str_int (numeral n) = py_str_nat (numeral n)"
  by (simp add: py_str_int_def)

end
