(* ===== verification/Json.thy ===== *)
theory Json
  imports Wire
begin

text \<open>
  \<open>json.loads\<close> on the fragment the repository sends: a flat object whose
  keys are plain strings (no escape sequences) and whose values are
  integers, with JSON whitespace anywhere between tokens.  The result is the
  list of members in order (a Python \<open>dict\<close> keeps the last value of a
  repeated key, \<open>py_dict_get\<close>).  Anything outside the fragment is \<open>None\<close>,
  which also stands for \<open>json.loads\<close>' \<open>ValueError\<close>.  One deviation: the
  model accepts leading zeros in a number.  The member loop takes fuel; the
  length of the text is always enough, since each member consumes at least
  one character.
\<close>

definition is_digit :: "char \<Rightarrow> bool" where
  "is_digit c \<longleftrightarrow> 48 \<le> (of_char c :: nat) \<and> (of_char c :: nat) \<le> 57"

definition is_ws :: "char \<Rightarrow> bool" where
  "is_ws c \<longleftrightarrow> c \<in> set [CHR 0x20, CHR 0x0A, CHR 0x0D, CHR 0x09]"

definition skip_ws :: "string \<Rightarrow> string" where
  "skip_ws s = dropWhile is_ws s"

fun digits_acc :: "nat \<Rightarrow> string \<Rightarrow> nat \<times> string" where
  "digits_acc acc [] = (acc, [])"
| "digits_acc acc (c # cs) =
     (if is_digit c then digits_acc (10 * acc + (of_char c - 48)) cs else (acc, c # cs))"

definition parse_nat :: "string \<Rightarrow> (nat \<times> string) option" where
  "parse_nat s = (case s of c # _ \<Rightarrow> if is_digit c then Some (digits_acc 0 s) else None | [] \<Rightarrow> None)"

definition parse_int :: "string \<Rightarrow> (int \<times> string) option" where
  "parse_int s =
     (case s of
        c # r \<Rightarrow> if c = CHR ''-'' then map_option (\<lambda>(n, r'). (- int n, r')) (parse_nat r)
                 else map_option (\<lambda>(n, r'). (int n, r')) (parse_nat s)
      | [] \<Rightarrow> None)"

definition parse_key :: "string \<Rightarrow> (string \<times> string) option" where
  "parse_key s =
     (case s of
        c # r \<Rightarrow>
          if c = CHR 0x22 then
            (let k = takeWhile (\<lambda>x. x \<noteq> CHR 0x22) r; r' = dropWhile (\<lambda>x. x \<noteq> CHR 0x22) r
             in if CHR 0x5C \<in> set k \<or> r' = [] then None else Some (k, tl r'))
          else None
      | [] \<Rightarrow> None)"

definition parse_member :: "string \<Rightarrow> ((string \<times> int) \<times> string) option" where
  "parse_member s =
     (case parse_key (skip_ws s) of
        None \<Rightarrow> None
      | Some (k, r) \<Rightarrow>
          (case skip_ws r of
             c # r2 \<Rightarrow>
               if c = CHR '':'' then
                 map_option (\<lambda>(v, r3). ((k, v), skip_ws r3)) (parse_int (skip_ws r2))
               else None
           | [] \<Rightarrow> None))"

fun parse_members :: "nat \<Rightarrow> string \<Rightarrow> ((string \<times> int) list \<times> string) option" where
  "parse_members 0 s = None"
| "parse_members (Suc fuel) s =
     (case parse_member s of
        None \<Rightarrow> None
      | Some (m, r) \<Rightarrow>
          (case r of
             c # r' \<Rightarrow>
               if c = CHR '','' then map_option (\<lambda>(ms, r''). (m # ms, r'')) (parse_members fuel r')
               else if c = CHR ''}'' then Some ([m], r')
               else None
           | [] \<Rightarrow> None))"

definition json_loads :: "string \<Rightarrow> (string \<times> int) list option" where
  "json_loads s =
     (case skip_ws s of
        c # r \<Rightarrow>
          if c \<noteq> CHR ''{'' then None
          else (case skip_ws r of
                  c' # r' \<Rightarrow>
                    if c' = CHR ''}'' then (if skip_ws r' = [] then Some [] else None)
                    else (case parse_members (length s) r of
                            Some (ms, rest) \<Rightarrow> if skip_ws rest = [] then Some ms else None
                          | None \<Rightarrow> None)
                | [] \<Rightarrow> None)
      | [] \<Rightarrow> None)"

text \<open>\<open>d[k]\<close> on the parsed object: the last member with key \<open>k\<close>; \<open>None\<close> is \<open>KeyError\<close>.\<close>

definition py_dict_get :: "('k \<times> 'v) list \<Rightarrow> 'k \<Rightarrow> 'v option" where
  "py_dict_get d k = map_of (rev d) k"

text \<open>A key \<open>json.dumps\<close> writes without escapes: no quote, no backslash.\<close>

definition json_plain :: "string \<Rightarrow> bool" where
  "json_plain k \<longleftrightarrow> CHR 0x22 \<notin> set k \<and> CHR 0x5C \<notin> set k"

definition json_member :: "string \<times> int \<Rightarrow> string" where
  "json_member kv = (case kv of (k, v) \<Rightarrow> CHR 0x22 # k @ [CHR 0x22] @ '': '' @ py_str_int v)"

section \<open>Lemmas\<close>

lemma is_digit_py_str_nat: "c \<in> set (py_str_nat n) \<Longrightarrow> is_digit c"
proof (induction n rule: py_str_nat.induct)
  case (1 n)
  show ?case
  proof (cases "n < 10")
    case True
    then show ?thesis using 1(2) by (auto simp: is_digit_def py_str_nat.simps[of n])
  next
    case False
    then show ?thesis using 1 by (auto simp: is_digit_def py_str_nat.simps[of n])
  qed
qed

lemma py_str_nat_not_Nil [simp]: "py_str_nat n \<noteq> []"
  by (subst py_str_nat.simps) simp

lemma digits_acc_append:
  "\<forall>c\<in>set xs. is_digit c \<Longrightarrow>
   digits_acc acc (xs @ rest) = digits_acc (foldl (\<lambda>a c. 10 * a + (of_char c - 48)) acc xs) rest"
  by (induction xs arbitrary: acc) simp_all

lemma foldl_py_str_nat:
  "foldl (\<lambda>a c. 10 * a + (of_char c - 48)) acc (py_str_nat n) = acc * 10 ^ length (py_str_nat n) + n"
proof (induction n arbitrary: acc rule: py_str_nat.induct)
  case (1 n)
  show ?case
  proof (cases "n < 10")
    case True
    then show ?thesis by (simp add: py_str_nat.simps[of n])
  next
    case False
    have "foldl (\<lambda>a c. 10 * a + (of_char c - 48)) acc (py_str_nat n)
        = 10 * (acc * 10 ^ length (py_str_nat (n div 10)) + n div 10) + n mod 10"
      using False 1 by (simp add: py_str_nat.simps[of n])
    also have "\<dots> = acc * 10 ^ length (py_str_nat n) + n"
      using False by (simp add: py_str_nat.simps[of n] algebra_simps)
    finally show ?thesis .
  qed
qed

lemma parse_nat_py_str_nat:
  assumes "rest = [] \<or> \<not> is_digit (hd rest)"
  shows "parse_nat (py_str_nat n @ rest) = Some (n, rest)"
proof -
  obtain c cs where c: "py_str_nat n = c # cs" by (cases "py_str_nat n") auto
  have d: "is_digit c" using is_digit_py_str_nat[of c n] c by simp
  have "digits_acc 0 (py_str_nat n @ rest) = digits_acc n rest"
    using digits_acc_append[of "py_str_nat n" 0 rest] is_digit_py_str_nat foldl_py_str_nat[of 0 n] by simp
  moreover have "digits_acc n rest = (n, rest)"
    using assms by (cases rest) simp_all
  ultimately show ?thesis using c d by (simp add: parse_nat_def)
qed

lemma parse_int_py_str_int:
  assumes "rest = [] \<or> \<not> is_digit (hd rest)"
  shows "parse_int (py_str_int i @ rest) = Some (i, rest)"
proof (cases "i < 0")
  case True
  then show ?thesis
    using parse_nat_py_str_nat[OF assms, of "nat (- i)"] by (simp add: py_str_int_def parse_int_def)
next
  case False
  obtain c cs where c: "py_str_nat (nat i) = c # cs" by (cases "py_str_nat (nat i)") auto
  have "c \<noteq> CHR ''-''" using is_digit_py_str_nat[of c "nat i"] c by (auto simp: is_digit_def)
  then show ?thesis
    using parse_nat_py_str_nat[OF assms, of "nat i"] False c by (simp add: py_str_int_def parse_int_def)
qed

lemma py_str_int_head: "\<exists>c cs. py_str_int i = c # cs \<and> (c = CHR ''-'' \<or> is_digit c)"
proof (cases "i < 0")
  case True
  then show ?thesis by (simp add: py_str_int_def)
next
  case False
  obtain c cs where c: "py_str_nat (nat i) = c # cs" by (cases "py_str_nat (nat i)") auto
  then show ?thesis using False is_digit_py_str_nat[of c "nat i"] by (simp add: py_str_int_def)
qed

lemma py_str_int_chars: "c \<in> set (py_str_int i) \<Longrightarrow> c = CHR ''-'' \<or> is_digit c"
  unfolding py_str_int_def by (cases "i < 0") (auto dest: is_digit_py_str_nat)

lemma skip_ws_prefix:
  "\<forall>x\<in>set p. is_ws x \<Longrightarrow> \<not> is_ws c \<Longrightarrow> skip_ws (p @ c # cs) = c # cs"
  by (induction p) (simp_all add: skip_ws_def)

lemma skip_ws_Cons [simp]: "\<not> is_ws c \<Longrightarrow> skip_ws (c # cs) = c # cs"
  by (simp add: skip_ws_def)

lemma not_ws_chars [simp]:
  "\<not> is_ws (CHR 0x22)" "\<not> is_ws (CHR '':'')" "\<not> is_ws (CHR '','')" "\<not> is_ws (CHR ''}'')"
  "\<not> is_ws (CHR ''-'')" "\<not> is_ws (CHR ''{'')" "is_ws (CHR '' '')"
  by (simp_all add: is_ws_def)

lemma not_digit_chars [simp]: "\<not> is_digit (CHR '','')" "\<not> is_digit (CHR ''}'')"
  by (simp_all add: is_digit_def)

lemma is_digit_not_ws: "is_digit c \<Longrightarrow> \<not> is_ws c"
  by (auto simp: is_digit_def is_ws_def)

lemma skip_ws_py_str_int [simp]: "skip_ws (py_str_int v @ rest) = py_str_int v @ rest"
  using py_str_int_head[of v] by (auto dest: is_digit_not_ws)

lemma parse_member_json_member:
  assumes "json_plain (fst kv)" "\<forall>x\<in>set p. is_ws x" "rest = [] \<or> \<not> is_digit (hd rest)"
  shows "parse_member (p @ json_member kv @ rest) = Some (kv, skip_ws rest)"
proof -
  obtain k v where kv: "kv = (k, v)" by (cases kv)
  have q: "CHR 0x22 \<notin> set k" "CHR 0x5C \<notin> set k" using assms(1) kv by (simp_all add: json_plain_def)
  have s: "skip_ws (p @ json_member kv @ rest) = json_member kv @ rest"
    using skip_ws_prefix[OF assms(2)] kv by (simp add: json_member_def)
  have tw1: "takeWhile (\<lambda>x. x \<noteq> CHR 0x22) (k @ CHR 0x22 # t) = k" for t
    using q(1) by (induction k) auto
  have tw2: "dropWhile (\<lambda>x. x \<noteq> CHR 0x22) (k @ CHR 0x22 # t) = CHR 0x22 # t" for t
    using q(1) by (induction k) auto
  have "parse_key (json_member kv @ rest) = Some (k, '': '' @ py_str_int v @ rest)"
    using q kv tw1 tw2 by (simp add: parse_key_def json_member_def Let_def)
  moreover have "skip_ws ('' '' @ py_str_int v @ rest) = py_str_int v @ rest"
    using skip_ws_py_str_int[of v rest] by (simp add: skip_ws_def)
  ultimately show ?thesis
    using s kv parse_int_py_str_int[OF assms(3), of v] by (simp add: parse_member_def)
qed

lemma parse_members_join:
  "ms \<noteq> [] \<Longrightarrow> \<forall>kv\<in>set ms. json_plain (fst kv) \<Longrightarrow> \<forall>x\<in>set p. is_ws x \<Longrightarrow>
   length ms \<le> fuel \<Longrightarrow>
   parse_members fuel (p @ py_join '', '' (map json_member ms) @ ''}'' @ rest) = Some (ms, rest)"
proof (induction ms arbitrary: p fuel)
  case Nil
  then show ?case by simp
next
  case (Cons m ms)
  obtain f where f: "fuel = Suc f" "length ms \<le> f" using Cons.prems(4) by (cases fuel) auto
  show ?case
  proof (cases ms)
    case Nil
    have "parse_member (p @ json_member m @ ''}'' @ rest) = Some (m, ''}'' @ rest)"
      using parse_member_json_member[of m p "''}'' @ rest"] Cons.prems(2,3) by simp
    then show ?thesis using Nil f by simp
  next
    case (Cons m' ms')
    have "parse_member (p @ json_member m @ '', '' @ py_join '', '' (map json_member ms) @ ''}'' @ rest)
        = Some (m, '', '' @ py_join '', '' (map json_member ms) @ ''}'' @ rest)"
      using parse_member_json_member[of m p "'', '' @ py_join '', '' (map json_member ms) @ ''}'' @ rest"]
        Cons.prems(2,3) by simp
    moreover have "parse_members f ('' '' @ py_join '', '' (map json_member ms) @ ''}'' @ rest) = Some (ms, rest)"
      using Cons.IH[of "'' ''" f] Cons.prems(2) f(2) \<open>ms = m' # ms'\<close> by simp
    ultimately show ?thesis using f \<open>ms = m' # ms'\<close> by simp
  qed
qed

lemma length_py_join_members: "length ms \<le> length (py_join '', '' (map json_member ms))"
proof (induction ms)
  case Nil
  then show ?case by simp
next
  case (Cons m ms)
  have "1 \<le> length (json_member m)" by (simp add: json_member_def split: prod.splits)
  then show ?case using Cons.IH by (cases ms) simp_all
qed

lemma json_dumps_members: "json_dumps d = ''{'' @ py_join '', '' (map json_member d) @ ''}''"
  unfolding json_dumps_def json_member_def [abs_def] by (simp add: case_prod_unfold)

lemma json_loads_json_dumps:
  assumes "d \<noteq> []" "\<forall>kv\<in>set d. json_plain (fst kv)"
  shows "json_loads (json_dumps d) = Some d"
proof -
  let ?j = "py_join '', '' (map json_member d)"
  obtain m ms where d: "d = m # ms" using assms(1) by (cases d) auto
  obtain k v where m: "m = (k, v)" by (cases m)
  have j: "?j @ ''}'' = CHR 0x22 # tl (?j @ ''}'')"
    using d m by (cases ms) (simp_all add: json_member_def)
  have "length d \<le> length (json_dumps d)"
    using length_py_join_members[of d] by (simp add: json_dumps_members)
  then have "parse_members (length (json_dumps d)) (?j @ ''}'') = Some (d, [])"
    using parse_members_join[OF assms(1,2), of "[]" _ "[]"] by simp
  then show ?thesis
    by (subst json_loads_def, simp add: json_dumps_members, subst (1 2) j, simp add: skip_ws_def)
qed

lemma length_skip_ws: "length (skip_ws s) \<le> length s"
  by (simp add: skip_ws_def length_dropWhile_le)

lemma length_digits_acc: "length (snd (digits_acc acc s)) \<le> length s"
  by (induction acc s rule: digits_acc.induct) (auto simp: le_SucI)

lemma parse_nat_shorter: "parse_nat s = Some (n, r) \<Longrightarrow> length r < length s"
  using length_digits_acc[of "10 * 0 + (of_char (hd s) - 48)" "tl s"]
  by (cases s) (auto simp: parse_nat_def split: if_splits)

lemma parse_int_shorter: "parse_int s = Some (i, r) \<Longrightarrow> length r < length s"
  by (cases s) (auto simp: parse_int_def split: if_splits dest!: parse_nat_shorter)

lemma parse_key_shorter: "parse_key s = Some (k, r) \<Longrightarrow> length r < length s"
  using length_dropWhile_le[of "\<lambda>x. x \<noteq> CHR 0x22" "tl s"]
  by (cases s) (auto simp: parse_key_def Let_def split: if_splits)

lemma parse_member_shorter: "parse_member s = Some (m, r) \<Longrightarrow> length r < length s"
proof -
  assume h: "parse_member s = Some (m, r)"
  then obtain k r1 c r2 v r3 where
      k: "parse_key (skip_ws s) = Some (k, r1)" and c: "skip_ws r1 = c # r2"
      and v: "parse_int (skip_ws r2) = Some (v, r3)" and r: "r = skip_ws r3"
    by (auto simp: parse_member_def split: option.splits list.splits if_splits)
  have "length r1 < length s" using parse_key_shorter[OF k] length_skip_ws[of s] by simp
  moreover have "length r2 < length r1" using length_skip_ws[of r1] c by simp
  moreover have "length r3 < length r2" using parse_int_shorter[OF v] length_skip_ws[of r2] by simp
  ultimately show ?thesis using length_skip_ws[of r3] r by simp
qed

lemma parse_member_Nil: "parse_member [] = None"
  by (simp add: parse_member_def skip_ws_def parse_key_def)

text \<open>
  The member loop of \<open>json_loads\<close> never runs out of fuel: every step
  consumes input (a member and its separator), so with at least as many
  units of fuel as the text has characters, more fuel changes nothing.
  \<open>json_loads s\<close> runs the loop on a suffix of \<open>s\<close> with \<open>len(s)\<close> units, so
  its \<open>None\<close> is always a parse error of \<open>json.loads\<close>, never exhausted fuel.
\<close>

lemma parse_members_fuel: "length s \<le> f \<Longrightarrow> f \<le> g \<Longrightarrow> parse_members f s = parse_members g s"
proof (induction f arbitrary: s g)
  case 0
  then show ?case by (cases g) (simp_all add: parse_member_Nil)
next
  case (Suc f)
  obtain g' where g: "g = Suc g'" "f \<le> g'" using Suc.prems(2) by (cases g) auto
  show ?case
  proof (cases "parse_member s")
    case None
    then show ?thesis using g by simp
  next
    case (Some a)
    obtain m r where a: "a = (m, r)" by (cases a)
    have lr: "length r < length s" using parse_member_shorter Some a by simp
    show ?thesis
    proof (cases r)
      case Nil
      then show ?thesis using g Some a by simp
    next
      case (Cons c r')
      have "length r' \<le> f" using lr Cons Suc.prems(1) by simp
      then have "parse_members f r' = parse_members g' r'" using Suc.IH g(2) by blast
      then show ?thesis using g Some a Cons by simp
    qed
  qed
qed

end
