(* ===== verification/BlockStore.thy ===== *)
theory BlockStore
  imports Base64 Wire
begin

text \<open>
  The block store service, \<open>src/BLD-Remote/server/main.py\<close>: a Flask
  application that keeps the whole block device in one global \<open>bytearray\<close>
  (\<open>block_level_data\<close>), loaded from \<open>./bld.bin\<close> at start-up, and serves
  it over HTTP.  The state is the buffer and the file; every route is a
  function from a request and the state to a response and the new state.
  Flask itself is not modelled: routing is the function \<open>handle\<close> on a
  datatype of requests whose query parameters are already integers, and an
  exception escaping a handler is Flask's 500 response.
\<close>

section \<open>Constants and state\<close>

definition BLD_MIN_SECTOR_SIZE :: nat where
  "BLD_MIN_SECTOR_SIZE = 512"

definition BLD_SECTOR_COUNT :: nat where
  "BLD_SECTOR_COUNT = 512"

abbreviation bld_size :: nat where
  "bld_size \<equiv> BLD_SECTOR_COUNT * BLD_MIN_SECTOR_SIZE"

record server_state =
  block_level_data :: "byte list"
  bld_file :: "byte list option"

text \<open>
  Start-up (the module's top level): when \<open>./bld.bin\<close> does not exist it is
  created with \<open>BLD_SECTOR_COUNT * BLD_MIN_SECTOR_SIZE\<close> zero bytes; then the
  file, whatever its size, is read into the buffer.
\<close>

definition server_start :: "byte list option \<Rightarrow> server_state" where
  "server_start file =
     (let f = (case file of None \<Rightarrow> replicate bld_size 0 | Some c \<Rightarrow> c)
      in \<lparr>block_level_data = f, bld_file = Some f\<rparr>)"

section \<open>Requests and responses\<close>

datatype http_method = GET | POST

text \<open>A response: its status code and the bytes of its body (\<open>res.content\<close>).\<close>

record http_response =
  status :: nat
  body :: "byte list"

definition text_response :: "nat \<Rightarrow> string \<Rightarrow> http_response" where
  "text_response code msg = \<lparr>status = code, body = ascii_bytes msg\<rparr>"

text \<open>An exception that escapes a view function becomes Flask's 500 response.\<close>

definition server_error :: http_response where
  "server_error = text_response 500 ''Internal Server Error''"

section \<open>The data route \<open>/data/\<close>\<close>

text \<open>
  The POST branch's copy loop
  \<open>for i in range(0, len(data)): block_level_data[start_index + i] = data[i]\<close>:
  one item assignment per decoded byte, in order.  An assignment outside the
  buffer raises \<open>IndexError\<close>, which leaves the bytes already written in place;
  the flag in the result says whether the loop raised.
\<close>

fun write_bytes :: "byte list \<Rightarrow> int \<Rightarrow> byte list \<Rightarrow> byte list \<times> bool" where
  "write_bytes buf idx [] = (buf, False)"
| "write_bytes buf idx (d # ds) =
     (case py_setitem buf idx d of
        None \<Rightarrow> (buf, True)
      | Some buf' \<Rightarrow> write_bytes buf' (idx + 1) ds)"

text \<open>
  The view function \<open>search\<close>: the two bounds checks on the query parameters
  \<open>ssi\<close> and \<open>sc\<close>, then the write (POST) or the read (GET) of the range.  The
  POST body is decoded by \<open>base64.b64decode\<close>; a decoding error escapes as an
  exception.
\<close>

definition search ::
  "http_method \<Rightarrow> int \<Rightarrow> int \<Rightarrow> byte list \<Rightarrow> server_state \<Rightarrow> http_response \<times> server_state" where
  "search method start_sector_index sector_count data s =
     (if int BLD_SECTOR_COUNT \<le> start_sector_index then
        (text_response 400 ''First requested sector is out-of-bounds'', s)
      else if int BLD_SECTOR_COUNT < start_sector_index + sector_count then
        (text_response 400 ''Out-of-bounds sector(s) requested'', s)
      else if method = POST then
        (let start_index = start_sector_index * int BLD_MIN_SECTOR_SIZE in
         case b64decode data of
           Inl _ \<Rightarrow> (server_error, s)
         | Inr bytes \<Rightarrow>
             (case write_bytes (block_level_data s) start_index bytes of
               (buf, False) \<Rightarrow> (\<lparr>status = 200, body = []\<rparr>, s\<lparr>block_level_data := buf\<rparr>)
             | (buf, True) \<Rightarrow> (server_error, s\<lparr>block_level_data := buf\<rparr>)))
      else
        (let start_index = start_sector_index * int BLD_MIN_SECTOR_SIZE;
             end_index = start_index + sector_count * int BLD_MIN_SECTOR_SIZE
         in (\<lparr>status = 200,
               body = b64encode (py_slice (block_level_data s) start_index end_index)\<rparr>,
             s)))"

section \<open>The other routes\<close>

text \<open>
  The two pages of the control panel: the index served by \<open>route_root\<close> and
  the report \<open>route_save\<close> returns.  Flask sends a returned \<open>str\<close> as a 200
  response whose body is its UTF-8 bytes.
\<close>

definition control_panel_page :: string where
  "control_panel_page = py_triple_quoted
     [''<!DOCTYPE html>'', ''<html lang='' @ dq ''en-US'' @ ''>'', ''<head>'',
      ''<meta charset='' @ dq ''utf-8'' @ ''>'', ''<title>BLD-RemoteJson Server Control Panel</title>'',
      ''</head>'', ''<body>'', ''<h1>BLD-RemoteJson Server Control Panel</h1>'', ''<h2>Actions</h2>'',
      ''<ul>'', ''<li><a href='' @ dq ''/save'' @ ''>Save BLD to file.</a></li>'',
      ''<li><a href='' @ dq ''/download'' @ ''>Download BLD to local machine.</a></li>'',
      ''<li><a href='' @ dq ''/info'' @ ''>Show BLD info in JSON format.</a></li>'',
      ''</ul>'', ''</body>'', ''</html>'']"

definition save_report_page :: string where
  "save_report_page = py_triple_quoted
     [''<!DOCTYPE html>'', ''<html lang='' @ dq ''en-US'' @ ''>'', ''<head>'',
      ''<meta charset='' @ dq ''utf-8'' @ ''>'', ''<title>BLD-RemoteJson Server Control Panel</title>'',
      ''</head>'', ''<body>'', ''<h1>BLD-RemoteJson Server Control Panel</h1>'', ''<h2>Report</h2>'',
      ''<p>The file was properly saved on the server'' @ [CHR 0x27] @ ''s side.</p>'',
      ''<ul><li><a href='' @ dq ''/'' @ ''>Return to main panel.</a></li></ul>'',
      ''</body>'', ''</html>'']"

definition route_root :: "server_state \<Rightarrow> http_response \<times> server_state" where
  "route_root s = (\<lparr>status = 200, body = ascii_bytes control_panel_page\<rparr>, s)"

definition route_info :: "int \<Rightarrow> server_state \<Rightarrow> http_response \<times> server_state" where
  "route_info now s =
     (\<lparr>status = 200,
       body = ascii_bytes (json_dumps [(''sector_size'', int BLD_MIN_SECTOR_SIZE),
                                       (''sector_count'', int BLD_SECTOR_COUNT),
                                       (''server_time'', now)])\<rparr>, s)"

definition route_download :: "server_state \<Rightarrow> http_response \<times> server_state" where
  "route_download s = (\<lparr>status = 200, body = block_level_data s\<rparr>, s)"

definition route_save :: "server_state \<Rightarrow> http_response \<times> server_state" where
  "route_save s =
     (\<lparr>status = 200, body = ascii_bytes save_report_page\<rparr>,
      s\<lparr>bld_file := Some (block_level_data s)\<rparr>)"

datatype request =
    RootRequest
  | DataRequest http_method int int "byte list"
  | InfoRequest
  | DownloadRequest
  | SaveRequest

text \<open>Flask's routing table; \<open>now\<close> is \<open>int(time.time())\<close> at the request.\<close>

fun handle :: "int \<Rightarrow> request \<Rightarrow> server_state \<Rightarrow> http_response \<times> server_state" where
  "handle now RootRequest s = route_root s"
| "handle now (DataRequest m ssi sc d) s = search m ssi sc d s"
| "handle now InfoRequest s = route_info now s"
| "handle now DownloadRequest s = route_download s"
| "handle now SaveRequest s = route_save s"

section \<open>Well-formed and reachable states\<close>

definition wf_server :: "server_state \<Rightarrow> bool" where
  "wf_server s \<longleftrightarrow> length (block_level_data s) = bld_size"

text \<open>
  The states the server can reach: it starts without \<open>./bld.bin\<close> and then
  serves any sequence of requests.
\<close>

inductive server_reachable :: "server_state \<Rightarrow> bool" where
  start: "server_reachable (server_start None)"
| step: "server_reachable s \<Longrightarrow> server_reachable (snd (handle now r s))"


section \<open>The copy loop\<close>

lemma write_bytes_in_range:
  "0 \<le> idx \<Longrightarrow> nat idx + length ds \<le> length buf \<Longrightarrow>
   write_bytes buf idx ds = (overwrite buf (nat idx) ds, False)"
proof (induction ds arbitrary: buf idx)
  case Nil
  then show ?case by simp
next
  case (Cons d ds)
  have set: "py_setitem buf idx d = Some (buf[nat idx := d])"
    using Cons.prems by (intro py_setitem_nonneg) simp_all
  have "write_bytes (buf[nat idx := d]) (idx + 1) ds = (overwrite (buf[nat idx := d]) (nat (idx + 1)) ds, False)"
    using Cons.prems by (intro Cons.IH) simp_all
  moreover have "nat (idx + 1) = Suc (nat idx)" using Cons.prems(1) by simp
  ultimately show ?case
    using Cons.prems set by (simp add: overwrite_Cons)
qed

lemma write_bytes_past_end:
  "0 \<le> idx \<Longrightarrow> nat idx \<le> length buf \<Longrightarrow> length buf < nat idx + length ds \<Longrightarrow>
   write_bytes buf idx ds = (overwrite buf (nat idx) (take (length buf - nat idx) ds), True)"
proof (induction ds arbitrary: buf idx)
  case Nil
  then show ?case by simp
next
  case (Cons d ds)
  show ?case
  proof (cases "nat idx = length buf")
    case True
    then have "py_setitem buf idx d = None"
      using Cons.prems(1) by (simp add: py_setitem_def py_index_None_iff)
    with True show ?thesis by (simp add: overwrite_def)
  next
    case False
    with Cons.prems have lt: "nat idx < length buf" by simp
    have set: "py_setitem buf idx d = Some (buf[nat idx := d])"
      using Cons.prems(1) lt by (intro py_setitem_nonneg) simp_all
    have n: "nat (idx + 1) = Suc (nat idx)" using Cons.prems(1) by simp
    have "write_bytes (buf[nat idx := d]) (idx + 1) ds
        = (overwrite (buf[nat idx := d]) (nat (idx + 1)) (take (length (buf[nat idx := d]) - nat (idx + 1)) ds), True)"
      using Cons.prems lt n by (intro Cons.IH) simp_all
    then have "write_bytes (buf[nat idx := d]) (idx + 1) ds
        = (overwrite (buf[nat idx := d]) (Suc (nat idx)) (take (length buf - Suc (nat idx)) ds), True)"
      by (simp only: n length_list_update)
    moreover have "take (length buf - nat idx) (d # ds) = d # take (length buf - Suc (nat idx)) ds"
    proof -
      have e: "length buf - nat idx = Suc (length buf - Suc (nat idx))" using lt by simp
      show ?thesis by (simp only: e take_Suc_Cons)
    qed
    ultimately show ?thesis
      using set lt by (simp add: overwrite_Cons)
  qed
qed

lemma length_write_bytes: "length (fst (write_bytes buf idx ds)) = length buf"
  by (induction ds arbitrary: buf idx) (auto split: option.splits dest: length_py_setitem)

lemma write_bytes_negative:
  "idx < 0 \<Longrightarrow> 0 \<le> idx + int (length buf) \<Longrightarrow> idx + int (length ds) \<le> 0 \<Longrightarrow>
   write_bytes buf idx ds = (overwrite buf (nat (idx + int (length buf))) ds, False)"
proof (induction ds arbitrary: buf idx)
  case Nil
  then show ?case by simp
next
  case (Cons d ds)
  let ?j = "nat (idx + int (length buf))"
  have j: "?j < length buf" using Cons.prems(1,2) by simp
  have set: "py_setitem buf idx d = Some (buf[?j := d])"
    using Cons.prems(1,2) by (simp add: py_setitem_def py_index_def Let_def)
  show ?case
  proof (cases "idx + 1 < 0")
    case True
    have n: "nat (idx + 1 + int (length buf)) = Suc ?j" using Cons.prems(2) by simp
    have "write_bytes (buf[?j := d]) (idx + 1) ds
        = (overwrite (buf[?j := d]) (nat (idx + 1 + int (length (buf[?j := d])))) ds, False)"
      using Cons.prems True by (intro Cons.IH) simp_all
    moreover have "?j + length (d # ds) \<le> length buf" using Cons.prems(2,3) by simp
    ultimately show ?thesis
      using set by (simp add: n overwrite_Cons)
  next
    case False
    have "idx + 1 + int (length ds) \<le> 0" using Cons.prems(3) by simp
    with False Cons.prems(1) have "idx = -1" "length ds = 0" by linarith+
    then have "ds = []" "idx = -1" by simp_all
    then show ?thesis
      using set j by (simp add: overwrite_def upd_conv_take_nth_drop)
  qed
qed

lemma search_get:
  assumes "wf_server s" "0 \<le> ssi" "ssi < int BLD_SECTOR_COUNT" "0 \<le> sc"
    "ssi + sc \<le> int BLD_SECTOR_COUNT"
  shows "search GET ssi sc d s =
     (\<lparr>status = 200, body = (b64encode (take (nat sc * BLD_MIN_SECTOR_SIZE)
        (drop (nat ssi * BLD_MIN_SECTOR_SIZE) (block_level_data s))))\<rparr>, s)"
proof -
  have len: "length (block_level_data s) = bld_size" using assms(1) by (simp add: wf_server_def)
  have "py_slice (block_level_data s) (ssi * int BLD_MIN_SECTOR_SIZE)
          (ssi * int BLD_MIN_SECTOR_SIZE + sc * int BLD_MIN_SECTOR_SIZE)
        = take (nat sc * BLD_MIN_SECTOR_SIZE) (drop (nat ssi * BLD_MIN_SECTOR_SIZE) (block_level_data s))"
    using assms(2-5) len
    by (subst py_slice_in_range) (simp_all add: BLD_MIN_SECTOR_SIZE_def BLD_SECTOR_COUNT_def nat_mult_distrib nat_add_distrib)
  then show ?thesis
    using assms(3,5) by (simp add: search_def Let_def)
qed

lemma search_post:
  assumes "wf_server s" "0 \<le> ssi" "ssi < int BLD_SECTOR_COUNT" "ssi + sc \<le> int BLD_SECTOR_COUNT"
    "b64decode d = Inr bytes" "nat ssi * BLD_MIN_SECTOR_SIZE + length bytes \<le> bld_size"
  shows "search POST ssi sc d s =
     (\<lparr>status = 200, body = []\<rparr>,
      s\<lparr>block_level_data := overwrite (block_level_data s) (nat ssi * BLD_MIN_SECTOR_SIZE) bytes\<rparr>)"
proof -
  have len: "length (block_level_data s) = bld_size" using assms(1) by (simp add: wf_server_def)
  have n: "nat (ssi * int BLD_MIN_SECTOR_SIZE) = nat ssi * BLD_MIN_SECTOR_SIZE"
    using assms(2) by (simp add: nat_mult_distrib)
  have "write_bytes (block_level_data s) (ssi * int BLD_MIN_SECTOR_SIZE) bytes
      = (overwrite (block_level_data s) (nat ssi * BLD_MIN_SECTOR_SIZE) bytes, False)"
    using assms(2,6) len by (subst write_bytes_in_range) (simp_all add: n)
  then show ?thesis
    using assms(3-5) by (simp add: search_def Let_def)
qed

lemma length_write_bytes_eq: "write_bytes buf idx ds = (buf', e) \<Longrightarrow> length buf' = length buf"
  using length_write_bytes[of buf idx ds] by simp

lemma wf_search: "wf_server s \<Longrightarrow> wf_server (snd (search m ssi sc d s))"
  by (auto simp: search_def Let_def wf_server_def split: sum.splits prod.splits bool.splits
      dest: length_write_bytes_eq)

lemma wf_handle: "wf_server s \<Longrightarrow> wf_server (snd (handle now r s))"
  by (cases r) (simp_all add: wf_search, simp_all add: route_root_def route_info_def route_download_def route_save_def wf_server_def)

lemma wf_overwrite_len:
  "wf_server s \<Longrightarrow> i + length ys \<le> bld_size \<Longrightarrow>
   wf_server (s\<lparr>block_level_data := overwrite (block_level_data s) i ys\<rparr>)"
  by (simp add: wf_server_def)

lemma block_level_data_server_start [simp]:
  "block_level_data (server_start f) = (case f of None \<Rightarrow> replicate bld_size 0 | Some c \<Rightarrow> c)"
  by (simp add: server_start_def Let_def)

lemma wf_server_start_None: "wf_server (server_start None)"
  by (simp add: server_start_def wf_server_def Let_def)

section \<open>Properties of the block store\<close>

text \<open>
  C5. A request whose first sector is not below \<open>BLD_SECTOR_COUNT\<close>, or whose
  range ends past it, is answered 400 and leaves the state unchanged, for
  either method and any body.
\<close>

theorem search_rejects:
  "int BLD_SECTOR_COUNT \<le> ssi \<or> int BLD_SECTOR_COUNT < ssi + sc \<Longrightarrow>
   status (fst (search m ssi sc d s)) = 400 \<and> snd (search m ssi sc d s) = s"
  by (auto simp: search_def text_response_def)

lemma search_rejects_witness:
  "status (fst (search GET 512 1 [] (server_start None))) = 400 \<and>
   snd (search POST 511 2 [] (server_start None)) = server_start None"
  using search_rejects[of 512 1 GET "[]" "server_start None"]
    search_rejects[of 511 2 POST "[]" "server_start None"]
  by (simp add: BLD_SECTOR_COUNT_def)

text \<open>
  C6. Every reachable server state holds a buffer of exactly
  \<open>BLD_SECTOR_COUNT * BLD_MIN_SECTOR_SIZE\<close> bytes: no request, accepted, rejected
  or failing, changes the size of the device.
\<close>

theorem server_reachable_wf: "server_reachable s \<Longrightarrow> wf_server s"
proof (induction rule: server_reachable.induct)
  case start
  show ?case by (simp add: server_start_def wf_server_def Let_def)
next
  case (step s now r)
  from step.IH show ?case by (rule wf_handle)
qed

lemma server_reachable_wf_witness:
  "wf_server (snd (handle 0 (DataRequest POST 0 1 (b2a_base64 [1, 2, 3])) (server_start None)))"
  by (rule server_reachable_wf) (rule server_reachable.step[OF server_reachable.start])

text \<open>
  C7. A POST whose decoded payload runs past the end of the buffer is not
  rejected up front: the copy loop writes the bytes that fit, then raises
  \<open>IndexError\<close>, and the client gets a 500 while the buffer keeps the partial
  write.
\<close>

theorem search_post_past_end:
  assumes "wf_server s" "0 \<le> ssi" "ssi < int BLD_SECTOR_COUNT" "ssi + sc \<le> int BLD_SECTOR_COUNT"
    "b64decode d = Inr bytes" "bld_size < nat ssi * BLD_MIN_SECTOR_SIZE + length bytes"
  shows "search POST ssi sc d s =
     (server_error,
      s\<lparr>block_level_data := overwrite (block_level_data s) (nat ssi * BLD_MIN_SECTOR_SIZE)
          (take (bld_size - nat ssi * BLD_MIN_SECTOR_SIZE) bytes)\<rparr>)"
proof -
  have len: "length (block_level_data s) = bld_size" using assms(1) by (simp add: wf_server_def)
  have n: "nat (ssi * int BLD_MIN_SECTOR_SIZE) = nat ssi * BLD_MIN_SECTOR_SIZE"
    using assms(2) by (simp add: nat_mult_distrib)
  have le: "nat ssi * BLD_MIN_SECTOR_SIZE \<le> bld_size"
    using assms(2,3) by (simp add: BLD_MIN_SECTOR_SIZE_def BLD_SECTOR_COUNT_def)
  have "write_bytes (block_level_data s) (ssi * int BLD_MIN_SECTOR_SIZE) bytes
      = (overwrite (block_level_data s) (nat ssi * BLD_MIN_SECTOR_SIZE)
           (take (bld_size - nat ssi * BLD_MIN_SECTOR_SIZE) bytes), True)"
    using assms(2,6) len le by (subst write_bytes_past_end) (simp_all add: n)
  then show ?thesis
    using assms(3-5) by (simp add: search_def Let_def)
qed

lemma search_post_past_end_witness:
  "search POST 511 1 (b2a_base64 (replicate 1024 9)) (server_start None) =
     (server_error, (server_start None)\<lparr>block_level_data :=
        overwrite (replicate 262144 0) 261632 (replicate 512 9)\<rparr>)"
  using search_post_past_end[OF wf_server_start_None, of 511 1 "b2a_base64 (replicate 1024 9)"
      "replicate 1024 9"]
  by (simp add: b64decode_b2a_base64 BLD_SECTOR_COUNT_def BLD_MIN_SECTOR_SIZE_def)

text \<open>
  C8. The body of an accepted GET is the Base64 text of exactly
  \<open>sc * BLD_MIN_SECTOR_SIZE\<close> bytes: its length is four characters per
  started group of three bytes.
\<close>

theorem length_search_get:
  assumes "wf_server s" "0 \<le> ssi" "ssi < int BLD_SECTOR_COUNT" "0 \<le> sc" "ssi + sc \<le> int BLD_SECTOR_COUNT"
  shows "length (body (fst (search GET ssi sc d s))) = 4 * ((nat sc * BLD_MIN_SECTOR_SIZE + 2) div 3)"
proof -
  have len: "length (block_level_data s) = bld_size" using assms(1) by (simp add: wf_server_def)
  have "nat ssi * BLD_MIN_SECTOR_SIZE + nat sc * BLD_MIN_SECTOR_SIZE \<le> bld_size"
    using assms(2-5) by (simp add: BLD_MIN_SECTOR_SIZE_def BLD_SECTOR_COUNT_def)
  then show ?thesis
    using assms len by (simp add: search_get length_b64encode)
qed

lemma length_search_get_witness:
  "length (body (fst (search GET 0 1 [] (server_start None)))) = 684"
  using length_search_get[OF wf_server_start_None, of 0 1 "[]"]
  by (simp add: BLD_SECTOR_COUNT_def BLD_MIN_SECTOR_SIZE_def)

text \<open>
  C9. A POST writes as many bytes as its body decodes to, whatever \<open>sc\<close> says:
  \<open>sc\<close> only enters the bounds check.  A payload that the client encoded with
  \<open>b2a_base64\<close> lands at the start sector, however long.
\<close>

theorem search_post_overlong:
  assumes "wf_server s" "0 \<le> ssi" "ssi < int BLD_SECTOR_COUNT" "ssi + sc \<le> int BLD_SECTOR_COUNT"
    "nat ssi * BLD_MIN_SECTOR_SIZE + length bytes \<le> bld_size"
  shows "search POST ssi sc (b2a_base64 bytes) s =
     (\<lparr>status = 200, body = []\<rparr>,
      s\<lparr>block_level_data := overwrite (block_level_data s) (nat ssi * BLD_MIN_SECTOR_SIZE) bytes\<rparr>)"
  using assms by (intro search_post) (simp_all add: b64decode_b2a_base64)

lemma search_post_overlong_witness:
  "search POST 0 1 (b2a_base64 (replicate 1024 171)) (server_start None) =
     (\<lparr>status = 200, body = []\<rparr>, (server_start None)\<lparr>block_level_data :=
        overwrite (replicate 262144 0) 0 (replicate 1024 171)\<rparr>)"
  using search_post_overlong[OF wf_server_start_None, of 0 1 "replicate 1024 171"]
  by (simp add: BLD_SECTOR_COUNT_def BLD_MIN_SECTOR_SIZE_def)

text \<open>
  C12. A negative start sector passes both bounds checks; a POST there writes
  with Python's negative indices, that is, counted from the end of the
  buffer.
\<close>

theorem search_post_negative:
  assumes "wf_server s" "ssi < 0" "- int BLD_SECTOR_COUNT \<le> ssi" "ssi + sc \<le> int BLD_SECTOR_COUNT"
    "b64decode d = Inr bytes" "ssi * int BLD_MIN_SECTOR_SIZE + int (length bytes) \<le> 0"
  shows "search POST ssi sc d s =
     (\<lparr>status = 200, body = []\<rparr>,
      s\<lparr>block_level_data := overwrite (block_level_data s)
          (nat ((ssi + int BLD_SECTOR_COUNT) * int BLD_MIN_SECTOR_SIZE)) bytes\<rparr>)"
proof -
  have len: "length (block_level_data s) = bld_size" using assms(1) by (simp add: wf_server_def)
  have i: "ssi * int BLD_MIN_SECTOR_SIZE + int (length (block_level_data s))
      = (ssi + int BLD_SECTOR_COUNT) * int BLD_MIN_SECTOR_SIZE"
    using len by (simp add: algebra_simps)
  have "write_bytes (block_level_data s) (ssi * int BLD_MIN_SECTOR_SIZE) bytes
      = (overwrite (block_level_data s) (nat ((ssi + int BLD_SECTOR_COUNT) * int BLD_MIN_SECTOR_SIZE)) bytes, False)"
    using assms(2,3,6) len by (subst write_bytes_negative) (simp_all add: i, simp_all add: BLD_MIN_SECTOR_SIZE_def BLD_SECTOR_COUNT_def)
  then show ?thesis
    using assms(2,4,5) by (simp add: search_def Let_def BLD_SECTOR_COUNT_def)
qed

lemma search_post_negative_witness: "search POST (-1) 1 (b2a_base64 (replicate 512 7)) (server_start None) =
     (\<lparr>status = 200, body = []\<rparr>,
      (server_start None)\<lparr>block_level_data := overwrite (replicate bld_size 0) 261632 (replicate 512 7)\<rparr>)"
  using search_post_negative[OF wf_server_start_None, of "-1" 1 "b2a_base64 (replicate 512 7)" "replicate 512 7"]
  by (simp add: b64decode_b2a_base64 BLD_SECTOR_COUNT_def BLD_MIN_SECTOR_SIZE_def)

text \<open>
  C13. A negative sector count passes both bounds checks; a GET from sector 0
  with \<open>sc = -k\<close> slices up to \<open>-k * 512\<close>, so it returns every sector but the
  last \<open>k\<close>.
\<close>

theorem search_get_negative_count:
  assumes "wf_server s" "sc < 0" "- int BLD_SECTOR_COUNT \<le> sc"
  shows "search GET 0 sc d s =
     (\<lparr>status = 200, body = b64encode (take (nat ((int BLD_SECTOR_COUNT + sc) * int BLD_MIN_SECTOR_SIZE))
        (block_level_data s))\<rparr>, s)"
proof -
  have len: "length (block_level_data s) = bld_size" using assms(1) by (simp add: wf_server_def)
  have b: "py_bound (sc * int BLD_MIN_SECTOR_SIZE) (length (block_level_data s))
      = nat ((int BLD_SECTOR_COUNT + sc) * int BLD_MIN_SECTOR_SIZE)"
    using assms(2,3) len by (simp add: py_bound_def BLD_MIN_SECTOR_SIZE_def BLD_SECTOR_COUNT_def algebra_simps)
  have n: "0 \<le> (int BLD_SECTOR_COUNT + sc) * int BLD_MIN_SECTOR_SIZE" using assms(3) by simp
  have "py_slice (block_level_data s) 0 (sc * int BLD_MIN_SECTOR_SIZE)
      = take (nat ((int BLD_SECTOR_COUNT + sc) * int BLD_MIN_SECTOR_SIZE)) (block_level_data s)"
    unfolding py_slice_def Let_def b using n by (simp add: py_bound_def)
  then show ?thesis
    using assms(2) by (simp add: search_def Let_def BLD_SECTOR_COUNT_def)
qed

lemma search_get_negative_count_witness: "search GET 0 (-1) [] (server_start None) =
     (\<lparr>status = 200, body = b64encode (replicate 261632 0)\<rparr>, server_start None)"
  using search_get_negative_count[OF wf_server_start_None, of "-1" "[]"]
  by (simp add: BLD_SECTOR_COUNT_def BLD_MIN_SECTOR_SIZE_def)

text \<open>
  C16. \<open>/save/\<close> then a restart of the server: the restarted server holds the
  buffer that was saved, and nothing else of the state changes.
\<close>

theorem save_restart:
  "server_start (bld_file (snd (handle now SaveRequest s)))
     = s\<lparr>bld_file := Some (block_level_data s)\<rparr>"
  by (simp add: route_save_def server_start_def Let_def)

end
