(* ===== verification/Http.thy ===== *)
theory Http
  imports BlockStore Json
begin

text \<open>
  The HTTP layer between the adapter and the block store, as text: the URLs
  the client formats (\<open>src/BLD-Remote/client/bld_remote.py\<close> and
  \<open>code.py\<close>), the path \<open>adafruit_requests\<close> puts on the request line, and
  what Flask makes of it in \<open>src/BLD-Remote/server/main.py\<close>: the route
  chosen by the path, and \<open>int(request.args.get("ssi"))\<close> and the same for
  \<open>sc\<close>, the first thing \<open>search\<close> does.  Library behaviour (the client's
  \<open>url.split("/", 3)\<close>, Werkzeug's percent-decoding and
  \<open>urllib.parse.parse_qsl\<close>, \<open>dict.get\<close> on the arguments and Python's \<open>int\<close>
  of a string) is modelled from the libraries' sources.  A percent-escape
  decodes to the character of its byte; non-ASCII text in a URL is beyond
  the model's characters.
\<close>

record http_request =
  req_method :: http_method
  req_url :: string
  req_body :: "byte list"

section \<open>The client's URLs\<close>

text \<open>\<open>"{}/data/?ssi={}&sc={}".format(base, start_block, sector_count)\<close> and \<open>"{}/info/".format(base)\<close>.\<close>

definition data_url :: "string \<Rightarrow> int \<Rightarrow> int \<Rightarrow> string" where
  "data_url base ssi sc = base @ ''/data/?ssi='' @ py_str_int ssi @ ''&sc='' @ py_str_int sc"

definition info_url :: "string \<Rightarrow> string" where
  "info_url base = base @ ''/info/''"

section \<open>String splitting\<close>

text \<open>\<open>s.split(sep, n)\<close>: at most \<open>n\<close> splits; \<open>n = len(s)\<close> splits them all.\<close>

fun split_max :: "char \<Rightarrow> nat \<Rightarrow> string \<Rightarrow> string list" where
  "split_max sep 0 s = [s]"
| "split_max sep (Suc n) s =
     (if sep \<in> set s then takeWhile (\<lambda>c. c \<noteq> sep) s # split_max sep n (tl (dropWhile (\<lambda>c. c \<noteq> sep) s))
      else [s])"

definition py_split :: "char \<Rightarrow> string \<Rightarrow> string list" where
  "py_split sep s = split_max sep (length s) s"

section \<open>The request line: \<open>adafruit_requests\<close>\<close>

text \<open>
  \<open>Session.request\<close>: \<open>proto, dummy, host, path = url.split("/", 3)\<close>, spaces
  of the path replaced by \<open>%20\<close>; with fewer slashes the path is empty; the
  protocol must be \<open>http:\<close> or \<open>https:\<close>, otherwise \<open>ValueError\<close> (\<open>None\<close>).
  The request line carries \<open>"/" + path\<close>.
\<close>

definition request_path :: "string \<Rightarrow> string option" where
  "request_path url =
     (case split_max (CHR ''/'') 3 url of
        [proto, dummy, host, path] \<Rightarrow>
          if proto \<in> {''http:'', ''https:''}
          then Some (''/'' @ concat (map (\<lambda>c. if c = CHR '' '' then ''%20'' else [c]) path))
          else None
      | [proto, dummy, host] \<Rightarrow> if proto \<in> {''http:'', ''https:''} then Some ''/'' else None
      | _ \<Rightarrow> None)"

section \<open>Werkzeug: path, query and arguments\<close>

definition hex_val :: "char \<Rightarrow> nat option" where
  "hex_val c =
     (let n = of_char c :: nat
      in if 48 \<le> n \<and> n \<le> 57 then Some (n - 48)
         else if 97 \<le> n \<and> n \<le> 102 then Some (n - 87)
         else if 65 \<le> n \<and> n \<le> 70 then Some (n - 55)
         else None)"

text \<open>\<open>urllib.parse.unquote\<close>: \<open>%hh\<close> is the byte \<open>hh\<close>; a \<open>%\<close> without two hex digits stays.\<close>

fun percent_decode :: "string \<Rightarrow> string" where
  "percent_decode [] = []"
| "percent_decode (c # cs) =
     (if c = CHR ''%'' then
        (case cs of
           a # b # rest \<Rightarrow>
             (case (hex_val a, hex_val b) of
                (Some x, Some y) \<Rightarrow> char_of (16 * x + y) # percent_decode rest
              | _ \<Rightarrow> c # percent_decode cs)
         | _ \<Rightarrow> c # percent_decode cs)
      else c # percent_decode cs)"

definition unquote_plus :: "string \<Rightarrow> string" where
  "unquote_plus s = percent_decode (map (\<lambda>c. if c = CHR ''+'' then CHR '' '' else c) s)"

text \<open>
  The path and the query of the request line, split at the first \<open>?\<close>; the
  path is percent-decoded.
\<close>

definition split_target :: "string \<Rightarrow> string \<times> string" where
  "split_target t =
     (percent_decode (takeWhile (\<lambda>c. c \<noteq> CHR ''?'') t), drop 1 (dropWhile (\<lambda>c. c \<noteq> CHR ''?'') t))"

text \<open>
  \<open>parse_qsl(query, keep_blank_values=True)\<close>: fields separated by \<open>&\<close>,
  empty fields skipped, a field without \<open>=\<close> has the empty value, names and
  values unquoted with \<open>+\<close> as space.  \<open>request.args.get(k)\<close> is the first
  value of \<open>k\<close>, or \<open>None\<close>.
\<close>

definition parse_qsl :: "string \<Rightarrow> (string \<times> string) list" where
  "parse_qsl q =
     map (\<lambda>f. (unquote_plus (takeWhile (\<lambda>c. c \<noteq> CHR ''='') f),
               unquote_plus (drop 1 (dropWhile (\<lambda>c. c \<noteq> CHR ''='') f))))
         (filter (\<lambda>f. f \<noteq> []) (py_split (CHR ''&'') q))"

definition args_get :: "string \<Rightarrow> string \<Rightarrow> string option" where
  "args_get q k = map_of (parse_qsl q) k"

section \<open>Python's \<open>int\<close> of a string\<close>

text \<open>
  \<open>int(s)\<close>: surrounding whitespace stripped, an optional sign, then decimal
  digits in which single underscores may separate digits; anything else is
  \<open>ValueError\<close> (\<open>None\<close>).  The whitespace below code 256 is the one
  \<open>str.isspace\<close> knows.
\<close>

definition py_space :: "char \<Rightarrow> bool" where
  "py_space c \<longleftrightarrow>
     (let n = of_char c :: nat in (9 \<le> n \<and> n \<le> 13) \<or> (28 \<le> n \<and> n \<le> 32) \<or> n = 133 \<or> n = 160)"

definition py_strip :: "string \<Rightarrow> string" where
  "py_strip s = rev (dropWhile py_space (rev (dropWhile py_space s)))"

fun decimal_ok :: "string \<Rightarrow> bool" where
  "decimal_ok [] = False"
| "decimal_ok [c] = is_digit c"
| "decimal_ok (c # d # cs) =
     (is_digit c \<and>
      (if d = CHR ''_'' then (case cs of [] \<Rightarrow> False | e # _ \<Rightarrow> is_digit e) \<and> decimal_ok cs
       else decimal_ok (d # cs)))"

definition py_int :: "string \<Rightarrow> int option" where
  "py_int s =
     (let t = py_strip s;
          (sign, ds) = (case t of
                          c # r \<Rightarrow> if c = CHR ''-'' then (-1, r) else if c = CHR ''+'' then (1, r) else (1, t)
                        | [] \<Rightarrow> (1, []))
      in if decimal_ok ds then Some (sign * int (fst (digits_acc 0 (filter is_digit ds)))) else None)"

text \<open>
  \<open>int(request.args.get(k))\<close>: a missing argument is \<open>int(None)\<close>, a
  \<open>TypeError\<close>; a malformed one a \<open>ValueError\<close>.  Both are \<open>None\<close>: either
  escapes the view.
\<close>

definition arg_int :: "string \<Rightarrow> string \<Rightarrow> int option" where
  "arg_int q k = (case args_get q k of None \<Rightarrow> None | Some v \<Rightarrow> py_int v)"

section \<open>Flask's routing\<close>

text \<open>
  The routes of \<open>main.py\<close> with their methods.  A path that is a route
  without its trailing slash is redirected (308); an unknown path is 404; a
  known path with a method it does not accept is 405.  The bodies of Flask's
  error pages are not modelled: the adapter reads only the status.  For
  \<open>/data/\<close> the view first converts its two arguments; when that raises, the
  response is 500 and the view has not touched the buffer.
\<close>

definition ROUTES :: "string list" where
  "ROUTES = [''/'', ''/data/'', ''/info/'', ''/download/'', ''/save/'']"

definition flask_route :: "http_method \<Rightarrow> string \<Rightarrow> byte list \<Rightarrow> request + http_response" where
  "flask_route m target d =
     (let (path, q) = split_target target
      in if path = ''/data/'' then
           (case (arg_int q ''ssi'', arg_int q ''sc'') of
              (Some ssi, Some sc) \<Rightarrow> Inl (DataRequest m ssi sc d)
            | _ \<Rightarrow> Inr server_error)
         else if path \<in> set ROUTES then
           (if m = POST then Inr (text_response 405 ''Method Not Allowed'')
            else if path = ''/'' then Inl RootRequest
            else if path = ''/info/'' then Inl InfoRequest
            else if path = ''/download/'' then Inl DownloadRequest
            else Inl SaveRequest)
         else if path @ ''/'' \<in> set ROUTES then Inr (text_response 308 ''Permanent Redirect'')
         else Inr (text_response 404 ''Not Found''))"

text \<open>
  What the server makes of an HTTP request: the request of \<open>BlockStore\<close>
  its view receives, or the response Flask gives without running a view;
  \<open>None\<close> when the client library refuses the URL before sending anything.
\<close>

definition server_request :: "http_request \<Rightarrow> (request + http_response) option" where
  "server_request r = map_option (\<lambda>t. flask_route (req_method r) t (req_body r)) (request_path (req_url r))"

definition http_handle ::
  "int \<Rightarrow> http_request \<Rightarrow> server_state \<Rightarrow> (http_response \<times> server_state) option" where
  "http_handle now r s =
     (case server_request r of
        None \<Rightarrow> None
      | Some (Inl req) \<Rightarrow> Some (handle now req s)
      | Some (Inr resp) \<Rightarrow> Some (resp, s))"

text \<open>A base address the client can use: \<open>http://\<close> and a host part without a slash.\<close>

definition http_base :: "string \<Rightarrow> bool" where
  "http_base b \<longleftrightarrow> take 7 b = ''http://'' \<and> CHR ''/'' \<notin> set (drop 7 b)"

section \<open>Lemmas\<close>

lemma take_dropWhile_sep:
  "sep \<notin> set a \<Longrightarrow> takeWhile (\<lambda>c. c \<noteq> sep) (a @ sep # b) = a \<and>
     dropWhile (\<lambda>c. c \<noteq> sep) (a @ sep # b) = sep # b"
  by (induction a) auto

lemma split_max_no_sep: "sep \<notin> set s \<Longrightarrow> split_max sep n s = [s]"
  by (cases n) simp_all

lemma split_max_sep: "sep \<notin> set a \<Longrightarrow> split_max sep (Suc n) (a @ sep # b) = a # split_max sep n b"
  using take_dropWhile_sep[of sep a b] by simp

lemma request_path_http:
  assumes "http_base b" "CHR '' '' \<notin> set p"
  shows "request_path (b @ ''/'' @ p) = Some (''/'' @ p)"
proof -
  obtain h where b: "b = ''http://'' @ h" and h: "CHR ''/'' \<notin> set h"
    using assms(1) unfolding http_base_def by (metis append_take_drop_id)
  have "split_max (CHR ''/'') 3 (b @ ''/'' @ p) = [''http:'', [], h, p]"
    using h by (simp add: b numeral_3_eq_3 take_dropWhile_sep)
  moreover have "concat (map (\<lambda>c. if c = CHR '' '' then ''%20'' else [c]) p) = p"
    using assms(2) by (induction p) auto
  ultimately show ?thesis by (simp add: request_path_def)
qed

lemma percent_decode_plain: "CHR ''%'' \<notin> set s \<Longrightarrow> percent_decode s = s"
  by (induction s) auto

lemma unquote_plus_plain: "CHR ''+'' \<notin> set s \<Longrightarrow> CHR ''%'' \<notin> set s \<Longrightarrow> unquote_plus s = s"
proof -
  assume "CHR ''+'' \<notin> set s" "CHR ''%'' \<notin> set s"
  moreover from \<open>CHR ''+'' \<notin> set s\<close> have "map (\<lambda>c. if c = CHR ''+'' then CHR '' '' else c) s = s"
    by (induction s) auto
  ultimately show ?thesis by (simp add: unquote_plus_def percent_decode_plain)
qed

lemma py_str_int_not_char:
  "\<not> is_digit c \<Longrightarrow> c \<noteq> CHR ''-'' \<Longrightarrow> c \<notin> set (py_str_int i)"
  using py_str_int_chars by blast

lemma py_str_int_no_sep [simp]:
  "CHR ''&'' \<notin> set (py_str_int i)" "CHR ''='' \<notin> set (py_str_int i)" "CHR ''+'' \<notin> set (py_str_int i)"
  "CHR ''%'' \<notin> set (py_str_int i)" "CHR '' '' \<notin> set (py_str_int i)" "CHR ''?'' \<notin> set (py_str_int i)"
  "CHR ''/'' \<notin> set (py_str_int i)"
  by (rule py_str_int_not_char; simp add: is_digit_def)+

lemma decimal_ok_digits: "s \<noteq> [] \<Longrightarrow> \<forall>c\<in>set s. is_digit c \<Longrightarrow> decimal_ok s"
  by (induction s rule: decimal_ok.induct) (auto simp: is_digit_def)

lemma digits_acc_py_str_nat: "fst (digits_acc 0 (py_str_nat n)) = n"
  using digits_acc_append[of "py_str_nat n" 0 "[]"] is_digit_py_str_nat foldl_py_str_nat[of 0 n] by simp

lemma py_strip_plain: "\<forall>c\<in>set s. \<not> py_space c \<Longrightarrow> py_strip s = s"
proof -
  assume "\<forall>c\<in>set s. \<not> py_space c"
  then have "dropWhile py_space s = s" "dropWhile py_space (rev s) = rev s"
    by (auto simp: dropWhile_eq_self_iff hd_rev)
  then show ?thesis by (simp add: py_strip_def)
qed

lemma py_int_py_str_int: "py_int (py_str_int i) = Some i"
proof -
  have sp: "\<forall>c\<in>set (py_str_int i). \<not> py_space c"
    using py_str_int_chars by (fastforce simp: is_digit_def py_space_def)
  let ?n = "nat \<bar>i\<bar>"
  have d: "\<forall>c\<in>set (py_str_nat ?n). is_digit c" using is_digit_py_str_nat by blast
  then have ok: "decimal_ok (py_str_nat ?n)" "filter is_digit (py_str_nat ?n) = py_str_nat ?n"
    by (simp_all add: decimal_ok_digits)
  show ?thesis
  proof (cases "i < 0")
    case True
    then show ?thesis using sp ok by (simp add: py_int_def py_strip_plain py_str_int_def digits_acc_py_str_nat)
  next
    case False
    obtain c cs where c: "py_str_nat ?n = c # cs" by (cases "py_str_nat ?n") auto
    have "is_digit c" using d c by simp
    then have "c \<noteq> CHR ''-''" "c \<noteq> CHR ''+''" by (auto simp: is_digit_def)
    moreover have "int (fst (digits_acc 0 (c # cs))) = i"
      using digits_acc_py_str_nat[of ?n] c False by simp
    ultimately show ?thesis
      using False sp ok c by (simp add: py_int_def py_strip_plain py_str_int_def del: digits_acc.simps)
  qed
qed

lemma parse_qsl_data:
  "parse_qsl (''ssi='' @ py_str_int a @ ''&sc='' @ py_str_int c) = [(''ssi'', py_str_int a), (''sc'', py_str_int c)]"
proof -
  obtain n where "length (''ssi='' @ py_str_int a @ ''&sc='' @ py_str_int c) = Suc n" by simp
  then have "py_split (CHR ''&'') (''ssi='' @ py_str_int a @ ''&sc='' @ py_str_int c)
      = [''ssi='' @ py_str_int a, ''sc='' @ py_str_int c]"
    unfolding py_split_def by (simp add: take_dropWhile_sep split_max_no_sep)
  then show ?thesis
    by (simp add: parse_qsl_def unquote_plus_plain)
qed

lemma flask_route_data:
  "flask_route m (''/data/?ssi='' @ py_str_int a @ ''&sc='' @ py_str_int c) d = Inl (DataRequest m a c d)"
  using parse_qsl_data[of a c]
  by (simp add: flask_route_def split_target_def arg_int_def args_get_def py_int_py_str_int)

lemma server_request_data:
  "http_base b \<Longrightarrow>
   server_request \<lparr>req_method = m, req_url = data_url b ssi sc, req_body = d\<rparr> = Some (Inl (DataRequest m ssi sc d))"
  using request_path_http[of b "''data/?ssi='' @ py_str_int ssi @ ''&sc='' @ py_str_int sc"]
    flask_route_data[of m ssi sc d]
  by (simp add: server_request_def data_url_def)

lemma server_request_info:
  "http_base b \<Longrightarrow> server_request \<lparr>req_method = GET, req_url = info_url b, req_body = []\<rparr> = Some (Inl InfoRequest)"
  using request_path_http[of b "''info/''"]
  by (simp add: server_request_def info_url_def flask_route_def split_target_def ROUTES_def)

lemma http_handle_data:
  "http_base b \<Longrightarrow>
   http_handle now \<lparr>req_method = m, req_url = data_url b ssi sc, req_body = d\<rparr> s
     = Some (handle now (DataRequest m ssi sc d) s)"
  by (simp add: http_handle_def server_request_data)

lemma http_handle_info:
  "http_base b \<Longrightarrow>
   http_handle now \<lparr>req_method = GET, req_url = info_url b, req_body = []\<rparr> s = Some (route_info now s)"
  by (simp add: http_handle_def server_request_info)

section \<open>Properties of the HTTP layer\<close>

text \<open>
  C18. The wire format round-trips: for every base address \<open>http://host\<close>
  and all integers, the URL the adapter formats for \<open>/data/\<close>, sent as
  \<open>adafruit_requests\<close> sends it and parsed as Flask and
  \<open>int(request.args.get(..))\<close> parse it, gives the view the same method,
  start sector, sector count and body; the \<open>/info/\<close> URL reaches the info
  view.  Negative numbers included: \<open>str\<close> writes the sign, \<open>int\<close> reads it.
\<close>

theorem url_roundtrip:
  "http_base b \<Longrightarrow>
   server_request \<lparr>req_method = m, req_url = data_url b ssi sc, req_body = d\<rparr> = Some (Inl (DataRequest m ssi sc d)) \<and>
   server_request \<lparr>req_method = GET, req_url = info_url b, req_body = []\<rparr> = Some (Inl InfoRequest)"
  by (simp add: server_request_data server_request_info)

lemma url_roundtrip_witness:
  "server_request \<lparr>req_method = POST, req_url = data_url ''http://192.168.1.10:8080'' (-1) 2, req_body = [65]\<rparr>
     = Some (Inl (DataRequest POST (-1) 2 [65])) \<and>
   server_request \<lparr>req_method = GET, req_url = info_url ''http://192.168.1.10:8080'', req_body = []\<rparr>
     = Some (Inl InfoRequest)"
  using url_roundtrip[of "''http://192.168.1.10:8080''" POST "-1" 2 "[65]"] by (simp add: http_base_def)

text \<open>
  C20. A \<open>/data/\<close> request whose \<open>ssi\<close> or \<open>sc\<close> is missing or is not an
  integer literal (\<open>ssi=1.5\<close>, \<open>sc=\<close>, \<open>sc=0x10\<close>) makes the view raise
  before any check: the server answers 500 and leaves its state unchanged.
  The spec (section 7) requires that the server never crash on a malformed
  request and answer it with a 4xx status.
\<close>

theorem malformed_data_query:
  assumes "http_base b" "CHR '' '' \<notin> set q" "arg_int q ''ssi'' = None \<or> arg_int q ''sc'' = None"
  shows "http_handle now \<lparr>req_method = m, req_url = b @ ''/data/?'' @ q, req_body = d\<rparr> s = Some (server_error, s)"
proof -
  have "request_path (b @ ''/data/?'' @ q) = Some (''/data/?'' @ q)"
    using request_path_http[OF assms(1), of "''data/?'' @ q"] assms(2) by simp
  moreover have "split_target (''/data/?'' @ q) = (''/data/'', q)"
    by (simp add: split_target_def)
  ultimately show ?thesis
    using assms(3) by (auto simp: http_handle_def server_request_def flask_route_def split: option.splits)
qed

lemma malformed_data_query_witness:
  "http_handle 0 \<lparr>req_method = GET, req_url = ''http://192.168.1.10:8080'' @ ''/data/?'' @ ''ssi=1.5&sc=1'', req_body = []\<rparr>
      (server_start None) = Some (server_error, server_start None)"
  using malformed_data_query[of "''http://192.168.1.10:8080''" "''ssi=1.5&sc=1''" 0 GET "[]" "server_start None"]
  by (simp add: http_base_def arg_int_def args_get_def parse_qsl_def py_split_def unquote_plus_def py_int_def
      py_strip_def py_space_def is_digit_def)

end
