(* ===== verification/RemoteAdapter.thy ===== *)
theory RemoteAdapter
  imports Http
begin

text \<open>
  The remote block adapter, \<open>src/BLD-Remote/client/bld_remote.py\<close>: the class
  \<open>RemoteBlockDevice\<close> that CircuitPython's \<open>VfsFat\<close> drives through
  \<open>count\<close>, \<open>readblocks\<close>, \<open>writeblocks\<close>, \<open>sync\<close> and \<open>deinit\<close>.  Each block
  operation is one HTTP round trip through an \<open>adafruit_requests\<close> session.
  The session is the interface of this theory: a \<open>transport\<close> is any function
  that takes the timeout and an HTTP request (method, URL, body), and returns
  a response or a transport failure (the exception \<open>session.get\<close>/\<open>session.post\<close>
  raise), threading the state of whatever is on the other side.  The lemmas
  of this theory hold for every transport; \<open>Spec2Isabelle\<close> plugs in the
  block store of \<open>BlockStore\<close> behind the HTTP layer of \<open>Http\<close>.
\<close>

section \<open>State and interface\<close>

definition BLD_MIN_SECTOR_SIZE_client :: nat where
  "BLD_MIN_SECTOR_SIZE_client = 512"

record remote_block_device =
  server_base_address :: string
  server_timeout :: nat
  sector_count :: int
  sector_size :: int

datatype transport_error = Timeout | ConnectionFailed | InvalidUrl

type_synonym 'st transport =
  "nat \<Rightarrow> http_request \<Rightarrow> 'st \<Rightarrow> (transport_error + http_response) \<times> 'st"

text \<open>
  What a block operation raises: a transport exception passed through, or one
  of the adapter's own \<open>OSError\<close>s (with the numbers its message names), or
  \<open>binascii\<close>'s decoding error.
\<close>

datatype device_error =
    TransportFailure transport_error
  | UnableToGrab nat int
  | DecodeFailed b64_error
  | SizeMismatch nat nat
  | UnableToWrite nat int

section \<open>The block operations\<close>

definition count :: "remote_block_device \<Rightarrow> int" where
  "count bd = sector_count bd"

text \<open>
  The copy loop of \<open>readblocks\<close>, \<open>for i in range(0, len(buf)): buf[i] = data[i]\<close>,
  which mutates the caller's buffer in place; the model returns its new
  contents.  It runs only after the lengths were checked equal.
\<close>

definition copy_into :: "byte list \<Rightarrow> byte list \<Rightarrow> byte list" where
  "copy_into buf data = foldl (\<lambda>b i. b[i := data ! i]) buf [0..<length buf]"

text \<open>
  \<open>sector_count = int(len(buf) / BLD_MIN_SECTOR_SIZE)\<close>: true division then
  truncation.  CircuitPython's floats are single precision, on most boards
  with the two lowest mantissa bits dropped; a length below \<open>2 ^ 22\<close> is
  exact in them and dividing it by \<open>512\<close>, a power of two, is exact too, so
  for the buffers the FAT driver passes (a few sectors) the truncation is
  \<open>div\<close>.  Longer buffers are outside the model.  The buffer's new contents
  are returned on success; on every error the buffer has not been written.
\<close>

definition readblocks ::
  "'st transport \<Rightarrow> remote_block_device \<Rightarrow> int \<Rightarrow> byte list \<Rightarrow> 'st
   \<Rightarrow> (device_error + byte list) \<times> 'st" where
  "readblocks session bd start_block buf st =
     (let sector_count = length buf div BLD_MIN_SECTOR_SIZE_client;
          (res, st') = session (server_timeout bd)
                         \<lparr>req_method = GET, req_url = data_url (server_base_address bd) start_block (int sector_count),
                          req_body = []\<rparr> st
      in (case res of
            Inl e \<Rightarrow> Inl (TransportFailure e)
          | Inr r \<Rightarrow>
              if status r \<noteq> 200 then Inl (UnableToGrab sector_count start_block)
              else (case mp_a2b_base64 (body r) of
                      Inl e \<Rightarrow> Inl (DecodeFailed e)
                    | Inr data \<Rightarrow>
                        if length data \<noteq> length buf
                        then Inl (SizeMismatch (length buf) (length data))
                        else Inr (copy_into buf data)), st'))"

definition writeblocks ::
  "'st transport \<Rightarrow> remote_block_device \<Rightarrow> int \<Rightarrow> byte list \<Rightarrow> 'st
   \<Rightarrow> (device_error + unit) \<times> 'st" where
  "writeblocks session bd start_block buf st =
     (let sector_count = length buf div BLD_MIN_SECTOR_SIZE_client;
          data = b2a_base64 buf;
          (res, st') = session (server_timeout bd)
                         \<lparr>req_method = POST, req_url = data_url (server_base_address bd) start_block (int sector_count),
                          req_body = data\<rparr> st
      in (case res of
            Inl e \<Rightarrow> Inl (TransportFailure e)
          | Inr r \<Rightarrow>
              if status r \<noteq> 200 then Inl (UnableToWrite sector_count start_block)
              else Inr (), st'))"

text \<open>\<open>deinit\<close> and \<open>sync\<close> are \<open>pass\<close>: they neither touch the device nor the network.\<close>

definition deinit :: "remote_block_device \<Rightarrow> unit" where
  "deinit bd = ()"

definition sync :: "remote_block_device \<Rightarrow> unit" where
  "sync bd = ()"

text \<open>
  A transport that records every request it forwards: it observes the
  traffic of an adapter operation without changing it.
\<close>

definition recording :: "'st transport \<Rightarrow> ('st \<times> http_request list) transport" where
  "recording session t req = (\<lambda>(st, log). let (r, st') = session t req st in (r, (st', log @ [req])))"

section \<open>Lemmas\<close>

lemma foldl_copy_prefix:
  "k \<le> length buf \<Longrightarrow> length data = length buf \<Longrightarrow>
   foldl (\<lambda>b i. b[i := data ! i]) buf [0..<k] = take k data @ drop k buf"
proof (induction k)
  case 0
  then show ?case by simp
next
  case (Suc k)
  then have IH: "foldl (\<lambda>b i. b[i := data ! i]) buf [0..<k] = take k data @ drop k buf"
    by simp
  have "(take k data @ drop k buf)[k := data ! k] = take (Suc k) data @ drop (Suc k) buf"
    using Suc.prems by (simp add: list_update_append take_Suc_conv_app_nth Cons_nth_drop_Suc[symmetric])
  then show ?case by (simp add: IH)
qed

lemma copy_into_eq: "length data = length buf \<Longrightarrow> copy_into buf data = data"
  using foldl_copy_prefix[of "length buf" buf data] by (simp add: copy_into_def)

text \<open>
  The successful runs of the two operations, for any transport: the read
  returns the decoded body when the response is 200 and decodes to exactly
  \<open>len(buf)\<close> bytes; the write succeeds when the response is 200.
\<close>

lemma readblocks_ok:
  assumes "session (server_timeout bd)
      \<lparr>req_method = GET, req_url = data_url (server_base_address bd) start (int (length buf div BLD_MIN_SECTOR_SIZE_client)),
       req_body = []\<rparr> st = (Inr r, st')"
    and "status r = 200" "mp_a2b_base64 (body r) = Inr data" "length data = length buf"
  shows "readblocks session bd start buf st = (Inr data, st')"
  using assms by (simp add: readblocks_def copy_into_eq)

lemma writeblocks_ok:
  assumes "session (server_timeout bd)
      \<lparr>req_method = POST, req_url = data_url (server_base_address bd) start (int (length buf div BLD_MIN_SECTOR_SIZE_client)),
       req_body = b2a_base64 buf\<rparr> st = (Inr r, st')"
    and "status r = 200"
  shows "writeblocks session bd start buf st = (Inr (), st')"
  using assms by (simp add: writeblocks_def)

section \<open>Properties of the adapter\<close>

text \<open>
  C14. \<open>readblocks\<close> reports success exactly when the session returned a
  response with status 200 whose body decodes to exactly \<open>len(buf)\<close> bytes,
  and the bytes it returns are the decoded body: a transport failure, an
  error status, a decoding error and a short or long body all surface as
  errors, for every transport.
\<close>

theorem readblocks_success_iff:
  "fst (readblocks session bd start buf st) = Inr data \<longleftrightarrow>
   (\<exists>r. fst (session (server_timeout bd)
              \<lparr>req_method = GET, req_url = data_url (server_base_address bd) start (int (length buf div BLD_MIN_SECTOR_SIZE_client)),
               req_body = []\<rparr> st) = Inr r
        \<and> status r = 200 \<and> mp_a2b_base64 (body r) = Inr data \<and> length data = length buf)"
  by (auto simp: readblocks_def Let_def copy_into_eq split: prod.splits sum.splits)

text \<open>
  C11. Each block operation is exactly one round trip, whatever the buffer's
  length: \<open>readblocks\<close> sends one GET and \<open>writeblocks\<close> one POST, for
  \<open>sc = len(buf) // 512\<close> sectors.  In particular a buffer that is not a whole
  number of sectors is not rejected before the network call.
\<close>

theorem block_ops_one_round_trip:
  "snd (snd (readblocks (recording session) bd start buf (st, log)))
     = log @ [\<lparr>req_method = GET, req_url = data_url (server_base_address bd) start
                 (int (length buf div BLD_MIN_SECTOR_SIZE_client)), req_body = []\<rparr>] \<and>
   snd (snd (writeblocks (recording session) bd start buf (st, log)))
     = log @ [\<lparr>req_method = POST, req_url = data_url (server_base_address bd) start
                 (int (length buf div BLD_MIN_SECTOR_SIZE_client)), req_body = b2a_base64 buf\<rparr>]"
  by (simp add: readblocks_def writeblocks_def recording_def Let_def split: prod.splits sum.splits)

text \<open>
  C17. \<open>writeblocks\<close> reports success exactly when the session returned a
  response with status 200 to the POST of \<open>b2a_base64(buf)\<close>, for every
  transport.
\<close>

theorem writeblocks_success_iff:
  "fst (writeblocks session bd start buf st) = Inr () \<longleftrightarrow>
   (\<exists>r. fst (session (server_timeout bd)
              \<lparr>req_method = POST, req_url = data_url (server_base_address bd) start
                (int (length buf div BLD_MIN_SECTOR_SIZE_client)), req_body = b2a_base64 buf\<rparr> st)
          = Inr r \<and> status r = 200)"
  by (auto simp: writeblocks_def Let_def split: prod.splits sum.splits)

end
