(* ===== verification/VirtualFS.thy ===== *)
theory VirtualFS
  imports Prelude
begin

text \<open>
  The virtual-filesystem protocol that CircuitPython's \<open>storage.mount\<close> uses
  for a Python object mounted as a filesystem (\<open>src/FS-ReadOnlyMemory\<close> and
  \<open>src/FS-Blank\<close>): the object answers \<open>open\<close>, \<open>stat\<close>, \<open>ilistdir\<close> and
  \<open>statvfs\<close> for paths relative to its own root.  This theory holds what the
  two filesystems share: their state (label and read-only flag), the label
  check of their constructors, the Python string operations they use, the
  result types, and the interface \<open>vfs\<close> with the consistency property a
  mounted filesystem should have.

  Python strings are \<open>string\<close>, whose characters are code points 0 to 255
  (Isabelle's \<open>char\<close> is a byte); \<open>str.encode('utf-8')\<close> is \<open>utf8_encode\<close>,
  one byte below 128 and two bytes from 128 to 255.
\<close>

section \<open>Python strings\<close>

definition utf8_char :: "char \<Rightarrow> byte list" where
  "utf8_char c =
     (let n = of_char c :: nat
      in if n < 128 then [of_nat n] else [of_nat (192 + n div 64), of_nat (128 + n mod 64)])"

definition utf8_encode :: "string \<Rightarrow> byte list" where
  "utf8_encode s = concat (map utf8_char s)"

text \<open>\<open>s.lstrip("/")\<close> and \<open>s.endswith("b")\<close>.\<close>

definition lstrip_slash :: "string \<Rightarrow> string" where
  "lstrip_slash s = dropWhile (\<lambda>c. c = CHR ''/'') s"

definition ends_with_b :: "string \<Rightarrow> bool" where
  "ends_with_b s \<longleftrightarrow> s \<noteq> [] \<and> last s = CHR ''b''"

section \<open>State, results and errors\<close>

text \<open>The two attributes both classes declare and set in \<open>__init__\<close>.\<close>

record fs_object =
  label :: string
  readonly :: bool

datatype fs_error = OSError string

text \<open>
  What \<open>open\<close> returns: an \<open>io.StringIO\<close> for text modes, an \<open>io.BytesIO\<close>
  for binary modes.  MicroPython's \<open>BytesIO\<close> takes a \<open>str\<close> through the buffer
  protocol, that is, its UTF-8 bytes.
\<close>

datatype io_object = StringIO string | BytesIO "byte list"

text \<open>
  A \<open>stat\<close> result is the 10-tuple of integers the code returns; an
  \<open>ilistdir\<close> entry is \<open>(name, type, inode, size)\<close>.
\<close>

type_synonym stat_result = "int list"

type_synonym dir_entry = "string \<times> int \<times> int \<times> int"

definition S_IFDIR :: int where "S_IFDIR = 0x4000"

definition S_IFREG :: int where "S_IFREG = 0x8000"

text \<open>
  The constructor shared by \<open>ReadOnlyMemoryFileSystem\<close> and
  \<open>BlankMemoryFileSystem\<close>: a label of more than 11 UTF-8 bytes raises
  \<open>OSError\<close>, otherwise the two attributes are set.
\<close>

definition vfs_init :: "string \<Rightarrow> bool \<Rightarrow> fs_error + fs_object" where
  "vfs_init l ro =
     (if 11 < length (utf8_encode l)
      then Inl (OSError (''The given label '' @ [CHR 0x27] @ l @ [CHR 0x27] @ '' is longer than 11 bytes !''))
      else Inr \<lparr>label = l, readonly = ro\<rparr>)"

text \<open>
  The methods both classes implement as \<open>return None\<close>: \<open>mkfs\<close>,
  \<open>mkdir\<close>, \<open>rmdir\<close>, \<open>mount\<close>, \<open>umount\<close> and the undocumented
  \<open>remove\<close>, \<open>chdir\<close>, \<open>getcwd\<close>, \<open>rename\<close>, \<open>utime\<close> (which take no
  argument but \<open>self\<close>).
\<close>

datatype vfs_call =
    Mkfs | Mkdir string | Rmdir string | Mount bool | Umount
  | Remove | Chdir | Getcwd | Rename | Utime

section \<open>The interface\<close>

text \<open>
  The operations a mounted filesystem object offers, as CircuitPython calls
  them.  \<open>statvfs\<close> takes a path that neither implementation reads.
\<close>

record vfs =
  vfs_open :: "string \<Rightarrow> string \<Rightarrow> fs_error + io_object"
  vfs_stat :: "string \<Rightarrow> fs_error + stat_result"
  vfs_ilistdir :: "string \<Rightarrow> fs_error + dir_entry list"
  vfs_statvfs :: "int list"

definition io_size :: "io_object \<Rightarrow> nat" where
  "io_size io = (case io of StringIO s \<Rightarrow> length (utf8_encode s) | BytesIO b \<Rightarrow> length b)"

text \<open>
  A consistent filesystem: its root is a directory; every entry the root
  listing names is a regular file whose \<open>stat\<close> reports the size the listing
  reports, and which opens in \<open>rb\<close> mode to exactly that many bytes.
\<close>

definition entry_consistent :: "vfs \<Rightarrow> dir_entry \<Rightarrow> bool" where
  "entry_consistent v e =
     (case e of (name, ty, ino, sz) \<Rightarrow>
        ty = S_IFREG \<and> 0 \<le> sz \<and>
        (case vfs_stat v (''/'' @ name) of
           Inl _ \<Rightarrow> False
         | Inr st \<Rightarrow> length st = 10 \<and> st ! 0 = S_IFREG \<and> st ! 6 = sz) \<and>
        (case vfs_open v (''/'' @ name) ''rb'' of
           Inl _ \<Rightarrow> False
         | Inr io \<Rightarrow> int (io_size io) = sz))"

definition vfs_consistent :: "vfs \<Rightarrow> bool" where
  "vfs_consistent v \<longleftrightarrow>
     (case vfs_stat v ''/'' of Inl _ \<Rightarrow> False | Inr st \<Rightarrow> length st = 10 \<and> st ! 0 = S_IFDIR) \<and>
     (case vfs_ilistdir v ''/'' of Inl _ \<Rightarrow> False | Inr es \<Rightarrow> list_all (entry_consistent v) es)"

text \<open>\<open>os.listdir\<close> of the mount point: the names of the root listing.\<close>

definition os_listdir :: "vfs \<Rightarrow> fs_error + string list" where
  "os_listdir v = map_sum id (map fst) (vfs_ilistdir v ''/'')"

section \<open>Lemmas\<close>

lemma length_utf8_char: "length (utf8_char c) = (if of_char c < (128::nat) then 1 else 2)"
  by (simp add: utf8_char_def Let_def)

lemma length_utf8_encode:
  "length (utf8_encode s) = length s + length (filter (\<lambda>c. 128 \<le> (of_char c :: nat)) s)"
  by (induction s) (simp_all add: utf8_encode_def length_utf8_char)

lemma length_utf8_encode_ascii:
  "(\<forall>c\<in>set s. of_char c < (128::nat)) \<Longrightarrow> length (utf8_encode s) = length s"
  by (simp add: length_utf8_encode filter_empty_conv not_le)

lemma lstrip_slash_idem [simp]: "lstrip_slash (lstrip_slash s) = lstrip_slash s"
proof (induction s)
  case Nil
  then show ?case by (simp add: lstrip_slash_def)
next
  case (Cons c s)
  then show ?case by (cases "c = CHR ''/''") (simp_all add: lstrip_slash_def)
qed

lemma lstrip_slash_prefix [simp]:
  "lstrip_slash (replicate k (CHR ''/'') @ s) = lstrip_slash s"
  by (induction k) (simp_all add: lstrip_slash_def)

lemma vfs_init_ok:
  "length (utf8_encode l) \<le> 11 \<Longrightarrow> vfs_init l ro = Inr \<lparr>label = l, readonly = ro\<rparr>"
  by (simp add: vfs_init_def)

section \<open>Properties of the constructors\<close>

text \<open>
  C22. The constructors of both filesystems accept a label exactly when it
  has at most 11 bytes in UTF-8: every character from 128 on counts twice,
  so six accented letters are already too many.
\<close>

theorem vfs_init_label_bytes:
  "(\<exists>fs. vfs_init l ro = Inr fs) \<longleftrightarrow>
   length l + length (filter (\<lambda>c. 128 \<le> (of_char c :: nat)) l) \<le> 11"
  by (simp add: vfs_init_def length_utf8_encode)

end
