(* ===== verification/Board.thy ===== *)
theory Board
  imports VirtualFS Wire "HOL-Library.AList"
begin

text \<open>
  The CircuitPython board as the three \<open>code.py\<close> scripts see it, and the
  parts of MicroPython's runtime they use: what a script prints, how it ends
  (\<open>sys.exit\<close>, an uncaught exception, or its last line), \<open>repr\<close> of strings,
  bytes, lists and dicts, the mount table that \<open>storage.mount\<close> extends and
  that every path goes through, and \<open>import\<close> through \<open>sys.path\<close>.

  A script is modelled as a computation that prints lines and either goes
  on with a value or stops: \<open>'a script\<close> is the error monad (the
  \<open>script_end\<close> that stopped it, or the value) paired with the lines printed,
  \<open>seq\<close> is its bind.  Everything the firmware decides and the scripts only
  observe is a field of \<open>board\<close>: the implementation's name, the optional
  modules installed, \<open>secrets\<close>, the Wi-Fi connection, the filesystem at
  \<open>/\<close>, what \<open>os.listdir("/")\<close> answers once a filesystem is mounted, the
  initial \<open>sys.path\<close> and the order in which a dict iterates (MicroPython's
  dict is a hash table, so a printed dict's order is the firmware's).
\<close>

section \<open>Scripts\<close>

text \<open>
  How a script ends: \<open>sys.exit(k)\<close>, an exception it does not catch (by
  class name), its last line, or the execution of a module whose source is
  beyond the model of \<open>import\<close> below.
\<close>

datatype script_end = Exit nat | Uncaught string | Completed | Unmodelled

type_synonym 'a script = "(script_end + 'a) \<times> string list"

definition emit :: "string list \<Rightarrow> unit script" where
  "emit ls = (Inr (), ls)"

definition stop :: "script_end \<Rightarrow> string list \<Rightarrow> 'a script" where
  "stop e ls = (Inl e, ls)"

definition seq :: "'a script \<Rightarrow> ('a \<Rightarrow> 'b script) \<Rightarrow> 'b script" where
  "seq m f =
     (case m of
        (Inl e, out) \<Rightarrow> (Inl e, out)
      | (Inr a, out) \<Rightarrow> (fst (f a), out @ snd (f a)))"

definition run_script :: "unit script \<Rightarrow> script_end \<times> string list" where
  "run_script m = (case m of (Inl e, out) \<Rightarrow> (e, out) | (Inr _, out) \<Rightarrow> (Completed, out))"

section \<open>MicroPython's \<open>repr\<close>\<close>

text \<open>
  \<open>repr\<close> of a \<open>str\<close> and of a \<open>bytes\<close> (\<open>mp_str_print_quoted\<close>,
  \<open>uni_print_quoted\<close>): double quotes when the text holds a single quote
  and no double quote, single quotes otherwise; the quote and the backslash
  are escaped, codes 32 to 126 print as themselves, newline, carriage return
  and tab as \<open>\n\<close>, \<open>\r\<close>, \<open>\t\<close>, every other code below 256 as
  \<open>\xhh\<close> in lower-case hex.  A \<open>bytes\<close> gets a \<open>b\<close> in front.
\<close>

definition hex_lower :: "nat \<Rightarrow> char" where
  "hex_lower d = (if d < 10 then char_of (48 + d) else char_of (87 + d))"

definition repr_code :: "nat \<Rightarrow> nat \<Rightarrow> string" where
  "repr_code q n =
     (if n = q \<or> n = 92 then [CHR 0x5C, char_of n]
      else if 32 \<le> n \<and> n \<le> 126 then [char_of n]
      else if n = 10 then [CHR 0x5C, CHR ''n'']
      else if n = 13 then [CHR 0x5C, CHR ''r'']
      else if n = 9 then [CHR 0x5C, CHR ''t'']
      else [CHR 0x5C, CHR ''x'', hex_lower (n div 16), hex_lower (n mod 16)])"

definition repr_quoted :: "nat list \<Rightarrow> string" where
  "repr_quoted ns =
     (let q = (if 39 \<in> set ns \<and> 34 \<notin> set ns then 34 else 39)
      in [char_of q] @ concat (map (repr_code q) ns) @ [char_of q])"

definition py_repr_str :: "string \<Rightarrow> string" where
  "py_repr_str s = repr_quoted (map of_char s)"

definition py_repr_bytes :: "byte list \<Rightarrow> string" where
  "py_repr_bytes b = ''b'' @ repr_quoted (map unat b)"

definition py_repr_list :: "string list \<Rightarrow> string" where
  "py_repr_list xs = ''['' @ py_join '', '' (map py_repr_str xs) @ '']''"

definition py_repr_dict :: "(string \<times> int) list \<Rightarrow> string" where
  "py_repr_dict d = ''{'' @ py_join '', '' (map (\<lambda>(k, v). py_repr_str k @ '': '' @ py_str_int v) d) @ ''}''"

text \<open>
  The dict that a sequence of stores builds: a key stored again keeps its
  place and takes the new value.
\<close>

definition py_dict_of :: "('k \<times> 'v) list \<Rightarrow> ('k \<times> 'v) list" where
  "py_dict_of ps = foldl (\<lambda>al (k, v). AList.update k v al) [] ps"

text \<open>\<open>str(f.read())\<close> of an open file: the text, or \<open>repr\<close> of the bytes.\<close>

definition py_str_read :: "io_object \<Rightarrow> string" where
  "py_str_read io = (case io of StringIO s \<Rightarrow> s | BytesIO b \<Rightarrow> py_repr_bytes b)"

section \<open>The board\<close>

record board =
  implementation_name :: string
  board_modules :: "string list"
  board_secrets :: "(string \<times> string) list"
  wifi_connect :: "string \<Rightarrow> string \<Rightarrow> string option"
  board_root :: vfs
  board_mount :: "string \<Rightarrow> string list option"
  board_sys_path :: "string list"
  dict_items :: "(string \<times> int) list \<Rightarrow> (string \<times> int) list"

text \<open>
  \<open>wifi_connect ssid password\<close> is the address \<open>wifi.radio.ipv4_address\<close>
  prints after a successful \<open>wifi.radio.connect\<close>, or \<open>None\<close> when it raises.
  \<open>board_mount mp\<close> is \<open>None\<close> when \<open>storage.mount\<close> at \<open>mp\<close> raises, and
  otherwise what \<open>os.listdir("/")\<close> answers afterwards.  The three scripts
  share their first check.
\<close>

definition check_circuitpython :: "board \<Rightarrow> unit script" where
  "check_circuitpython b =
     (if implementation_name b \<noteq> ''circuitpython''
      then stop (Exit 1) [''ERROR: You are not using a CircuitPython-based implementation of Python !'']
      else emit [])"

section \<open>Paths through the mount table\<close>

text \<open>
  MicroPython's \<open>mp_vfs_lookup_path\<close>: a path at or below a mount point goes
  to the filesystem mounted there, with the mount point cut off; any other
  path goes to the filesystem at \<open>/\<close>.  A relative path is relative to the
  current directory \<open>/\<close>.
\<close>

type_synonym mount_table = "(string \<times> vfs) list"

fun vfs_lookup :: "mount_table \<Rightarrow> vfs \<Rightarrow> string \<Rightarrow> vfs \<times> string" where
  "vfs_lookup [] root p = (root, p)"
| "vfs_lookup ((m, v) # ms) root p =
     (if p = m then (v, ''/'')
      else if take (Suc (length m)) p = m @ ''/'' then (v, drop (length m) p)
      else vfs_lookup ms root p)"

definition abs_path :: "string \<Rightarrow> string" where
  "abs_path p = (if take 1 p = ''/'' then p else ''/'' @ p)"

definition mounted_open :: "mount_table \<Rightarrow> vfs \<Rightarrow> string \<Rightarrow> string \<Rightarrow> fs_error + io_object" where
  "mounted_open ms root p mode = (case vfs_lookup ms root (abs_path p) of (v, q) \<Rightarrow> vfs_open v q mode)"

definition mounted_listdir :: "mount_table \<Rightarrow> vfs \<Rightarrow> string \<Rightarrow> fs_error + string list" where
  "mounted_listdir ms root p =
     (case vfs_lookup ms root (abs_path p) of (v, q) \<Rightarrow> map_sum id (map fst) (vfs_ilistdir v q))"

text \<open>The file type a \<open>stat\<close> reports, if the path exists.\<close>

definition mounted_kind :: "mount_table \<Rightarrow> vfs \<Rightarrow> string \<Rightarrow> int option" where
  "mounted_kind ms root p =
     (case vfs_lookup ms root (abs_path p) of
        (v, q) \<Rightarrow> (case vfs_stat v q of Inr (m # _) \<Rightarrow> Some m | _ \<Rightarrow> None))"

section \<open>Import\<close>

text \<open>
  \<open>import name\<close> for a module that is neither built in nor already loaded:
  each entry of \<open>sys.path\<close> in turn, \<open>entry/name\<close> is a package if it is a
  directory, else \<open>entry/name.py\<close> is the module if it is a regular file
  (MicroPython's \<open>stat_dir_or_file\<close>; compiled \<open>.mpy\<close> files and frozen
  modules are not modelled).
\<close>

datatype module_source = NotFound | Package string | Source string

definition module_path :: "string \<Rightarrow> string \<Rightarrow> string" where
  "module_path entry name = (if entry = [] then name else entry @ ''/'' @ name)"

fun find_module :: "mount_table \<Rightarrow> vfs \<Rightarrow> string list \<Rightarrow> string \<Rightarrow> module_source" where
  "find_module ms root [] name = NotFound"
| "find_module ms root (e # es) name =
     (let p = module_path e name
      in if mounted_kind ms root p = Some S_IFDIR then Package p
         else if mounted_kind ms root (p @ ''.py'') = Some S_IFREG then Source (p @ ''.py'')
         else find_module ms root es name)"

text \<open>
  Running a module's source is modelled for the sources the repository
  imports: the empty module, and one call of \<open>print\<close> on a string literal in
  double quotes of printable ASCII without escapes, which prints the
  literal.  Any other source is \<open>Unmodelled\<close>.  The source is read in binary
  mode; its bytes are ASCII.
\<close>

text \<open>The source text of a call of \<open>print\<close> on a string literal.\<close>

definition print_call :: "string \<Rightarrow> string" where
  "print_call lit = ''print('' @ dq lit @ '')''"

definition printable :: "char \<Rightarrow> bool" where
  "printable c \<longleftrightarrow> 32 \<le> (of_char c :: nat) \<and> (of_char c :: nat) \<le> 126"

definition exec_print_source :: "string \<Rightarrow> string list option" where
  "exec_print_source src =
     (if src = [] then Some []
      else
        let lit = drop 7 (take (length src - 2) src)
        in if 9 \<le> length src \<and> take 7 src = ''print('' @ [CHR 0x22] \<and>
              drop (length src - 2) src = [CHR 0x22, CHR '')''] \<and>
              list_all (\<lambda>c. printable c \<and> c \<noteq> CHR 0x22 \<and> c \<noteq> CHR 0x5C) lit
           then Some [lit] else None)"

definition io_text :: "io_object \<Rightarrow> string" where
  "io_text io = (case io of StringIO s \<Rightarrow> s | BytesIO b \<Rightarrow> ascii_decode b)"

definition import_module :: "mount_table \<Rightarrow> vfs \<Rightarrow> string list \<Rightarrow> string \<Rightarrow> unit script" where
  "import_module ms root path name =
     (case find_module ms root path name of
        NotFound \<Rightarrow> stop (Uncaught ''ImportError'') []
      | Package p \<Rightarrow> stop Unmodelled []
      | Source p \<Rightarrow>
          (case mounted_open ms root p ''rb'' of
             Inl _ \<Rightarrow> stop (Uncaught ''OSError'') []
           | Inr io \<Rightarrow>
               (case exec_print_source (io_text io) of
                  None \<Rightarrow> stop Unmodelled []
                | Some out \<Rightarrow> emit out)))"

text \<open>
  The last lines of the scripts that import from their filesystem: print
  \<open>sys.path\<close>, put the mount point in front, print it again and
  \<open>import test\<close>.
\<close>

definition import_test :: "string \<Rightarrow> mount_table \<Rightarrow> vfs \<Rightarrow> string list \<Rightarrow> unit script" where
  "import_test mp ms root path =
     seq (emit [''Preparing the '' @ sq ''sys.path'' @ '' list to let us import from the new file system'',
                ''> Old: '' @ py_repr_list path,
                ''> New: '' @ py_repr_list (mp # path),
                ''Importing the '' @ sq ''test'' @ '' module from '' @ sq (mp @ ''/test.py'')])
       (\<lambda>_. import_module ms root (mp # path) ''test'')"

section \<open>Lemmas\<close>

lemma seq_Inl [simp]: "seq (Inl e, out) f = (Inl e, out)"
  by (simp add: seq_def)

lemma seq_Inr [simp]: "seq (Inr a, out) f = (fst (f a), out @ snd (f a))"
  by (simp add: seq_def)

lemma seq_assoc: "seq (seq m f) g = seq m (\<lambda>a. seq (f a) g)"
  by (simp add: seq_def split: prod.splits sum.splits)

lemma run_script_simps [simp]:
  "run_script (Inl e, out) = (e, out)"
  "run_script (Inr u, out) = (Completed, out)"
  by (simp_all add: run_script_def)

lemmas script_simps = emit_def stop_def

text \<open>Text of printable ASCII characters: what \<open>repr\<close> leaves alone.\<close>

lemma char_of_quotes [simp]: "char_of (39::nat) = CHR 0x27" "char_of (34::nat) = CHR 0x22"
  by (rule char_of_eqI, simp)+

lemma repr_code_printable:
  "printable c \<Longrightarrow> of_char c \<noteq> q \<Longrightarrow> of_char c \<noteq> (92::nat) \<Longrightarrow> repr_code q (of_char c) = [c]"
  by (auto simp: repr_code_def printable_def)

lemma concat_repr_code:
  "list_all (\<lambda>c. printable c \<and> of_char c \<noteq> q \<and> of_char c \<noteq> (92::nat)) s \<Longrightarrow>
   concat (map (repr_code q \<circ> of_char) s) = s"
  by (induction s) (simp_all add: repr_code_printable)

lemma py_repr_str_plain:
  "list_all (\<lambda>c. printable c \<and> of_char c \<noteq> (39::nat) \<and> of_char c \<noteq> (92::nat)) s \<Longrightarrow> py_repr_str s = sq s"
proof -
  assume s: "list_all (\<lambda>c. printable c \<and> of_char c \<noteq> (39::nat) \<and> of_char c \<noteq> (92::nat)) s"
  then have "39 \<notin> set (map (of_char :: char \<Rightarrow> nat) s)"
    by (induction s) auto
  then show ?thesis using s
    by (simp add: py_repr_str_def repr_quoted_def sq_def concat_repr_code)
qed

lemma unat_utf8_encode_ascii:
  "list_all (\<lambda>c. of_char c < (128::nat)) s \<Longrightarrow> map unat (utf8_encode s) = map of_char s"
  by (induction s) (simp_all add: utf8_encode_def utf8_char_def unat_of_nat)

lemma py_repr_bytes_plain:
  "list_all (\<lambda>c. printable c \<and> of_char c \<noteq> (39::nat) \<and> of_char c \<noteq> (92::nat)) s \<Longrightarrow>
   py_repr_bytes (utf8_encode s) = ''b'' @ sq s"
proof -
  assume s: "list_all (\<lambda>c. printable c \<and> of_char c \<noteq> (39::nat) \<and> of_char c \<noteq> (92::nat)) s"
  then have "list_all (\<lambda>c. of_char c < (128::nat)) s"
    by (induction s) (auto simp: printable_def)
  then have "map unat (utf8_encode s) = map of_char s"
    by (rule unat_utf8_encode_ascii)
  with py_repr_str_plain[OF s] show ?thesis
    by (simp add: py_repr_bytes_def py_repr_str_def)
qed

lemma ascii_decode_utf8_encode:
  "list_all (\<lambda>c. of_char c < (128::nat)) s \<Longrightarrow> ascii_decode (utf8_encode s) = s"
  by (induction s) (simp_all add: ascii_decode_def utf8_encode_def utf8_char_def unat_of_nat)

lemma exec_print_source_print:
  "list_all (\<lambda>c. printable c \<and> c \<noteq> CHR 0x22 \<and> c \<noteq> CHR 0x5C) lit \<Longrightarrow>
   exec_print_source (print_call lit) = Some [lit]"
  by (simp add: exec_print_source_def print_call_def dq_def)

lemma print_call_ascii:
  "list_all (\<lambda>c. printable c \<and> c \<noteq> CHR 0x22 \<and> c \<noteq> CHR 0x5C) lit \<Longrightarrow>
   list_all (\<lambda>c. of_char c < (128::nat)) (print_call lit)"
  by (induction lit) (auto simp: print_call_def dq_def printable_def)

lemma exec_print_call_bytes:
  "list_all (\<lambda>c. printable c \<and> c \<noteq> CHR 0x22 \<and> c \<noteq> CHR 0x5C) lit \<Longrightarrow>
   exec_print_source (io_text (BytesIO (utf8_encode (print_call lit)))) = Some [lit]"
  by (simp add: io_text_def ascii_decode_utf8_encode print_call_ascii exec_print_source_print)

text \<open>\<open>os.listdir\<close> of a mount point lists the root of the filesystem mounted there.\<close>

lemma mounted_listdir_mount_point:
  "take 1 m = ''/'' \<Longrightarrow> mounted_listdir ((m, v) # ms) root m = os_listdir v"
  by (simp add: mounted_listdir_def abs_path_def os_listdir_def)

end
