(* ===== verification/ClientBoot.thy ===== *)
theory ClientBoot
  imports Complex_Main RemoteAdapter Json Board
begin

text \<open>
  The client's entry point \<open>src/BLD-Remote/client/code.py\<close>, the script a
  board runs at start-up.  It checks that it runs on CircuitPython (exit 1)
  and that the optional modules \<open>wifi\<close>, \<open>binascii\<close>, \<open>adafruit_requests\<close>
  and \<open>secrets\<close> import (exit 2 to 5), reads the Wi-Fi credentials and the
  server's address from \<open>secrets\<close>, connects (exit 6), asks the server for
  \<open>/info/\<close> (exit 7 when the request raises, 8 when the status is not 200),
  builds a \<open>RemoteBlockDevice\<close> with the server's \<open>sector_count\<close> and
  \<open>sector_size\<close>, formats and mounts a FAT filesystem on it at
  \<open>/remote_bld\<close>, checks that the board's root lists it (exit 9), writes
  \<open>test.txt\<close> and reads it back, writes \<open>test.py\<close> and imports it.

  The FAT filesystem (\<open>storage.VfsFat\<close>, CircuitPython's driver) is modelled
  by its contract as a store of named texts (\<open>fat_files\<close>): \<open>mkfs\<close> empties
  it, a file opened in \<open>w\<close> mode and written holds the text written, and
  reading gives it back.  The block operations the driver sends to the
  device for this are not modelled; the block device itself is modelled in
  \<open>RemoteAdapter\<close>, and the driver's use of it in \<open>Spec2Isabelle\<close>
  (\<open>client_run\<close>).  \<open>random.random()\<close> is a parameter, a real number.
\<close>

section \<open>Constants\<close>

definition MOUNTING_POINT_client :: string where
  "MOUNTING_POINT_client = ''/remote_bld''"

definition FORMAT_BEFORE_MOUNT :: bool where
  "FORMAT_BEFORE_MOUNT = True"

definition SERVER_TIMEOUT :: nat where
  "SERVER_TIMEOUT = 10"

definition SERVER_BASE_ADDRESS :: "string \<Rightarrow> string \<Rightarrow> string" where
  "SERVER_BASE_ADDRESS host port = ''http://'' @ host @ '':'' @ port"

section \<open>The checks before the network\<close>

text \<open>
  The four \<open>try: import ... except ImportError\<close> blocks, in the order of the
  code, with their exit codes and hints.
\<close>

definition CLIENT_MODULES :: "(string \<times> nat \<times> string) list" where
  "CLIENT_MODULES =
     [(''wifi'', 2, ''You need to use a MCU and firmware that supports this module.''),
      (''binascii'', 3, ''You need to use a MCU and firmware that supports this module.''),
      (''adafruit_requests'', 4, ''You need to download and install it onto your device.''),
      (''secrets'', 5, ''You need to use the one provided in the repository and add your values.'')]"

fun require_modules :: "string list \<Rightarrow> (string \<times> nat \<times> string) list \<Rightarrow> unit script" where
  "require_modules mods [] = emit []"
| "require_modules mods ((m, k, hint) # rs) =
     (if m \<notin> set mods then stop (Exit k) [''Unable to import the '' @ sq m @ '' module !'', hint]
      else require_modules mods rs)"

text \<open>
  The constants read from \<open>secrets\<close>: a missing key raises \<open>KeyError\<close>
  before anything is printed.  The result is the SSID, the password and
  \<open>SERVER_BASE_ADDRESS\<close>.
\<close>

definition read_secrets :: "(string \<times> string) list \<Rightarrow> (string \<times> string \<times> string) script" where
  "read_secrets sec =
     (case (py_dict_get sec ''ssid'', py_dict_get sec ''password'',
            py_dict_get sec ''server_host'', py_dict_get sec ''server_port'') of
        (Some ssid, Some pw, Some host, Some port) \<Rightarrow> (Inr (ssid, pw, SERVER_BASE_ADDRESS host port), [])
      | _ \<Rightarrow> stop (Uncaught ''KeyError'') [])"

text \<open>The Wi-Fi connection; the result is the address printed.\<close>

definition connect_wifi :: "board \<Rightarrow> string \<Rightarrow> string \<Rightarrow> unit script" where
  "connect_wifi b ssid pw =
     seq (emit [''Preparing the Wi-Fi connection...'', ''> Connecting to '' @ sq ssid]) (\<lambda>_.
       case wifi_connect b ssid pw of
         None \<Rightarrow> stop (Exit 6) [''ERROR: Failed to establish a Wi-Fi connection !'']
       | Some ip \<Rightarrow> emit [''> Done !'', ''> IPv4: '' @ ip])"

section \<open>The bootstrap\<close>

text \<open>
  From the \<open>/info/\<close> request to the construction of the device.  A body
  that is not a flat JSON object of integers is beyond the model of
  \<open>json.loads\<close> (\<open>Json\<close>); a missing key raises \<open>KeyError\<close> at the line
  that prints it.  The dict is printed in the firmware's order.
\<close>

definition bootstrap ::
  "board \<Rightarrow> 'st transport \<Rightarrow> string \<Rightarrow> 'st \<Rightarrow> remote_block_device script \<times> 'st" where
  "bootstrap b session base st =
     (let (res, st') = session SERVER_TIMEOUT \<lparr>req_method = GET, req_url = info_url base, req_body = []\<rparr> st
      in (seq (emit [''Grabbing the BLD info from the remote server...'', ''> GET: '' @ base @ ''/info/'']) (\<lambda>_.
          case res of
            Inl _ \<Rightarrow>
              stop (Exit 7) [''> ERROR: Failed to get info !'',
                             ''> If this issue persists on a windows-hosted server, try checking your firewall settings.'']
          | Inr r \<Rightarrow>
              if status r \<noteq> 200
              then stop (Exit 8) [''> ERROR: Got an unexpected status code !  ('' @ py_str_nat (status r) @ '')'']
              else seq (emit [''> Parsing JSON data...'']) (\<lambda>_.
                case json_loads (ascii_decode (body r)) of
                  None \<Rightarrow> stop Unmodelled []
                | Some bld_info \<Rightarrow>
                    seq (emit [''> '' @ py_repr_dict (dict_items b (py_dict_of bld_info)),
                               ''Preparing the BLD class...'']) (\<lambda>_.
                    case py_dict_get bld_info ''sector_count'' of
                      None \<Rightarrow> stop (Uncaught ''KeyError'') []
                    | Some c \<Rightarrow>
                        seq (emit [''> Sector count: '' @ py_str_int c]) (\<lambda>_.
                        case py_dict_get bld_info ''sector_size'' of
                          None \<Rightarrow> stop (Uncaught ''KeyError'') []
                        | Some z \<Rightarrow>
                            seq (emit [''> Sector size:  '' @ py_str_int z]) (\<lambda>_.
                            (Inr \<lparr>server_base_address = base, server_timeout = SERVER_TIMEOUT,
                                  sector_count = c, sector_size = z\<rparr>, [])))))), st'))"

section \<open>The FAT filesystem by its contract\<close>

text \<open>
  The files of the mounted FAT filesystem, by name relative to its root.  A
  file written holds the text written (a new name is added at the end);
  the read side is the \<open>vfs\<close> interface: text in modes without \<open>b\<close>, the
  UTF-8 bytes in modes with \<open>b\<close>.
\<close>

type_synonym fat_files = "(string \<times> string) list"

definition fat_write :: "fat_files \<Rightarrow> string \<Rightarrow> string \<Rightarrow> fat_files" where
  "fat_write files p text = AList.update (lstrip_slash p) text files"

definition fat_vfs :: "fat_files \<Rightarrow> vfs" where
  "fat_vfs files =
     \<lparr>vfs_open = \<lambda>p mode.
        (case map_of files (lstrip_slash p) of
           None \<Rightarrow> Inl (OSError ''[Errno 2] ENOENT'')
         | Some t \<Rightarrow> if ends_with_b mode then Inr (BytesIO (utf8_encode t)) else Inr (StringIO t)),
      vfs_stat = \<lambda>p.
        (if lstrip_slash p = [] then Inr [S_IFDIR, 0, 0, 0, 0, 0, 0, 0, 0, 0]
         else case map_of files (lstrip_slash p) of
           None \<Rightarrow> Inl (OSError ''[Errno 2] ENOENT'')
         | Some t \<Rightarrow> Inr [S_IFREG, 0, 0, 0, 0, 0, int (length (utf8_encode t)), 0, 0, 0]),
      vfs_ilistdir = \<lambda>p.
        (if lstrip_slash p = [] then Inr (map (\<lambda>(n, t). (n, S_IFREG, 0, int (length (utf8_encode t)))) files)
         else Inl (OSError ''[Errno 2] ENOENT'')),
      vfs_statvfs = []\<rparr>"

section \<open>The file test\<close>

text \<open>\<open>int(random.random() * 100)\<close>: \<open>int\<close> of a float truncates toward zero.\<close>

definition unique_number :: "real \<Rightarrow> int" where
  "unique_number r = (let x = r * 100 in if 0 \<le> x then \<lfloor>x\<rfloor> else - \<lfloor>- x\<rfloor>)"

text \<open>
  From the mount to the import: the root check (exit 9), \<open>test.txt\<close>
  written and read back, \<open>test.py\<close> written, and \<open>import test\<close> with the
  mount point in front of \<open>sys.path\<close>.
\<close>

text \<open>
  The end of the script: \<open>MOUNTING_POINT\<close> goes in front of \<open>sys.path\<close>
  and \<open>import test\<close> runs, with the FAT filesystem mounted there.
\<close>

definition client_import :: "board \<Rightarrow> fat_files \<Rightarrow> unit script" where
  "client_import b files =
     import_test MOUNTING_POINT_client [(MOUNTING_POINT_client, fat_vfs files)] (board_root b) (board_sys_path b)"

definition file_test :: "board \<Rightarrow> fat_files \<Rightarrow> real \<Rightarrow> real \<Rightarrow> unit script" where
  "file_test b files r1 r2 =
     (let mp = MOUNTING_POINT_client in
      seq (emit [''> Mounting the file system at '' @ sq mp @ '' in RW mode...'']) (\<lambda>_.
      case board_mount b mp of
        None \<Rightarrow> stop (Uncaught ''OSError'') []
      | Some root_names \<Rightarrow>
          seq (emit [''Checking if we can see it in the MCU'' @ [CHR 0x27] @ ''s root folder:'',
                     ''> '' @ py_repr_list root_names]) (\<lambda>_.
          seq (if lstrip_slash mp \<in> set root_names then emit [''> It is present !'']
               else stop (Exit 9) [''> It couldn'' @ [CHR 0x27] @ ''t be found, exiting !'']) (\<lambda>_.
          let n1 = unique_number r1;
              files1 = fat_write files ''/test.txt'' (''Hello world !  ('' @ py_str_int n1 @ '')'')
          in seq (emit [''Creating a new file under '' @ sq (mp @ ''/test.txt''),
                        ''> Unique number: '' @ py_str_int n1, ''> Done !'', ''> Reading it...'']) (\<lambda>_.
          case mounted_open [(mp, fat_vfs files1)] (board_root b) (mp @ ''/test.txt'') ''r'' of
            Inl _ \<Rightarrow> stop (Uncaught ''OSError'') []
          | Inr f \<Rightarrow>
              let n2 = unique_number r2;
                  files2 = fat_write files1 ''/test.py''
                             (print_call (''> Hello world !  ('' @ py_str_int n2 @ '')''))
              in seq (emit [''> '' @ py_str_read f,
                            ''Creating a new python file under '' @ sq (mp @ ''/test.py''),
                            ''> Unique number: '' @ py_str_int n2, ''> Done !'']) (\<lambda>_.
              client_import b files2))))))"

section \<open>The script\<close>

text \<open>
  The whole script.  \<open>old_files\<close> are the files the FAT driver would find on
  the device if it were not formatted first; with \<open>FORMAT_BEFORE_MOUNT\<close> set
  they are never seen.  The session's state after the script is not
  returned: the driver's block traffic is not modelled.
\<close>

definition client_script ::
  "board \<Rightarrow> 'st transport \<Rightarrow> 'st \<Rightarrow> fat_files \<Rightarrow> real \<Rightarrow> real \<Rightarrow> script_end \<times> string list" where
  "client_script b session st old_files r1 r2 = run_script (
     seq (check_circuitpython b) (\<lambda>_.
     seq (require_modules (board_modules b) CLIENT_MODULES) (\<lambda>_.
     seq (read_secrets (board_secrets b)) (\<lambda>(ssid, pw, base).
     seq (connect_wifi b ssid pw) (\<lambda>_.
     seq (emit [''Preparing the socketpool and session for the BLD...'']) (\<lambda>_.
     seq (fst (bootstrap b session base st)) (\<lambda>bld.
     seq (if FORMAT_BEFORE_MOUNT
          then emit [''Preparing the VfsFat...'',
                     ''> Doing a quick format of the file system using the builtin formatter.  (This may take a while !)'']
          else emit [''Preparing the VfsFat...'',
                     ''> Skipping the formatting step.  (It needs to have been done at least ONCE before !)'']) (\<lambda>_.
     file_test b (if FORMAT_BEFORE_MOUNT then [] else old_files) r1 r2))))))))"

section \<open>Lemmas\<close>

lemma py_str_int_printable:
  "list_all (\<lambda>c. printable c \<and> c \<noteq> CHR 0x22 \<and> c \<noteq> CHR 0x5C) (py_str_int i)"
proof -
  have d: "is_digit c \<or> c = CHR ''-''" if "c \<in> set (py_str_int i)" for c
    using py_str_int_chars[OF that] by blast
  have "printable c \<and> c \<noteq> CHR 0x22 \<and> c \<noteq> CHR 0x5C" if "is_digit c \<or> c = CHR ''-''" for c
    using that by (auto simp: is_digit_def printable_def)
  with d show ?thesis
    by (simp add: list_all_iff)
qed

lemma hello_plain:
  "list_all (\<lambda>c. printable c \<and> c \<noteq> CHR 0x22 \<and> c \<noteq> CHR 0x5C) (''> Hello world !  ('' @ py_str_int n @ '')'')"
  using py_str_int_printable[of n] by (simp add: printable_def)

text \<open>The \<open>test.py\<close> the script writes prints its line when imported.\<close>

lemma hello_exec:
  "exec_print_source (io_text (BytesIO (utf8_encode (print_call (''> Hello world !  ('' @ py_str_int n @ '')'')))))
     = Some [''> Hello world !  ('' @ py_str_int n @ '')'']"
  by (rule exec_print_call_bytes[OF hello_plain])

lemma require_modules_ok:
  "set (map fst rs) \<subseteq> set mods \<Longrightarrow> require_modules mods rs = emit []"
  by (induction mods rs rule: require_modules.induct) auto

lemma SERVER_BASE_ADDRESS_http_base:
  "CHR ''/'' \<notin> set host \<Longrightarrow> CHR ''/'' \<notin> set port \<Longrightarrow> http_base (SERVER_BASE_ADDRESS host port)"
  by (simp add: http_base_def SERVER_BASE_ADDRESS_def)

lemma require_modules_exit:
  "require_modules mods rs = (Inl e, out) \<Longrightarrow> \<exists>m k h. (m, k, h) \<in> set rs \<and> m \<notin> set mods \<and> e = Exit k"
  by (induction mods rs rule: require_modules.induct) (auto simp: script_simps split: if_splits)

section \<open>Properties of the bootstrap\<close>

text \<open>
  C28. The bootstrap surfaces a failed \<open>/info/\<close> request as an exit code
  and never builds a device from it, for every transport: when the session
  raises, it prints the two error lines and exits with code 7; when the
  response has any status other than 200, it prints that status and exits
  with code 8.  The transport's state after the request is kept.
\<close>

theorem bootstrap_info_failure:
  "(fst (session SERVER_TIMEOUT \<lparr>req_method = GET, req_url = info_url base, req_body = []\<rparr> st) = Inl e \<longrightarrow>
    bootstrap b session base st =
      ((Inl (Exit 7),
        [''Grabbing the BLD info from the remote server...'', ''> GET: '' @ base @ ''/info/'',
         ''> ERROR: Failed to get info !'',
         ''> If this issue persists on a windows-hosted server, try checking your firewall settings.'']),
       snd (session SERVER_TIMEOUT \<lparr>req_method = GET, req_url = info_url base, req_body = []\<rparr> st))) \<and>
   (fst (session SERVER_TIMEOUT \<lparr>req_method = GET, req_url = info_url base, req_body = []\<rparr> st) = Inr r \<and>
    status r \<noteq> 200 \<longrightarrow>
    bootstrap b session base st =
      ((Inl (Exit 8),
        [''Grabbing the BLD info from the remote server...'', ''> GET: '' @ base @ ''/info/'',
         ''> ERROR: Got an unexpected status code !  ('' @ py_str_nat (status r) @ '')'']),
       snd (session SERVER_TIMEOUT \<lparr>req_method = GET, req_url = info_url base, req_body = []\<rparr> st)))"
  by (auto simp: bootstrap_def script_simps split: prod.splits)

lemma bootstrap_info_failure_witness:
  "bootstrap \<lparr>implementation_name = ''circuitpython'', board_modules = [], board_secrets = [],
      wifi_connect = \<lambda>ssid pw. None,
      board_root = \<lparr>vfs_open = \<lambda>p m. Inl (OSError ''''), vfs_stat = \<lambda>p. Inl (OSError ''''),
                    vfs_ilistdir = \<lambda>p. Inr [], vfs_statvfs = []\<rparr>,
      board_mount = \<lambda>mp. None, board_sys_path = [], dict_items = id\<rparr>
       (\<lambda>t req st. (Inl Timeout, st)) ''http://192.168.1.10:8080'' ()
     = ((Inl (Exit 7),
         [''Grabbing the BLD info from the remote server...'', ''> GET: http://192.168.1.10:8080/info/'',
          ''> ERROR: Failed to get info !'',
          ''> If this issue persists on a windows-hosted server, try checking your firewall settings.'']), ()) \<and>
   bootstrap \<lparr>implementation_name = ''circuitpython'', board_modules = [], board_secrets = [],
      wifi_connect = \<lambda>ssid pw. None,
      board_root = \<lparr>vfs_open = \<lambda>p m. Inl (OSError ''''), vfs_stat = \<lambda>p. Inl (OSError ''''),
                    vfs_ilistdir = \<lambda>p. Inr [], vfs_statvfs = []\<rparr>,
      board_mount = \<lambda>mp. None, board_sys_path = [], dict_items = id\<rparr>
       (\<lambda>t req st. (Inr \<lparr>status = 404, body = []\<rparr>, st)) ''http://192.168.1.10:8080'' ()
     = ((Inl (Exit 8),
         [''Grabbing the BLD info from the remote server...'', ''> GET: http://192.168.1.10:8080/info/'',
          ''> ERROR: Got an unexpected status code !  (404)'']), ())"
proof -
  have t: "bootstrap \<lparr>implementation_name = ''circuitpython'', board_modules = [], board_secrets = [],
      wifi_connect = \<lambda>ssid pw. None,
      board_root = \<lparr>vfs_open = \<lambda>p m. Inl (OSError ''''), vfs_stat = \<lambda>p. Inl (OSError ''''),
                    vfs_ilistdir = \<lambda>p. Inr [], vfs_statvfs = []\<rparr>,
      board_mount = \<lambda>mp. None, board_sys_path = [], dict_items = id\<rparr>
       (\<lambda>t req st. (Inl Timeout, st)) ''http://192.168.1.10:8080'' ()
     = ((Inl (Exit 7),
         [''Grabbing the BLD info from the remote server...'', ''> GET: http://192.168.1.10:8080/info/'',
          ''> ERROR: Failed to get info !'',
          ''> If this issue persists on a windows-hosted server, try checking your firewall settings.'']), ())"
    using bootstrap_info_failure[of "\<lambda>t req st. (Inl Timeout, st)" "''http://192.168.1.10:8080''" "()" Timeout
        "\<lparr>implementation_name = ''circuitpython'', board_modules = [], board_secrets = [],
      wifi_connect = \<lambda>ssid pw. None,
      board_root = \<lparr>vfs_open = \<lambda>p m. Inl (OSError ''''), vfs_stat = \<lambda>p. Inl (OSError ''''),
                    vfs_ilistdir = \<lambda>p. Inr [], vfs_statvfs = []\<rparr>,
      board_mount = \<lambda>mp. None, board_sys_path = [], dict_items = id\<rparr>" "\<lparr>status = 404, body = []\<rparr>"]
    by simp
  have n: "bootstrap \<lparr>implementation_name = ''circuitpython'', board_modules = [], board_secrets = [],
      wifi_connect = \<lambda>ssid pw. None,
      board_root = \<lparr>vfs_open = \<lambda>p m. Inl (OSError ''''), vfs_stat = \<lambda>p. Inl (OSError ''''),
                    vfs_ilistdir = \<lambda>p. Inr [], vfs_statvfs = []\<rparr>,
      board_mount = \<lambda>mp. None, board_sys_path = [], dict_items = id\<rparr>
       (\<lambda>t req st. (Inr \<lparr>status = 404, body = []\<rparr>, st)) ''http://192.168.1.10:8080'' ()
     = ((Inl (Exit 8),
         [''Grabbing the BLD info from the remote server...'', ''> GET: http://192.168.1.10:8080/info/'',
          ''> ERROR: Got an unexpected status code !  (404)'']), ())"
    using bootstrap_info_failure[of "\<lambda>t req st. (Inr \<lparr>status = 404, body = []\<rparr>, st)"
        "''http://192.168.1.10:8080''" "()" Timeout "\<lparr>implementation_name = ''circuitpython'', board_modules = [], board_secrets = [],
      wifi_connect = \<lambda>ssid pw. None,
      board_root = \<lparr>vfs_open = \<lambda>p m. Inl (OSError ''''), vfs_stat = \<lambda>p. Inl (OSError ''''),
                    vfs_ilistdir = \<lambda>p. Inr [], vfs_statvfs = []\<rparr>,
      board_mount = \<lambda>mp. None, board_sys_path = [], dict_items = id\<rparr>" "\<lparr>status = 404, body = []\<rparr>"]
    by (simp add: py_str_nat.simps)
  show ?thesis using t n by simp
qed

end
