(* ===== verification/Concurrency.thy ===== *)
theory Concurrency
  imports BlockStore
begin

text \<open>
  Concurrent requests to the block store of \<open>src/BLD-Remote/server/main.py\<close>.
  Flask's development server handles each request in its own thread, and
  nothing in \<open>search\<close> takes a lock.  Under CPython's interpreter lock a thread
  can be preempted between two iterations of the POST copy loop
  \<open>block_level_data[start_index + i] = data[i]\<close>, whereas the GET slice
  \<open>block_level_data[start_index:end_index]\<close> is one C call and runs
  atomically.  The model: a POST thread, once past its bounds checks and its
  decoding (which do not touch the buffer), is the state of its loop, the
  next index and the bytes still to copy; an event either starts a POST,
  runs one iteration of a thread, or serves a GET atomically.  A run is an
  explicit list of events, so every interleaving is one list.
\<close>

section \<open>Threads, events and the scheduler\<close>

type_synonym post_thread = "int \<times> byte list"

text \<open>One iteration of the copy loop; \<open>None\<close> once the loop has ended (done, or \<open>IndexError\<close>).\<close>

fun post_step :: "byte list \<Rightarrow> post_thread \<Rightarrow> byte list \<times> post_thread option" where
  "post_step buf (idx, []) = (buf, None)"
| "post_step buf (idx, d # ds) =
     (case py_setitem buf idx d of
        None \<Rightarrow> (buf, None)
      | Some buf' \<Rightarrow> (buf', Some (idx + 1, ds)))"

record conc_state =
  srv :: server_state
  threads :: "post_thread option list"

datatype conc_event = Post int int "byte list" | Step nat | Get int int

text \<open>
  A POST enters its loop only when both bounds checks pass and its body
  decodes; otherwise its response is produced without touching the buffer.
  The response of a GET is the one \<open>search\<close> computes on the current buffer.
\<close>

fun conc_step :: "conc_state \<Rightarrow> conc_event \<Rightarrow> conc_state \<times> http_response option" where
  "conc_step st (Post ssi sc d) =
     (if int BLD_SECTOR_COUNT \<le> ssi \<or> int BLD_SECTOR_COUNT < ssi + sc then (st, None)
      else (case b64decode d of
              Inl _ \<Rightarrow> (st, None)
            | Inr bytes \<Rightarrow>
                (st\<lparr>threads := threads st @ [Some (ssi * int BLD_MIN_SECTOR_SIZE, bytes)]\<rparr>, None)))"
| "conc_step st (Step k) =
     (if k < length (threads st) then
        (case threads st ! k of
           None \<Rightarrow> (st, None)
         | Some t \<Rightarrow>
             (let (buf', t') = post_step (block_level_data (srv st)) t
              in (st\<lparr>srv := (srv st)\<lparr>block_level_data := buf'\<rparr>, threads := (threads st)[k := t']\<rparr>, None)))
      else (st, None))"
| "conc_step st (Get ssi sc) = (st, Some (fst (search GET ssi sc [] (srv st))))"

fun conc_run :: "conc_state \<Rightarrow> conc_event list \<Rightarrow> conc_state \<times> http_response list" where
  "conc_run st [] = (st, [])"
| "conc_run st (e # es) =
     (let (st', r) = conc_step st e; (st'', rs) = conc_run st' es
      in (st'', (case r of None \<Rightarrow> rs | Some x \<Rightarrow> x # rs)))"

text \<open>The loop of one thread run alone for \<open>n\<close> iterations.\<close>

fun thread_run :: "nat \<Rightarrow> byte list \<Rightarrow> post_thread option \<Rightarrow> byte list \<times> post_thread option" where
  "thread_run 0 buf t = (buf, t)"
| "thread_run (Suc n) buf None = (buf, None)"
| "thread_run (Suc n) buf (Some t) = (let (buf', t') = post_step buf t in thread_run n buf' t')"

inductive conc_reachable :: "conc_state \<Rightarrow> bool" where
  start: "conc_reachable \<lparr>srv = server_start None, threads = []\<rparr>"
| step: "conc_reachable st \<Longrightarrow> conc_reachable (fst (conc_step st e))"

section \<open>Lemmas\<close>

lemma length_post_step: "length (fst (post_step buf t)) = length buf"
proof -
  obtain idx ds where "t = (idx, ds)" by (cases t)
  then show ?thesis by (cases ds) (auto split: option.splits dest: length_py_setitem)
qed

lemma wf_conc_step: "wf_server (srv st) \<Longrightarrow> wf_server (srv (fst (conc_step st e)))"
  by (cases e) (auto simp: Let_def wf_server_def length_post_step split: option.splits sum.splits prod.splits
      dest: arg_cong[where f = "\<lambda>p. length (fst p)"])

lemma thread_run_write_bytes:
  "thread_run (Suc (length ds)) buf (Some (idx, ds)) = (fst (write_bytes buf idx ds), None)"
proof (induction ds arbitrary: buf idx)
  case Nil
  then show ?case by simp
next
  case (Cons d ds)
  then show ?case by (simp split: option.splits)
qed

lemma thread_run_prefix:
  "0 \<le> idx \<Longrightarrow> nat idx + length ds \<le> length buf \<Longrightarrow> k \<le> length ds \<Longrightarrow>
   thread_run k buf (Some (idx, ds)) = (overwrite buf (nat idx) (take k ds), Some (idx + int k, drop k ds))"
proof (induction k arbitrary: buf idx ds)
  case 0
  then show ?case by (simp add: overwrite_def)
next
  case (Suc k)
  obtain d ds' where ds: "ds = d # ds'" using Suc.prems(3) by (cases ds) auto
  have set: "py_setitem buf idx d = Some (buf[nat idx := d])"
    using Suc.prems ds by (intro py_setitem_nonneg) simp_all
  have n: "nat (idx + 1) = Suc (nat idx)" using Suc.prems(1) by simp
  have "thread_run k (buf[nat idx := d]) (Some (idx + 1, ds'))
      = (overwrite (buf[nat idx := d]) (nat (idx + 1)) (take k ds'), Some (idx + 1 + int k, drop k ds'))"
    using Suc.prems ds by (intro Suc.IH) simp_all
  moreover have "overwrite (buf[nat idx := d]) (Suc (nat idx)) (take k ds') = overwrite buf (nat idx) (d # take k ds')"
    using Suc.prems ds by (subst overwrite_Cons) simp_all
  ultimately show ?case
    using set ds n by (simp add: add.assoc)
qed

lemma conc_run_steps_at:
  "i < length (threads st) \<Longrightarrow> threads st ! i = t \<Longrightarrow>
   conc_run st (replicate k (Step i)) =
     (st\<lparr>srv := (srv st)\<lparr>block_level_data := fst (thread_run k (block_level_data (srv st)) t)\<rparr>,
         threads := (threads st)[i := snd (thread_run k (block_level_data (srv st)) t)]\<rparr>, [])"
proof (induction k arbitrary: st t)
  case 0
  then show ?case using 0(2)[symmetric] by simp
next
  case (Suc k)
  show ?case
  proof (cases t)
    case None
    have "conc_run st (replicate k (Step i)) =
        (st\<lparr>srv := (srv st)\<lparr>block_level_data := block_level_data (srv st)\<rparr>,
            threads := (threads st)[i := None]\<rparr>, [])"
      using Suc.IH[of st None] Suc.prems None by (cases k) simp_all
    then show ?thesis using Suc.prems None by simp
  next
    case (Some p)
    obtain buf' t' where p: "post_step (block_level_data (srv st)) p = (buf', t')" by fastforce
    let ?st1 = "st\<lparr>srv := (srv st)\<lparr>block_level_data := buf'\<rparr>, threads := (threads st)[i := t']\<rparr>"
    have "conc_step st (Step i) = (?st1, None)" using Suc.prems Some p by simp
    moreover have "conc_run ?st1 (replicate k (Step i)) =
        (?st1\<lparr>srv := (srv ?st1)\<lparr>block_level_data := fst (thread_run k buf' t')\<rparr>,
              threads := (threads ?st1)[i := snd (thread_run k buf' t')]\<rparr>, [])"
      using Suc.IH[of ?st1 t'] Suc.prems by simp
    ultimately show ?thesis using Some p by simp
  qed
qed

lemma conc_run_steps:
  "threads st = [t] \<Longrightarrow>
   conc_run st (replicate k (Step 0)) =
     (st\<lparr>srv := (srv st)\<lparr>block_level_data := fst (thread_run k (block_level_data (srv st)) t)\<rparr>,
         threads := [snd (thread_run k (block_level_data (srv st)) t)]\<rparr>, [])"
  using conc_run_steps_at[of 0 st t k] by simp

text \<open>Thread \<open>i\<close>, scheduled \<open>k\<close> times in a row, copies its next \<open>k\<close> bytes.\<close>

lemma conc_run_thread_prefix:
  assumes "i < length (threads st)" "threads st ! i = Some (idx, ds)" "0 \<le> idx"
    "nat idx + length ds \<le> length (block_level_data (srv st))" "k \<le> length ds"
  shows "conc_run st (replicate k (Step i)) =
     (st\<lparr>srv := (srv st)\<lparr>block_level_data := overwrite (block_level_data (srv st)) (nat idx) (take k ds)\<rparr>,
         threads := (threads st)[i := Some (idx + int k, drop k ds)]\<rparr>, [])"
  using conc_run_steps_at[OF assms(1,2), of k] thread_run_prefix[OF assms(3-5)] by simp

lemma conc_run_append:
  "conc_run st (es1 @ es2) =
     (let (st1, rs1) = conc_run st es1; (st2, rs2) = conc_run st1 es2 in (st2, rs1 @ rs2))"
  by (induction st es1 rule: conc_run.induct) (simp_all split: prod.splits option.splits)

lemma conc_run_post:
  "\<not> (int BLD_SECTOR_COUNT \<le> ssi \<or> int BLD_SECTOR_COUNT < ssi + sc) \<Longrightarrow> b64decode d = Inr bytes \<Longrightarrow>
   conc_run st [Post ssi sc d]
     = (st\<lparr>threads := threads st @ [Some (ssi * int BLD_MIN_SECTOR_SIZE, bytes)]\<rparr>, [])"
  by simp

section \<open>Properties of concurrent requests\<close>

text \<open>
  C30. However requests interleave, the buffer keeps its size: every state
  reachable from start-up by any sequence of POST starts, loop iterations
  and GETs is well formed.
\<close>

theorem conc_reachable_wf: "conc_reachable st \<Longrightarrow> wf_server (srv st)"
proof (induction rule: conc_reachable.induct)
  case start
  show ?case by (simp add: wf_server_start_None)
next
  case (step st e)
  from step.IH show ?case by (rule wf_conc_step)
qed

lemma conc_reachable_wf_witness:
  "wf_server (srv (fst (conc_step (fst (conc_step \<lparr>srv = server_start None, threads = []\<rparr>
      (Post 0 1 (b2a_base64 [1, 2, 3])))) (Step 0))))"
  by (rule conc_reachable_wf) (intro conc_reachable.step conc_reachable.start)

text \<open>
  C31. Torn reads: without a lock, a GET of a range served while a POST to
  the same range is in its copy loop returns the first \<open>k\<close> new bytes followed
  by the old rest of the range, for every \<open>k\<close>; for \<open>0 < k < len\<close> this is
  neither the content before the write nor after it, which the spec's
  isolation requirement forbids.
\<close>

theorem torn_read:
  assumes "wf_server s" "0 \<le> ssi" "0 \<le> sc" "ssi < int BLD_SECTOR_COUNT" "ssi + sc \<le> int BLD_SECTOR_COUNT"
    "b64decode d = Inr bytes" "length bytes = nat sc * BLD_MIN_SECTOR_SIZE" "k \<le> length bytes"
  shows "snd (conc_run \<lparr>srv = s, threads = []\<rparr> (Post ssi sc d # replicate k (Step 0) @ [Get ssi sc]))
       = [\<lparr>status = 200, body = b64encode (take k bytes @
            drop k (take (nat sc * BLD_MIN_SECTOR_SIZE) (drop (nat ssi * BLD_MIN_SECTOR_SIZE) (block_level_data s))))\<rparr>]"
proof -
  let ?i = "nat ssi * BLD_MIN_SECTOR_SIZE"
  let ?m = "nat sc * BLD_MIN_SECTOR_SIZE"
  let ?buf = "overwrite (block_level_data s) ?i (take k bytes)"
  let ?st1 = "\<lparr>srv = s, threads = [Some (ssi * int BLD_MIN_SECTOR_SIZE, bytes)]\<rparr>"
  have len: "length (block_level_data s) = bld_size" using assms(1) by (simp add: wf_server_def)
  have fit: "?i + ?m \<le> bld_size"
    using assms(2-5) by (simp add: BLD_MIN_SECTOR_SIZE_def BLD_SECTOR_COUNT_def nat_add_distrib[symmetric])
  have idx: "nat (ssi * int BLD_MIN_SECTOR_SIZE) = ?i" using assms(2) by (simp add: nat_mult_distrib)
  have tr: "thread_run k (block_level_data s) (Some (ssi * int BLD_MIN_SECTOR_SIZE, bytes))
      = (?buf, Some (ssi * int BLD_MIN_SECTOR_SIZE + int k, drop k bytes))"
    using thread_run_prefix[of "ssi * int BLD_MIN_SECTOR_SIZE" bytes "block_level_data s" k] assms(2,7,8) fit len idx
    by simp
  have wf1: "wf_server (s\<lparr>block_level_data := ?buf\<rparr>)"
    using wf_overwrite_len[OF assms(1)] fit assms(7,8) by simp
  have get: "fst (search GET ssi sc [] (s\<lparr>block_level_data := ?buf\<rparr>))
      = \<lparr>status = 200, body = b64encode (take ?m (drop ?i ?buf))\<rparr>"
    using search_get[OF wf1 assms(2) assms(4) assms(3) assms(5)] by simp
  have "take ?m (drop ?i ?buf) = take k bytes @ drop k (take ?m (drop ?i (block_level_data s)))"
    using take_drop_overwrite_prefix[of ?i ?m "block_level_data s" "take k bytes"] fit len assms(7,8) by simp
  have post: "conc_run \<lparr>srv = s, threads = []\<rparr> [Post ssi sc d] = (?st1, [])"
    using conc_run_post[of ssi sc d bytes] assms(4,5,6) by simp
  have r1: "conc_run ?st1 (replicate k (Step 0))
      = (\<lparr>srv = s\<lparr>block_level_data := ?buf\<rparr>, threads = [Some (ssi * int BLD_MIN_SECTOR_SIZE + int k, drop k bytes)]\<rparr>, [])"
    using conc_run_steps[of ?st1 _ k] tr by simp
  have eq: "Post ssi sc d # replicate k (Step 0) @ [Get ssi sc] = [Post ssi sc d] @ (replicate k (Step 0) @ [Get ssi sc])"
    by simp
  show ?thesis
    unfolding eq conc_run_append post Let_def using get \<open>take ?m (drop ?i ?buf) = _\<close> by (simp add: r1)
qed

lemma torn_read_witness:
  "snd (conc_run \<lparr>srv = server_start None, threads = []\<rparr>
      (Post 10 2 (b2a_base64 (replicate 1024 171)) # replicate 512 (Step 0) @ [Get 10 2]))
   = [\<lparr>status = 200, body = b64encode (replicate 512 171 @ replicate 512 0)\<rparr>]"
  using torn_read[OF wf_server_start_None, of 10 2 "b2a_base64 (replicate 1024 171)" "replicate 1024 171" 512]
  by (simp add: b64decode_b2a_base64 BLD_SECTOR_COUNT_def BLD_MIN_SECTOR_SIZE_def del: conc_run.simps)

text \<open>
  C32. A POST that enters its copy loop finishes, and exactly when it
  should: scheduled alone with a payload that fits in the buffer from
  \<open>ssi * 512\<close>, the thread is still in its loop after \<open>n\<close> of its steps
  (\<open>n\<close> the number of decoded bytes) and has ended after \<open>n + 1\<close>, and then
  the buffer holds the payload at \<open>ssi * 512\<close> and is unchanged elsewhere.
\<close>

theorem post_thread_finishes:
  assumes "wf_server s" "0 \<le> ssi" "ssi + sc \<le> int BLD_SECTOR_COUNT" "ssi < int BLD_SECTOR_COUNT"
    "b64decode d = Inr bytes" "nat ssi * BLD_MIN_SECTOR_SIZE + length bytes \<le> bld_size"
  shows "threads (fst (conc_run \<lparr>srv = s, threads = []\<rparr> (Post ssi sc d # replicate (length bytes) (Step 0))))
           = [Some (ssi * int BLD_MIN_SECTOR_SIZE + int (length bytes), [])] \<and>
         conc_run \<lparr>srv = s, threads = []\<rparr> (Post ssi sc d # replicate (Suc (length bytes)) (Step 0))
           = (\<lparr>srv = s\<lparr>block_level_data := overwrite (block_level_data s) (nat ssi * BLD_MIN_SECTOR_SIZE) bytes\<rparr>,
               threads = [None]\<rparr>, [])"
proof -
  let ?idx = "ssi * int BLD_MIN_SECTOR_SIZE"
  let ?st1 = "\<lparr>srv = s, threads = [Some (?idx, bytes)]\<rparr>"
  have len: "length (block_level_data s) = bld_size" using assms(1) by (simp add: wf_server_def)
  have idx: "nat ?idx = nat ssi * BLD_MIN_SECTOR_SIZE" using assms(2) by (simp add: nat_mult_distrib)
  have nn: "0 \<le> ?idx" using assms(2) by simp
  have post: "conc_run \<lparr>srv = s, threads = []\<rparr> [Post ssi sc d] = (?st1, [])"
    using conc_run_post[of ssi sc d bytes] assms(3-5) by simp
  have split: "\<And>n. Post ssi sc d # replicate n (Step 0) = [Post ssi sc d] @ replicate n (Step 0)" by simp
  have run_n: "conc_run ?st1 (replicate (length bytes) (Step 0))
      = (?st1\<lparr>srv := s\<lparr>block_level_data := overwrite (block_level_data s) (nat ?idx) bytes\<rparr>,
              threads := [Some (?idx + int (length bytes), [])]\<rparr>, [])"
    using conc_run_thread_prefix[of 0 ?st1 ?idx bytes "length bytes"] nn assms(6) len idx by simp
  have run_all: "conc_run ?st1 (replicate (Suc (length bytes)) (Step 0))
      = (?st1\<lparr>srv := s\<lparr>block_level_data := overwrite (block_level_data s) (nat ?idx) bytes\<rparr>,
              threads := [None]\<rparr>, [])"
    using conc_run_steps_at[of 0 ?st1 "Some (?idx, bytes)" "Suc (length bytes)"]
      thread_run_write_bytes[of bytes "block_level_data s" ?idx]
      write_bytes_in_range[OF nn, of bytes "block_level_data s"] assms(6) len idx by simp
  show ?thesis
    unfolding split conc_run_append post Let_def using run_n run_all idx by simp
qed

lemma post_thread_finishes_witness:
  "threads (fst (conc_run \<lparr>srv = server_start None, threads = []\<rparr>
      (Post 1 1 (b2a_base64 [1, 2, 3]) # replicate 3 (Step 0)))) = [Some (515, [])] \<and>
   conc_run \<lparr>srv = server_start None, threads = []\<rparr> (Post 1 1 (b2a_base64 [1, 2, 3]) # replicate (Suc 3) (Step 0))
     = (\<lparr>srv = (server_start None)\<lparr>block_level_data := overwrite (replicate bld_size 0) 512 [1, 2, 3]\<rparr>,
         threads = [None]\<rparr>, [])"
  using post_thread_finishes[OF wf_server_start_None, of 1 1 "b2a_base64 [1, 2, 3]" "[1, 2, 3]"]
  by (simp add: b64decode_b2a_base64 BLD_SECTOR_COUNT_def BLD_MIN_SECTOR_SIZE_def numeral_3_eq_3
      del: conc_run.simps replicate.simps)

text \<open>
  C34. Two POSTs to the same range are not serialised: the second writer,
  scheduled for \<open>k\<close> iterations, then the first to the end of its loop, then
  the second to the end of its own, leave the range holding the first \<open>k\<close>
  bytes of the first payload followed by the rest of the second.  For
  \<open>0 < k < len\<close> and payloads that differ on both sides of \<open>k\<close>, a GET then
  reads data that neither request wrote as a whole, a state no serial order
  of the two requests produces.
\<close>

theorem interleaved_posts:
  assumes "wf_server s" "0 \<le> ssi" "0 \<le> sc" "ssi < int BLD_SECTOR_COUNT" "ssi + sc \<le> int BLD_SECTOR_COUNT"
    "b64decode d1 = Inr xs" "b64decode d2 = Inr ys"
    "length xs = nat sc * BLD_MIN_SECTOR_SIZE" "length ys = length xs" "k \<le> length xs"
  shows "snd (conc_run \<lparr>srv = s, threads = []\<rparr>
            ([Post ssi sc d1, Post ssi sc d2] @ replicate k (Step 1) @ replicate (length xs) (Step 0) @
             replicate (length xs - k) (Step 1) @ [Get ssi sc]))
       = [\<lparr>status = 200, body = b64encode (take k xs @ drop k ys)\<rparr>]"
proof -
  let ?i = "nat ssi * BLD_MIN_SECTOR_SIZE" and ?n = "length xs" and ?a = "ssi * int BLD_MIN_SECTOR_SIZE"
  let ?buf = "block_level_data s"
  let ?buf1 = "overwrite ?buf ?i (take k ys)"
  let ?buf2 = "overwrite ?buf1 ?i xs"
  let ?buf3 = "overwrite ?buf2 (?i + k) (drop k ys)"
  have len: "length ?buf = bld_size" using assms(1) by (simp add: wf_server_def)
  have fit: "?i + ?n \<le> bld_size"
    using assms(2-5,8) by (simp add: BLD_MIN_SECTOR_SIZE_def BLD_SECTOR_COUNT_def nat_add_distrib[symmetric])
  have idx: "nat ?a = ?i" "nat (?a + int k) = ?i + k" using assms(2) by (simp_all add: nat_mult_distrib nat_add_distrib)
  have post: "conc_run \<lparr>srv = s, threads = []\<rparr> [Post ssi sc d1, Post ssi sc d2]
      = (\<lparr>srv = s, threads = [Some (?a, xs), Some (?a, ys)]\<rparr>, [])"
    using assms(4-7) by simp
  have r1: "conc_run \<lparr>srv = s, threads = [Some (?a, xs), Some (?a, ys)]\<rparr> (replicate k (Step 1))
      = (\<lparr>srv = s\<lparr>block_level_data := ?buf1\<rparr>, threads = [Some (?a, xs), Some (?a + int k, drop k ys)]\<rparr>, [])"
    using conc_run_thread_prefix[of 1 "\<lparr>srv = s, threads = [Some (?a, xs), Some (?a, ys)]\<rparr>" ?a ys k]
      assms(2,9,10) fit len idx by simp
  have r2: "conc_run \<lparr>srv = s\<lparr>block_level_data := ?buf1\<rparr>, threads = [Some (?a, xs), Some (?a + int k, drop k ys)]\<rparr>
      (replicate ?n (Step 0))
      = (\<lparr>srv = s\<lparr>block_level_data := ?buf2\<rparr>, threads = [Some (?a + int ?n, []), Some (?a + int k, drop k ys)]\<rparr>, [])"
    using conc_run_thread_prefix[of 0 "\<lparr>srv = s\<lparr>block_level_data := ?buf1\<rparr>, threads = [Some (?a, xs), Some (?a + int k, drop k ys)]\<rparr>" ?a xs ?n]
      assms(2,9,10) fit len idx by simp
  have r3: "conc_run \<lparr>srv = s\<lparr>block_level_data := ?buf2\<rparr>, threads = [Some (?a + int ?n, []), Some (?a + int k, drop k ys)]\<rparr>
      (replicate (?n - k) (Step 1))
      = (\<lparr>srv = s\<lparr>block_level_data := ?buf3\<rparr>, threads = [Some (?a + int ?n, []), Some (?a + int k + int (?n - k), [])]\<rparr>, [])"
    using conc_run_thread_prefix[of 1 "\<lparr>srv = s\<lparr>block_level_data := ?buf2\<rparr>, threads = [Some (?a + int ?n, []), Some (?a + int k, drop k ys)]\<rparr>"
        "?a + int k" "drop k ys" "?n - k"] assms(2,9,10) fit len idx by simp
  have buf3: "?buf3 = overwrite ?buf ?i (take k xs @ drop k ys)"
    using fit len assms(9,10) by (simp add: overwrite_overwrite_cover overwrite_overwrite_split)
  have wf3: "wf_server (s\<lparr>block_level_data := ?buf3\<rparr>)"
    unfolding buf3 using wf_overwrite_len[OF assms(1)] fit assms(9,10) by simp
  have range: "take (nat sc * BLD_MIN_SECTOR_SIZE) (drop ?i ?buf3) = take k xs @ drop k ys"
    unfolding buf3 using drop_take_overwrite[of ?i "take k xs @ drop k ys" ?buf] fit len assms(8-10) by simp
  have get: "fst (search GET ssi sc [] (s\<lparr>block_level_data := ?buf3\<rparr>))
      = \<lparr>status = 200, body = b64encode (take k xs @ drop k ys)\<rparr>"
    using search_get[OF wf3 assms(2) assms(4) assms(3) assms(5)] range by simp
  show ?thesis
    by (simp only: conc_run_append append_assoc[symmetric] post r1 r2 r3 Let_def prod.case)
       (simp add: get)
qed

lemma interleaved_posts_witness:
  "snd (conc_run \<lparr>srv = server_start None, threads = []\<rparr>
      ([Post 0 1 (b2a_base64 (replicate 512 1)), Post 0 1 (b2a_base64 (replicate 512 2))] @
       replicate 256 (Step 1) @ replicate 512 (Step 0) @ replicate 256 (Step 1) @ [Get 0 1]))
   = [\<lparr>status = 200, body = b64encode (replicate 256 1 @ replicate 256 2)\<rparr>]"
  using interleaved_posts[OF wf_server_start_None, of 0 1 "b2a_base64 (replicate 512 1)" "replicate 512 1"
      "b2a_base64 (replicate 512 2)" "replicate 512 2" 256]
  by (simp add: b64decode_b2a_base64 BLD_SECTOR_COUNT_def BLD_MIN_SECTOR_SIZE_def del: conc_run.simps)

end
