(* ===== verification/FsRom.thy ===== *)
theory FsRom
  imports Board
begin

text \<open>
  The read-only in-memory filesystem \<open>src/FS-ReadOnlyMemory/fs_rom.py\<close>
  (class \<open>ReadOnlyMemoryFileSystem\<close>) and the script
  \<open>src/FS-ReadOnlyMemory/code.py\<close> that mounts it at \<open>/rom\<close> and reads a
  file back.  The files are the module constant \<open>__FILE_SYSTEM_CONTENT\<close>, a
  list of \<open>[name, text]\<close> pairs; the object's state is the label and the
  read-only flag of \<open>VirtualFS\<close>, which no method reads.

  The methods name the module constant from inside the class.  CPython would
  mangle \<open>__FILE_SYSTEM_CONTENT\<close> to \<open>_ReadOnlyMemoryFileSystem__FILE_SYSTEM_CONTENT\<close>
  there and raise \<open>NameError\<close>; MicroPython, on which CircuitPython is built,
  does not mangle names, and the model follows CircuitPython.
\<close>

section \<open>The file table\<close>

definition FILE_SYSTEM_CONTENT :: "(string \<times> string) list" where
  "FILE_SYSTEM_CONTENT =
     [(''test.txt'', ''Hello world from a text file !''),
      (''test.py'', ''print('' @ [CHR 0x22] @ ''> Hello world from a fake .py file :)'' @ [CHR 0x22] @ '')''),
      (''__init__.py'', '''')]"

text \<open>
  The search loop of \<open>open\<close> and \<open>stat\<close>: the first entry whose name is the
  requested name, then \<open>break\<close>.
\<close>

fun rom_find :: "(string \<times> string) list \<Rightarrow> string \<Rightarrow> string option" where
  "rom_find [] p = None"
| "rom_find (file_data # fds) p = (if fst file_data = p then Some (snd file_data) else rom_find fds p)"

section \<open>The methods\<close>

definition rom_init :: "string \<Rightarrow> bool \<Rightarrow> fs_error + fs_object" where
  "rom_init l ro = vfs_init l ro"

definition rom_open :: "fs_object \<Rightarrow> string \<Rightarrow> string \<Rightarrow> fs_error + io_object" where
  "rom_open fs path mode =
     (if mode \<notin> set [''r'', ''rb'', ''rt'']
      then Inl (OSError (''The mode '' @ [CHR 0x27] @ mode @ [CHR 0x27] @ '' isn'' @ [CHR 0x27] @ ''t supported''))
      else case rom_find FILE_SYSTEM_CONTENT (lstrip_slash path) of
             None \<Rightarrow> Inl (OSError (''[Errno 2] No such file/directory: '' @ path))
           | Some requested_content \<Rightarrow>
               if ends_with_b mode then Inr (BytesIO (utf8_encode requested_content))
               else Inr (StringIO requested_content))"

definition rom_stat :: "fs_object \<Rightarrow> string \<Rightarrow> fs_error + stat_result" where
  "rom_stat fs path =
     (if path = ''/'' then Inr [S_IFDIR, 0, 0, 0, 0, 0, 0, 0, 0, 0]
      else case rom_find FILE_SYSTEM_CONTENT (lstrip_slash path) of
             Some requested_content \<Rightarrow>
               Inr [S_IFREG, 0, 0, 0, 0, 0, int (length (utf8_encode requested_content)), 0, 0, 0]
           | None \<Rightarrow> Inl (OSError ''[Errno 2] No such file/directory''))"

definition rom_ilistdir :: "fs_object \<Rightarrow> string \<Rightarrow> fs_error + dir_entry list" where
  "rom_ilistdir fs path =
     (if path = ''/''
      then Inr (map (\<lambda>(name, text). (name, S_IFREG, 0, int (length (utf8_encode text)))) FILE_SYSTEM_CONTENT)
      else Inl (OSError ''[Errno 2] No such file/directory''))"

definition rom_statvfs :: "fs_object \<Rightarrow> int \<Rightarrow> int list" where
  "rom_statvfs fs path = [512, 512, 1024, 896, 896, 0, 0, 0, 0, 255]"

definition rom_call :: "fs_object \<Rightarrow> vfs_call \<Rightarrow> unit" where
  "rom_call fs c = ()"

text \<open>The object as CircuitPython sees it once mounted.\<close>

definition rom_vfs :: "fs_object \<Rightarrow> vfs" where
  "rom_vfs fs = \<lparr>vfs_open = rom_open fs, vfs_stat = rom_stat fs, vfs_ilistdir = rom_ilistdir fs,
                 vfs_statvfs = rom_statvfs fs 0\<rparr>"

section \<open>The demonstration script\<close>

text \<open>
  \<open>code.py\<close>: the implementation check, the construction with the default
  label \<open>ROM\<close>, the mount at \<open>/rom\<close> and the check that the board's root
  lists it (exit 2), then the files: the listing, the required files (exit 3
  and 4), \<open>test.txt\<close> read in modes \<open>r\<close> and \<open>rb\<close>, and \<open>import test\<close> with
  \<open>/rom\<close> in front of \<open>sys.path\<close>.  The script lists the mount point three
  times; the filesystem has no state a call changes, so the three calls give
  the same list and the model makes one.  An exception no line catches ends
  the script.
\<close>

definition MOUNTING_POINT_rom :: string where
  "MOUNTING_POINT_rom = ''/rom''"

definition read_print :: "mount_table \<Rightarrow> vfs \<Rightarrow> string \<Rightarrow> string \<Rightarrow> unit script" where
  "read_print ms root p mode =
     (case mounted_open ms root p mode of
        Inl _ \<Rightarrow> stop (Uncaught ''OSError'') []
      | Inr f \<Rightarrow> emit [''> Content: '' @ py_str_read f])"

definition rom_files :: "mount_table \<Rightarrow> vfs \<Rightarrow> string list \<Rightarrow> unit script" where
  "rom_files ms root path =
     (let mp = MOUNTING_POINT_rom in
      case mounted_listdir ms root mp of
        Inl _ \<Rightarrow> stop (Uncaught ''OSError'') [''Listing of '' @ sq mp @ '':'']
      | Inr names \<Rightarrow>
          seq (emit ((''Listing of '' @ sq mp @ '':'') # map (\<lambda>element. ''> '' @ element) names @
                     [''Checking if some required files exist''])) (\<lambda>_.
          seq (if ''test.txt'' \<notin> set names then stop (Exit 3) [''> Cannot find '' @ sq ''test.txt'' @ '' !'']
               else emit []) (\<lambda>_.
          seq (if ''test.py'' \<notin> set names then stop (Exit 4) [''> Cannot find '' @ sq ''test.py'' @ '' !'']
               else emit [''> Everything seems fine :)'']) (\<lambda>_.
          seq (emit [''Reading the '' @ sq (mp @ ''/test.txt'') @ '' file.'', ''> Mode '' @ sq ''r'']) (\<lambda>_.
          seq (read_print ms root (mp @ ''/test.txt'') ''r'') (\<lambda>_.
          seq (emit [''> Mode '' @ sq ''rb'']) (\<lambda>_.
          seq (read_print ms root (mp @ ''/test.txt'') ''rb'') (\<lambda>_.
          import_test mp ms root path))))))))"

definition rom_script :: "board \<Rightarrow> script_end \<times> string list" where
  "rom_script b = run_script (
     let mp = MOUNTING_POINT_rom in
     seq (check_circuitpython b) (\<lambda>_.
     seq (emit [''Preparing the read-only memory file system...'']) (\<lambda>_.
     case rom_init ''ROM'' False of
       Inl _ \<Rightarrow> stop (Uncaught ''OSError'') []
     | Inr fs \<Rightarrow>
         seq (emit [''Mounting the file system in '' @ sq mp @ '' ...'']) (\<lambda>_.
         case board_mount b mp of
           None \<Rightarrow> stop (Uncaught ''OSError'') []
         | Some root_names \<Rightarrow>
             seq (emit [''Checking if we can see it in the MCU'' @ [CHR 0x27] @ ''s root folder:'',
                        ''> '' @ py_repr_list root_names]) (\<lambda>_.
             seq (if lstrip_slash mp \<in> set root_names then emit [''> It is present !'']
                  else stop (Exit 2) [''> It couldn'' @ [CHR 0x27] @ ''t be found, exiting !'']) (\<lambda>_.
             rom_files [(mp, rom_vfs fs)] (board_root b) (board_sys_path b)))))))"

section \<open>Lemmas\<close>

lemma rom_find_None_iff: "rom_find xs p = None \<longleftrightarrow> p \<notin> fst ` set xs"
  by (induction xs) auto

lemma rom_find_Some: "rom_find xs p = Some c \<Longrightarrow> p \<in> fst ` set xs"
  by (induction xs) (auto split: if_splits)

lemmas rom_defs = rom_vfs_def rom_open_def rom_stat_def rom_ilistdir_def FILE_SYSTEM_CONTENT_def
  lstrip_slash_def ends_with_b_def S_IFREG_def S_IFDIR_def

section \<open>Properties of the read-only filesystem\<close>

text \<open>
  C19. \<open>open\<close> succeeds exactly for the modes \<open>r\<close>, \<open>rb\<close>, \<open>rt\<close> and a path
  that names a file once its leading slashes are stripped; every other call
  raises \<open>OSError\<close> (a write mode included).
\<close>

theorem rom_open_iff:
  "(\<exists>io. rom_open fs path mode = Inr io) \<longleftrightarrow>
   mode \<in> set [''r'', ''rb'', ''rt''] \<and> lstrip_slash path \<in> fst ` set FILE_SYSTEM_CONTENT"
proof (cases "rom_find FILE_SYSTEM_CONTENT (lstrip_slash path)")
  case None
  then have "lstrip_slash path \<notin> fst ` set FILE_SYSTEM_CONTENT"
    using rom_find_None_iff by blast
  with None show ?thesis by (simp add: rom_open_def)
next
  case (Some c)
  then have "lstrip_slash path \<in> fst ` set FILE_SYSTEM_CONTENT" by (rule rom_find_Some)
  with Some show ?thesis by (auto simp: rom_open_def)
qed

text \<open>
  C21. The script \<open>code.py\<close> of FS-ReadOnlyMemory runs to its end on every
  CircuitPython board whose root lists \<open>rom\<close> once it is mounted, whatever
  its own filesystem and \<open>sys.path\<close> hold: it lists the three files, reads
  \<open>test.txt\<close> back as its text and as the bytes of that text, and the
  \<open>import test\<close> runs the filesystem's own \<open>test.py\<close>, because \<open>/rom\<close> is
  put in front of \<open>sys.path\<close>.  The theorem gives every line it prints.
\<close>

theorem rom_script_output:
  assumes "implementation_name b = ''circuitpython''"
    and "board_mount b ''/rom'' = Some names" and "''rom'' \<in> set names"
  shows "rom_script b =
    (Completed,
     [''Preparing the read-only memory file system...'',
      ''Mounting the file system in '' @ sq ''/rom'' @ '' ...'',
      ''Checking if we can see it in the MCU'' @ [CHR 0x27] @ ''s root folder:'',
      ''> '' @ py_repr_list names,
      ''> It is present !'',
      ''Listing of '' @ sq ''/rom'' @ '':'', ''> test.txt'', ''> test.py'', ''> __init__.py'',
      ''Checking if some required files exist'',
      ''> Everything seems fine :)'',
      ''Reading the '' @ sq ''/rom/test.txt'' @ '' file.'',
      ''> Mode '' @ sq ''r'',
      ''> Content: Hello world from a text file !'',
      ''> Mode '' @ sq ''rb'',
      ''> Content: b'' @ sq ''Hello world from a text file !'',
      ''Preparing the '' @ sq ''sys.path'' @ '' list to let us import from the new file system'',
      ''> Old: '' @ py_repr_list (board_sys_path b),
      ''> New: '' @ py_repr_list (''/rom'' # board_sys_path b),
      ''Importing the '' @ sq ''test'' @ '' module from '' @ sq ''/rom/test.py'',
      ''> Hello world from a fake .py file :)''])"
  using assms
  by (simp add: rom_script_def rom_files_def check_circuitpython_def MOUNTING_POINT_rom_def
      rom_init_def vfs_init_def mounted_listdir_def read_print_def mounted_open_def abs_path_def
      import_test_def import_module_def mounted_kind_def module_path_def rom_defs
      script_simps py_str_read_def py_repr_bytes_plain io_text_def ascii_decode_utf8_encode
      exec_print_source_def printable_def length_utf8_encode Let_def)

lemma rom_script_output_witness:
  "rom_script \<lparr>implementation_name = ''circuitpython'', board_modules = [], board_secrets = [],
      wifi_connect = \<lambda>ssid pw. None,
      board_root = \<lparr>vfs_open = \<lambda>p m. Inl (OSError ''''), vfs_stat = \<lambda>p. Inl (OSError ''''),
                    vfs_ilistdir = \<lambda>p. Inr [], vfs_statvfs = []\<rparr>,
      board_mount = \<lambda>mp. Some [''boot_out.txt'', ''lib'', ''rom''],
      board_sys_path = ['''', ''/'', ''.frozen'', ''/lib''], dict_items = id\<rparr>
   = (Completed, [''Preparing the read-only memory file system...'',
      ''Mounting the file system in '' @ sq ''/rom'' @ '' ...'',
      ''Checking if we can see it in the MCU'' @ [CHR 0x27] @ ''s root folder:'',
      ''> '' @ py_repr_list [''boot_out.txt'', ''lib'', ''rom''],
      ''> It is present !'',
      ''Listing of '' @ sq ''/rom'' @ '':'', ''> test.txt'', ''> test.py'', ''> __init__.py'',
      ''Checking if some required files exist'',
      ''> Everything seems fine :)'',
      ''Reading the '' @ sq ''/rom/test.txt'' @ '' file.'',
      ''> Mode '' @ sq ''r'',
      ''> Content: Hello world from a text file !'',
      ''> Mode '' @ sq ''rb'',
      ''> Content: b'' @ sq ''Hello world from a text file !'',
      ''Preparing the '' @ sq ''sys.path'' @ '' list to let us import from the new file system'',
      ''> Old: '' @ py_repr_list ['''', ''/'', ''.frozen'', ''/lib''],
      ''> New: '' @ py_repr_list [''/rom'', '''', ''/'', ''.frozen'', ''/lib''],
      ''Importing the '' @ sq ''test'' @ '' module from '' @ sq ''/rom/test.py'',
      ''> Hello world from a fake .py file :)''])"
  using rom_script_output[of "\<lparr>implementation_name = ''circuitpython'', board_modules = [], board_secrets = [],
      wifi_connect = \<lambda>ssid pw. None,
      board_root = \<lparr>vfs_open = \<lambda>p m. Inl (OSError ''''), vfs_stat = \<lambda>p. Inl (OSError ''''),
                    vfs_ilistdir = \<lambda>p. Inr [], vfs_statvfs = []\<rparr>,
      board_mount = \<lambda>mp. Some [''boot_out.txt'', ''lib'', ''rom''],
      board_sys_path = ['''', ''/'', ''.frozen'', ''/lib''], dict_items = id\<rparr>"
      "[''boot_out.txt'', ''lib'', ''rom'']"]
  by simp

end
