(* ===== verification/FsBlank.thy ===== *)
theory FsBlank
  imports Board
begin

text \<open>
  The empty filesystem \<open>src/FS-Blank/fs_blank.py\<close> (class
  \<open>BlankMemoryFileSystem\<close>), a template for a Python-implemented filesystem,
  and the script \<open>src/FS-Blank/code.py\<close> that mounts it at \<open>/mfs\<close> and lists
  it.  The state is the label and the read-only flag of \<open>VirtualFS\<close>; no
  method reads it.
\<close>

section \<open>The methods\<close>

definition blank_init :: "string \<Rightarrow> bool \<Rightarrow> fs_error + fs_object" where
  "blank_init l ro = vfs_init l ro"

text \<open>\<open>open\<close> raises for every path and every mode.\<close>

definition blank_open :: "fs_object \<Rightarrow> string \<Rightarrow> string \<Rightarrow> fs_error + io_object" where
  "blank_open fs path mode = Inl (OSError (''[Errno 2] No such file/directory: '' @ path))"

definition blank_stat :: "fs_object \<Rightarrow> string \<Rightarrow> fs_error + stat_result" where
  "blank_stat fs path =
     (if path = ''/'' then Inr [S_IFDIR, 0, 0, 0, 0, 0, 0, 0, 0, 0]
      else Inl (OSError ''[Errno 2] No such file/directory''))"

definition blank_statvfs :: "fs_object \<Rightarrow> int \<Rightarrow> int list" where
  "blank_statvfs fs path = [512, 512, 1024, 896, 896, 0, 0, 0, 0, 255]"

definition blank_ilistdir :: "fs_object \<Rightarrow> string \<Rightarrow> fs_error + dir_entry list" where
  "blank_ilistdir fs path = Inr []"

definition blank_call :: "fs_object \<Rightarrow> vfs_call \<Rightarrow> unit" where
  "blank_call fs c = ()"

definition blank_vfs :: "fs_object \<Rightarrow> vfs" where
  "blank_vfs fs = \<lparr>vfs_open = blank_open fs, vfs_stat = blank_stat fs, vfs_ilistdir = blank_ilistdir fs,
                   vfs_statvfs = blank_statvfs fs 0\<rparr>"

section \<open>The demonstration script\<close>

text \<open>
  \<open>code.py\<close>: the implementation check, the construction with the default
  label \<open>BLANK\<close>, the mount at \<open>/mfs\<close>, the check that the board's root
  lists it (exit 2), and the listing loop.  For each element of
  \<open>os.listdir(MOUNTING_POINT)\<close> the loop prints
  \<open>"> {}".format(MOUNTING_POINT)\<close>; \<open>os.listdir\<close> of the mount point is
  the listing of the mounted filesystem's root (\<open>mounted_listdir_mount_point\<close>).
\<close>

definition MOUNTING_POINT_blank :: string where
  "MOUNTING_POINT_blank = ''/mfs''"

definition blank_listing_output :: "vfs \<Rightarrow> fs_error + string list" where
  "blank_listing_output v =
     (case os_listdir v of
        Inl e \<Rightarrow> Inl e
      | Inr names \<Rightarrow> Inr (map (\<lambda>element. ''> '' @ MOUNTING_POINT_blank) names))"

definition blank_script :: "board \<Rightarrow> script_end \<times> string list" where
  "blank_script b = run_script (
     let mp = MOUNTING_POINT_blank in
     seq (check_circuitpython b) (\<lambda>_.
     seq (emit [''Preparing the blank file system...'']) (\<lambda>_.
     case blank_init ''BLANK'' False of
       Inl _ \<Rightarrow> stop (Uncaught ''OSError'') []
     | Inr fs \<Rightarrow>
         seq (emit [''Mounting the blank file system in '' @ sq mp @ '' ...'']) (\<lambda>_.
         case board_mount b mp of
           None \<Rightarrow> stop (Uncaught ''OSError'') []
         | Some root_names \<Rightarrow>
             seq (emit [''Checking if we can see it in the MCU'' @ [CHR 0x27] @ ''s root folder:'']) (\<lambda>_.
             seq (if lstrip_slash mp \<in> set root_names then emit [''> It is present !'']
                  else stop (Exit 2) [''> It couldn'' @ [CHR 0x27] @ ''t be found, exiting !'']) (\<lambda>_.
             seq (emit [''Listing of '' @ sq mp]) (\<lambda>_.
             case blank_listing_output (blank_vfs fs) of
               Inl _ \<Rightarrow> stop (Uncaught ''OSError'') []
             | Inr lines \<Rightarrow> emit lines)))))))"

section \<open>Properties of the empty filesystem\<close>



text \<open>
  C24. The script \<open>code.py\<close> of FS-Blank on every CircuitPython board where
  the mount succeeds: it prints its progress and then either finds \<open>mfs\<close>
  (the mount point without its leading slash) in the root listing, lists
  the mounted filesystem, which is empty so the loop prints nothing, and
  runs to its end; or it does not find it and exits with code 2.  The
  theorem gives every line printed on both branches.
\<close>

theorem blank_script_output:
  assumes "implementation_name b = ''circuitpython''" and "board_mount b ''/mfs'' = Some names"
  shows "blank_script b =
    (if ''mfs'' \<in> set names
     then (Completed,
           [''Preparing the blank file system...'',
            ''Mounting the blank file system in '' @ sq ''/mfs'' @ '' ...'',
            ''Checking if we can see it in the MCU'' @ [CHR 0x27] @ ''s root folder:'',
            ''> It is present !'', ''Listing of '' @ sq ''/mfs''])
     else (Exit 2,
           [''Preparing the blank file system...'',
            ''Mounting the blank file system in '' @ sq ''/mfs'' @ '' ...'',
            ''Checking if we can see it in the MCU'' @ [CHR 0x27] @ ''s root folder:'',
            ''> It couldn'' @ [CHR 0x27] @ ''t be found, exiting !'']))"
  using assms
  by (simp add: blank_script_def check_circuitpython_def MOUNTING_POINT_blank_def blank_init_def vfs_init_def
      length_utf8_encode lstrip_slash_def blank_listing_output_def os_listdir_def blank_vfs_def
      blank_ilistdir_def script_simps Let_def)

lemma blank_script_output_witness:
  "blank_script \<lparr>implementation_name = ''circuitpython'', board_modules = [], board_secrets = [],
      wifi_connect = \<lambda>ssid pw. None,
      board_root = \<lparr>vfs_open = \<lambda>p m. Inl (OSError ''''), vfs_stat = \<lambda>p. Inl (OSError ''''),
                    vfs_ilistdir = \<lambda>p. Inr [], vfs_statvfs = []\<rparr>,
      board_mount = \<lambda>mp. Some [''lib'', ''mfs''], board_sys_path = [], dict_items = id\<rparr>
     = (Completed,
        [''Preparing the blank file system...'',
         ''Mounting the blank file system in '' @ sq ''/mfs'' @ '' ...'',
         ''Checking if we can see it in the MCU'' @ [CHR 0x27] @ ''s root folder:'',
         ''> It is present !'', ''Listing of '' @ sq ''/mfs''])"
  using blank_script_output[of "\<lparr>implementation_name = ''circuitpython'', board_modules = [], board_secrets = [],
      wifi_connect = \<lambda>ssid pw. None,
      board_root = \<lparr>vfs_open = \<lambda>p m. Inl (OSError ''''), vfs_stat = \<lambda>p. Inl (OSError ''''),
                    vfs_ilistdir = \<lambda>p. Inr [], vfs_statvfs = []\<rparr>,
      board_mount = \<lambda>mp. Some [''lib'', ''mfs''], board_sys_path = [], dict_items = id\<rparr>" "[''lib'', ''mfs'']"]
  by simp

end
