(* ===== verification/RemoteJson.thy ===== *)
theory RemoteJson
  imports BlockStore
begin

text \<open>
  The earlier server \<open>src/BLD-RemoteJson/server/main.py\<close>: the same global
  buffer loaded from \<open>./bld.bin\<close>, but no \<open>/data/\<close> route; it offers the
  control panel, an HTML hex dump of the buffer, the download and the save.
  Its state is \<open>server_state\<close> of \<open>BlockStore\<close>, its start-up is the same
  code.  The hex dump needs Python's \<open>hex\<close>, \<open>str.upper\<close> and \<open>range\<close> with a
  step, modelled here from their documentation.
\<close>

section \<open>Python helpers\<close>

definition hex_digit :: "nat \<Rightarrow> char" where
  "hex_digit d = (if d < 10 then char_of (48 + d) else char_of (87 + d))"

text \<open>The lower-case hexadecimal digits of a natural number, without padding.\<close>

fun hex_digits :: "nat \<Rightarrow> string" where
  "hex_digits n = (if n < 16 then [hex_digit n] else hex_digits (n div 16) @ [hex_digit (n mod 16)])"

text \<open>\<open>hex(n)\<close> for \<open>n \<ge> 0\<close>.\<close>

definition py_hex :: "nat \<Rightarrow> string" where
  "py_hex n = ''0x'' @ hex_digits n"

text \<open>\<open>str.upper\<close> on the characters a hexadecimal string can hold.\<close>

definition py_upper :: "string \<Rightarrow> string" where
  "py_upper s = map (\<lambda>c. let n = (of_char c :: nat) in if 97 \<le> n \<and> n \<le> 122 then char_of (n - 32) else c) s"

text \<open>
  \<open>range(a, b, k)\<close>: \<open>ValueError\<close> (\<open>None\<close>) for \<open>k = 0\<close>, otherwise the numbers
  from \<open>a\<close> below \<open>b\<close> in steps of \<open>k\<close>; \<open>range_up\<close> is the loop, which stops
  because \<open>b - a\<close> decreases.
\<close>

function range_up :: "nat \<Rightarrow> nat \<Rightarrow> nat \<Rightarrow> nat list" where
  "range_up a b k = (if a < b \<and> 0 < k then a # range_up (a + k) b k else [])"
  by pat_completeness auto
termination
  by (relation "measure (\<lambda>(a, b, k). b - a)") auto

definition py_range_step :: "nat \<Rightarrow> nat \<Rightarrow> nat \<Rightarrow> nat list option" where
  "py_range_step a b k = (if k = 0 then None else Some (range_up a b k))"

text \<open>The hexadecimal reading of an upper-case digit string, the inverse the dump's reader applies.\<close>

definition hex_char_value :: "char \<Rightarrow> nat" where
  "hex_char_value c = (let n = (of_char c :: nat) in if n < 58 then n - 48 else n - 55)"

definition hex_value :: "string \<Rightarrow> nat" where
  "hex_value s = foldl (\<lambda>acc c. 16 * acc + hex_char_value c) 0 s"

section \<open>The routes\<close>

definition rj_start :: "byte list option \<Rightarrow> server_state" where
  "rj_start file = server_start file"

definition HEX_DUMP_WIDTH :: nat where
  "HEX_DUMP_WIDTH = 32"

definition rj_control_panel_page :: string where
  "rj_control_panel_page = py_triple_quoted
     [''<!DOCTYPE html>'', ''<html lang='' @ dq ''en-US'' @ ''>'', ''<head>'',
      ''<meta charset='' @ dq ''utf-8'' @ ''>'', ''<title>BLD-RemoteJson Server Control Panel</title>'',
      ''</head>'', ''<body>'', ''<h1>BLD-RemoteJson Server Control Panel</h1>'', ''<h2>Actions</h2>'',
      ''<ul>'', ''<li><a href='' @ dq ''/save'' @ ''>Save BLD to file.</a></li>'',
      ''<li><a href='' @ dq ''/download'' @ ''>Download BLD to local machine.</a></li>'',
      ''<li><a href='' @ dq ''/hexdump'' @ ''>Show HexDump of BLD.  <b>(May crash you tab if BLD is > 512 KiB !)</b></a></li>'',
      ''</ul>'', ''</body>'', ''</html>'']"

definition rj_route_root :: "server_state \<Rightarrow> http_response \<times> server_state" where
  "rj_route_root s = (\<lparr>status = 200, body = ascii_bytes rj_control_panel_page\<rparr>, s)"

text \<open>
  One row of the dump: the offset \<open>hex(i)\<close>, one cell per byte of
  \<open>block_level_data[i:i + HEX_DUMP_WIDTH]\<close> holding \<open>hex(byte)[2:].upper()\<close>,
  and an "Ascii" cell of \<open>HEX_DUMP_WIDTH\<close> dots whatever the bytes.
\<close>

definition cell_text :: "byte \<Rightarrow> string" where
  "cell_text b = py_upper (drop 2 (py_hex (unat b)))"

definition hexdump_row :: "nat \<Rightarrow> byte list \<Rightarrow> string" where
  "hexdump_row i bytes =
     ''<tr><td>'' @ py_hex i @ ''</td>'' @ concat (map (\<lambda>byte. ''<td>'' @ cell_text byte @ ''</td>'') bytes)
     @ ''<td>'' @ replicate HEX_DUMP_WIDTH (CHR ''.'') @ ''</td></tr>''"

definition hexdump_rows :: "byte list \<Rightarrow> string list option" where
  "hexdump_rows d =
     map_option (map (\<lambda>i. hexdump_row i (py_slice d (int i) (int i + int HEX_DUMP_WIDTH))))
       (py_range_step 0 (length d) HEX_DUMP_WIDTH)"

definition hexdump_page :: "byte list \<Rightarrow> string option" where
  "hexdump_page d =
     map_option (\<lambda>rows.
       py_triple_quoted
         [''<!DOCTYPE html>'', ''<html lang='' @ dq ''en-US'' @ ''>'', ''<head>'',
          ''<meta charset='' @ dq ''utf-8'' @ ''>'', ''<title>BLD-RemoteJson Server HexDump</title>'',
          ''<style>table{font-family: '' @ dq ''Consolas'' @ '';}</style>'',
          ''</head>'', ''<body>'', ''<h1>BLD-RemoteJson Server Control Panel</h1>'', ''<h2>Hex Dump</h2>'',
          ''<ul><li><a href='' @ dq ''/'' @ ''>Return to main panel.</a></li></ul>'',
          ''<table>'', ''<thead><tr>'', ''<td>Offset</td>'']
       @ concat (map (\<lambda>i. ''<td>'' @ py_hex i @ ''</td>'') [0..<HEX_DUMP_WIDTH])
       @ py_triple_quoted [''<td>Ascii</td>'', ''</tr></thead>'', ''<tbody>'']
       @ concat rows
       @ py_triple_quoted
           [''</tbody>'', ''</table>'', ''<ul><li><a href='' @ dq ''/'' @ ''>Return to main panel.</a></li></ul>'',
            ''</body>'', ''</html>''])
     (hexdump_rows d)"

text \<open>A \<open>ValueError\<close> from \<open>range\<close> would escape the view as a 500.\<close>

definition route_hexdump :: "server_state \<Rightarrow> http_response \<times> server_state" where
  "route_hexdump s =
     (case hexdump_page (block_level_data s) of
        None \<Rightarrow> (server_error, s)
      | Some page \<Rightarrow> (\<lparr>status = 200, body = ascii_bytes page\<rparr>, s))"

definition rj_route_download :: "server_state \<Rightarrow> http_response \<times> server_state" where
  "rj_route_download s = (\<lparr>status = 200, body = block_level_data s\<rparr>, s)"

definition rj_route_save :: "server_state \<Rightarrow> http_response \<times> server_state" where
  "rj_route_save s =
     (\<lparr>status = 200, body = ascii_bytes save_report_page\<rparr>, s\<lparr>bld_file := Some (block_level_data s)\<rparr>)"

datatype rj_request = RjRoot | RjHexDump | RjDownload | RjSave

fun rj_handle :: "rj_request \<Rightarrow> server_state \<Rightarrow> http_response \<times> server_state" where
  "rj_handle RjRoot s = rj_route_root s"
| "rj_handle RjHexDump s = route_hexdump s"
| "rj_handle RjDownload s = rj_route_download s"
| "rj_handle RjSave s = rj_route_save s"

section \<open>Lemmas\<close>

declare range_up.simps [simp del] hex_digits.simps [simp del]

lemma steps_Suc:
  assumes "a < b" "0 < k"
  shows "(b - a + k - 1) div k = Suc ((b - (a + k) + k - 1) div k)"
proof (cases "b - a \<le> k")
  case True
  then have "b - (a + k) = 0" by simp
  moreover have "(b - a + k - 1) div k = 1"
    using True assms by (intro div_nat_eqI) simp_all
  ultimately show ?thesis using assms by simp
next
  case False
  then have "b - a + k - 1 = (b - (a + k) + k - 1) + k" by linarith
  then show ?thesis using assms by (simp only: div_add_self2)
qed

lemma range_up_closed:
  "0 < k \<Longrightarrow> range_up a b k = map (\<lambda>j. a + k * j) [0..<(b - a + k - 1) div k]"
proof (induction a b k rule: range_up.induct)
  case (1 a b k)
  show ?case
  proof (cases "a < b")
    case True
    have ih: "range_up (a + k) b k = map (\<lambda>j. a + k + k * j) [0..<(b - (a + k) + k - 1) div k]"
      using 1 True by simp
    have "range_up a b k = a # range_up (a + k) b k"
      using True 1(2) by (simp add: range_up.simps)
    also have "\<dots> = map (\<lambda>j. a + k * j) [0..<Suc ((b - (a + k) + k - 1) div k)]"
      by (simp only: ih map_upt_Suc) (simp add: algebra_simps)
    finally show ?thesis
      using steps_Suc[OF True 1(2)] by simp
  next
    case False
    then have "(b - a + k - 1) div k = 0" using 1(2) by simp
    with False show ?thesis by (simp add: range_up.simps)
  qed
qed
lemma py_slice_window: "py_slice d (int i) (int i + int w) = take w (drop i d)"
  by (simp add: py_slice_def py_bound_def min_def nat_add_distrib)

lemma hex_digit_upper_value: "d < 16 \<Longrightarrow> hex_char_value (hd (py_upper [hex_digit d])) = d"
  by (auto simp: hex_digit_def py_upper_def hex_char_value_def Let_def)

lemma cell_text_small: "n < 16 \<Longrightarrow> py_upper (drop 2 (py_hex n)) = py_upper [hex_digit n]"
  by (simp add: py_hex_def hex_digits.simps)

lemma cell_text_big:
  assumes "16 \<le> n" "n < 256"
  shows "py_upper (drop 2 (py_hex n)) = py_upper [hex_digit (n div 16)] @ py_upper [hex_digit (n mod 16)]"
proof -
  have "n div 16 < 16" using assms(2) by simp
  then have hi: "hex_digits (n div 16) = [hex_digit (n div 16)]" by (subst hex_digits.simps) simp
  have "hex_digits n = hex_digits (n div 16) @ [hex_digit (n mod 16)]"
    using assms(1) by (subst hex_digits.simps) simp
  then show ?thesis by (simp add: py_hex_def hi py_upper_def)
qed

lemma length_py_upper_digit [simp]: "length (py_upper [c]) = 1"
  by (simp add: py_upper_def)

lemma py_upper_single: "py_upper [c] = [hd (py_upper [c])]"
  by (simp add: py_upper_def)

section \<open>Properties of the RemoteJson server\<close>

text \<open>
  C25. The row loop is the closed form a reader of the dump expects: row
  \<open>j\<close> is the row at offset \<open>32 * j\<close> of the bytes \<open>32 * j\<close> to
  \<open>32 * j + 31\<close> (fewer in the last row).
\<close>

theorem hexdump_rows_closed:
  "hexdump_rows d = Some (map (\<lambda>j. hexdump_row (32 * j) (take 32 (drop (32 * j) d)))
                             [0..<(length d + 31) div 32])"
  by (simp add: hexdump_rows_def py_range_step_def range_up_closed HEX_DUMP_WIDTH_def
      py_slice_window[of _ _ 32, simplified] o_def add.commute)

text \<open>
  C26. A cell of the dump, \<open>hex(byte)[2:].upper()\<close>, reads back as the byte:
  one upper-case digit for a byte below 16 (no zero padding), two digits
  otherwise.
\<close>

theorem cell_text_roundtrip:
  "hex_value (cell_text b) = unat b \<and> length (cell_text b) = (if unat b < 16 then 1 else 2)"
proof -
  let ?n = "unat b"
  have lt: "?n < 256" using unsigned_less[of b] by simp
  show ?thesis
  proof (cases "?n < 16")
    case True
    then show ?thesis
      by (simp add: cell_text_def cell_text_small hex_value_def,
          subst py_upper_single, simp add: hex_digit_upper_value)
  next
    case False
    have "?n div 16 < 16" "?n mod 16 < 16" using lt by simp_all
    then have "hex_value (cell_text b) = 16 * (?n div 16) + ?n mod 16"
      using False lt
      by (simp add: cell_text_def cell_text_big hex_value_def,
          subst (1 2) py_upper_single, simp add: hex_digit_upper_value)
    then show ?thesis
      using False lt by (simp add: cell_text_def cell_text_big)
  qed
qed

text \<open>
  C27. The RemoteJson server has no route that writes the device: every
  request leaves the buffer as it was (\<open>/save/\<close> changes only the file).
\<close>

theorem rj_handle_preserves_buffer: "block_level_data (snd (rj_handle r s)) = block_level_data s"
  by (cases r) (simp_all add: rj_route_root_def route_hexdump_def rj_route_download_def rj_route_save_def
      split: option.splits)

end
