(* ===== verification/ServerMain.thy ===== *)
theory ServerMain
  imports Board Http RemoteJson
begin

text \<open>
  The top level of the two Flask servers, \<open>src/BLD-Remote/server/main.py\<close>
  and \<open>src/BLD-RemoteJson/server/main.py\<close>: the start-up that checks for
  \<open>./bld.bin\<close>, creates it zero-filled when it is missing and loads it,
  with the lines it prints (a script of \<open>Board\<close> whose value is the loaded
  state), and \<open>app.run(HOST, PORT)\<close>, which serves requests one after the
  other, each with the clock at its arrival.  A run is observed after a
  finite sequence of requests; a request whose URL the client library
  refuses never reaches the server.  Errors of the file operations at
  start-up (an unreadable or unwritable \<open>./bld.bin\<close>) are not modelled, so
  the start-up always reaches \<open>app.run\<close>.
\<close>

section \<open>BLD-Remote\<close>

definition HOST :: string where
  "HOST = ''0.0.0.0''"

definition PORT :: nat where
  "PORT = 8080"

definition BLD_FILE :: string where
  "BLD_FILE = ''./bld.bin''"

text \<open>
  The module's start-up: \<open>os.path.exists(BLD_FILE)\<close> is whether \<open>file\<close> is
  given; a missing file is written with zeros, and the buffer is what the
  file then holds (\<open>server_start\<close>).
\<close>

definition server_boot :: "byte list option \<Rightarrow> server_state script" where
  "server_boot file =
     seq (emit [''Checking if '' @ sq BLD_FILE @ '' exists...'']) (\<lambda>_.
     seq (case file of
            None \<Rightarrow>
              emit [''> Couldn'' @ [CHR 0x27] @ ''t find it, creating a new one...'',
                    ''> Created a new file with '' @ py_str_nat BLD_SECTOR_COUNT @ '' sectors of ''
                      @ py_str_nat BLD_MIN_SECTOR_SIZE @ '' bytes amounting to ''
                      @ py_str_nat (BLD_SECTOR_COUNT * BLD_MIN_SECTOR_SIZE) @ '' bytes.'']
          | Some _ \<Rightarrow> emit []) (\<lambda>_.
     seq (emit [''Loading the BLD file into memory...'', ''Preparing the Flask app...'']) (\<lambda>_.
     (Inr (server_start file), []))))"

text \<open>\<open>app.run\<close>: Werkzeug's loop, one request at a time through \<open>http_handle\<close>.\<close>

fun serve :: "(int \<times> http_request) list \<Rightarrow> server_state \<Rightarrow> http_response list \<times> server_state" where
  "serve [] s = ([], s)"
| "serve ((now, r) # rs) s =
     (case http_handle now r s of
        None \<Rightarrow> serve rs s
      | Some (resp, s') \<Rightarrow> (let (resps, s'') = serve rs s' in (resp # resps, s'')))"

definition server_main ::
  "byte list option \<Rightarrow> (int \<times> http_request) list \<Rightarrow> (http_response list \<times> server_state) script" where
  "server_main file reqs =
     seq (server_boot file) (\<lambda>s.
     seq (emit [''Running server and its control panel on http://'' @ HOST @ '':'' @ py_str_nat PORT]) (\<lambda>_.
     (Inr (serve reqs s), [])))"

section \<open>BLD-RemoteJson\<close>

definition HOST_rj :: string where
  "HOST_rj = ''0.0.0.0''"

definition PORT_rj :: nat where
  "PORT_rj = 8080"

definition BLD_FILE_rj :: string where
  "BLD_FILE_rj = ''./bld.bin''"

definition rj_boot :: "byte list option \<Rightarrow> server_state script" where
  "rj_boot file =
     seq (emit [''Checking if '' @ sq BLD_FILE_rj @ '' exists...'']) (\<lambda>_.
     seq (case file of
            None \<Rightarrow>
              emit [''> Couldn'' @ [CHR 0x27] @ ''t find it, creating a new one...'',
                    ''> Created a new file with '' @ py_str_nat BLD_SECTOR_COUNT @ '' sectors of ''
                      @ py_str_nat BLD_MIN_SECTOR_SIZE @ '' bytes amounting to ''
                      @ py_str_nat (BLD_SECTOR_COUNT * BLD_MIN_SECTOR_SIZE) @ '' bytes.'']
          | Some _ \<Rightarrow> emit []) (\<lambda>_.
     seq (emit [''Loading the BLD file into memory...'', ''Preparing the Flask app...'']) (\<lambda>_.
     (Inr (rj_start file), []))))"

text \<open>
  Werkzeug's routing for the four rules of this server, all registered for
  \<open>GET\<close> only; the query string is not read by any view.
\<close>

definition RJ_ROUTES :: "string list" where
  "RJ_ROUTES = [''/'', ''/hexdump/'', ''/download/'', ''/save/'']"

definition rj_flask_route :: "http_method \<Rightarrow> string \<Rightarrow> rj_request + http_response" where
  "rj_flask_route m target =
     (let (path, q) = split_target target
      in if path \<in> set RJ_ROUTES then
           (if m = POST then Inr (text_response 405 ''Method Not Allowed'')
            else if path = ''/'' then Inl RjRoot
            else if path = ''/hexdump/'' then Inl RjHexDump
            else if path = ''/download/'' then Inl RjDownload
            else Inl RjSave)
         else if path @ ''/'' \<in> set RJ_ROUTES then Inr (text_response 308 ''Permanent Redirect'')
         else Inr (text_response 404 ''Not Found''))"

definition rj_http_handle :: "http_request \<Rightarrow> server_state \<Rightarrow> (http_response \<times> server_state) option" where
  "rj_http_handle r s =
     (case request_path (req_url r) of
        None \<Rightarrow> None
      | Some t \<Rightarrow>
          (case rj_flask_route (req_method r) t of
             Inl q \<Rightarrow> Some (rj_handle q s)
           | Inr resp \<Rightarrow> Some (resp, s)))"

fun rj_serve :: "http_request list \<Rightarrow> server_state \<Rightarrow> http_response list \<times> server_state" where
  "rj_serve [] s = ([], s)"
| "rj_serve (r # rs) s =
     (case rj_http_handle r s of
        None \<Rightarrow> rj_serve rs s
      | Some (resp, s') \<Rightarrow> (let (resps, s'') = rj_serve rs s' in (resp # resps, s'')))"

definition rj_main :: "byte list option \<Rightarrow> http_request list \<Rightarrow> (http_response list \<times> server_state) script" where
  "rj_main file reqs =
     seq (rj_boot file) (\<lambda>s.
     seq (emit [''Running server and its control panel on http://'' @ HOST_rj @ '':'' @ py_str_nat PORT_rj]) (\<lambda>_.
     (Inr (rj_serve reqs s), [])))"

section \<open>Lemmas\<close>

lemma server_boot_output:
  "snd (server_boot None) =
     [''Checking if '' @ sq ''./bld.bin'' @ '' exists...'',
      ''> Couldn'' @ [CHR 0x27] @ ''t find it, creating a new one...'',
      ''> Created a new file with 512 sectors of 512 bytes amounting to 262144 bytes.'',
      ''Loading the BLD file into memory...'', ''Preparing the Flask app...'']"
  by (simp add: server_boot_def seq_def emit_def BLD_FILE_def BLD_SECTOR_COUNT_def BLD_MIN_SECTOR_SIZE_def
      py_str_nat.simps)

end
