(* ===== verification/Stub.thy ===== *)
theory Stub
  imports Prelude
begin

text \<open>
  The stub block device \<open>src/BLD-Stub/bld_stub.py\<close> (class
  \<open>StubBlockDevice\<close>), the template the remote adapter was written from.  It
  has no state; every method is \<open>pass\<close> except \<open>count\<close>, which returns
  \<open>MIN_SECTOR_SIZE\<close>.  \<open>readblocks\<close> leaves the caller's buffer as it was, so
  its model returns the buffer unchanged.
\<close>

definition MIN_SECTOR_SIZE :: nat where
  "MIN_SECTOR_SIZE = 512"

definition stub_init :: unit where
  "stub_init = ()"

definition stub_count :: "unit \<Rightarrow> int" where
  "stub_count self = int MIN_SECTOR_SIZE"

definition stub_deinit :: "unit \<Rightarrow> unit" where
  "stub_deinit self = ()"

definition stub_readblocks :: "unit \<Rightarrow> int \<Rightarrow> byte list \<Rightarrow> byte list" where
  "stub_readblocks self start_block buf = buf"

definition stub_writeblocks :: "unit \<Rightarrow> int \<Rightarrow> byte list \<Rightarrow> unit" where
  "stub_writeblocks self start_block buf = ()"

definition stub_sync :: "unit \<Rightarrow> unit" where
  "stub_sync self = ()"

end
