(* ===== verification/Spec2Isabelle.thy ===== *)
theory Spec2Isabelle
  imports Prelude Base64 Wire Json BlockStore Http RemoteAdapter Board ClientBoot Concurrency VirtualFS FsRom FsBlank ServerMain
    RemoteJson Stub
begin

text \<open>
  A verification development for CircuitPython-CustomFileSystems.  Its core
  is a remote block device: a CircuitPython client mounts a FAT filesystem on
  a block device whose sectors live in the memory of an HTTP server.  Beside
  it the repository holds an earlier server with a hex dump, a stub block
  device, and two filesystems implemented in Python.

  \<^bold>\<open>The parts and how they interact.\<close>
  The filesystem driver (\<open>VfsFat\<close>, external) calls the operations of
  \<open>RemoteBlockDevice\<close> in \<open>src/BLD-Remote/client/bld_remote.py\<close>; each
  \<open>readblocks\<close>/\<open>writeblocks\<close> is one HTTP round trip to the Flask application
  \<open>src/BLD-Remote/server/main.py\<close>, whose view \<open>search\<close> reads or writes a
  range of sectors of one global \<open>bytearray\<close>.  The client's script
  \<open>src/BLD-Remote/client/code.py\<close> connects, asks \<open>/info/\<close> for the
  geometry, builds the device, formats and mounts the filesystem on it and
  tests it with a file and an import.
  Sector data crosses the wire as Base64: the client uses MicroPython's
  \<open>binascii.b2a_base64\<close>/\<open>a2b_base64\<close>, the server CPython's
  \<open>base64.b64decode\<close>/\<open>b64encode\<close>.

  \<^bold>\<open>Theories.\<close>
  \<^item> \<open>Prelude\<close>: bytes as \<open>8 word\<close>, Python slicing (\<open>py_slice\<close>, with
    CPython's bound normalisation) and item assignment (\<open>py_setitem\<close>,
    negative indices, \<open>IndexError\<close> as \<open>None\<close>), \<open>overwrite\<close>, text as bytes.
  \<^item> \<open>Base64\<close>: the library codecs, modelled from CPython's and MicroPython's
    C sources since they are not in the repository: \<open>b64encode\<close>,
    \<open>b2a_base64\<close>, CPython's non-strict decoder as the state machine
    \<open>cpy_a2b_loop\<close>, MicroPython's decoder \<open>mp_a2b_loop\<close> with its 32-bit
    accumulator (a \<open>32 word\<close>).  Both decoders invert the encoder.
  \<^item> \<open>Wire\<close> and \<open>Json\<close>: \<open>str(int)\<close>, \<open>json.dumps\<close> of the \<open>/info/\<close>
    dictionary, \<open>json.loads\<close> on flat objects of integers (member loop with
    fuel, the text's length, which is enough) and the round trip between them;
    the triple-quoted HTML literals of the servers.
  \<^item> \<open>BlockStore\<close>: \<open>server/main.py\<close>.  State \<open>server_state\<close> (the buffer and
    the contents of \<open>./bld.bin\<close>); \<open>server_start\<close>; \<open>search\<close> with both bounds
    checks, the POST copy loop \<open>write_bytes\<close> and the GET slice;
    \<open>route_root\<close>, \<open>route_info\<close>, \<open>route_download\<close>, \<open>route_save\<close>; \<open>handle\<close>
    is the routing table.  The invariant \<open>wf_server\<close> holds in every state of
    the inductive \<open>server_reachable\<close>; lemmas give \<open>search\<close> on every branch.
  \<^item> \<open>Http\<close>: the HTTP layer between them.  A request is method, URL
    and body (\<open>http_request\<close>); the client formats the URLs (\<open>data_url\<close>,
    \<open>info_url\<close>); \<open>adafruit_requests\<close> splits the URL (\<open>request_path\<close>);
    Werkzeug splits the target, percent-decodes the query
    (\<open>parse_qsl\<close>) and routes it (\<open>flask_route\<close>: 308, 404, 405); the
    view's \<open>int(request.args.get(..))\<close> is \<open>arg_int\<close>, a failure of which is
    Flask's 500.  \<open>http_handle\<close> puts it in front of \<open>handle\<close>.  These
    library parts are modelled from the libraries' sources.
  \<^item> \<open>RemoteAdapter\<close>: \<open>bld_remote.py\<close> over the interface \<open>'st transport\<close>
    (timeout, HTTP request, state of the other side to response or
    transport failure); proved for every transport.
  \<^item> \<open>Board\<close>: what the three \<open>code.py\<close> scripts run on: the board
    (\<open>board\<close>, the firmware's decisions as fields), a script as lines
    printed plus how it ends (\<open>'a script\<close>, the error monad paired with the
    output, bind \<open>seq\<close>; \<open>sys.exit\<close>, an uncaught exception, completion),
    MicroPython's \<open>repr\<close>, paths through the mount table, \<open>import\<close> through
    \<open>sys.path\<close> of modules whose source is one \<open>print\<close> call.
  \<^item> \<open>ClientBoot\<close>: \<open>client/code.py\<close>, every line: the module checks
    (exits 1 to 5), \<open>secrets\<close>, Wi-Fi (exit 6), \<open>bootstrap\<close> (exits 7, 8,
    generic in the transport), and \<open>file_test\<close> (exit 9, \<open>test.txt\<close>,
    \<open>test.py\<close>, \<open>import test\<close>) over the FAT filesystem's contract
    \<open>fat_files\<close>.
  \<^item> \<open>ServerMain\<close>: the top level of both servers' \<open>main.py\<close>: the
    start-up that creates or loads \<open>./bld.bin\<close> and prints its progress
    (\<open>server_boot\<close>, \<open>rj_boot\<close>), and \<open>app.run(HOST, PORT)\<close> as a loop
    serving a sequence of HTTP requests (\<open>serve\<close>, \<open>rj_serve\<close>, the latter
    with Werkzeug's routing of the four GET rules of BLD-RemoteJson).
  \<^item> \<open>Concurrency\<close>: the server's requests interleaved: each POST copy-loop
    iteration is a step (\<open>post_step\<close>), a GET slice is atomic; runs are
    explicit event lists (\<open>conc_run\<close>), reachability is inductive.
  \<^item> \<open>RemoteJson\<close>: \<open>src/BLD-RemoteJson/server/main.py\<close>: the hex dump
    (\<open>range\<close> with a step as \<open>range_up\<close>, a \<open>function\<close> with a termination
    proof), download and save.
  \<^item> \<open>VirtualFS\<close>, \<open>FsRom\<close>, \<open>FsBlank\<close>: the Python filesystem protocol as the
    record \<open>vfs\<close> with a consistency predicate, and its two implementations
    \<open>src/FS-ReadOnlyMemory/fs_rom.py\<close> and \<open>src/FS-Blank/fs_blank.py\<close> with
    their \<open>code.py\<close> scripts, every line (\<open>rom_script\<close>, \<open>blank_script\<close>).
  \<^item> \<open>Stub\<close>: \<open>src/BLD-Stub/bld_stub.py\<close>.
  \<^item> This theory: the system.  \<open>server_transport\<close> plugs the block store in
    behind \<open>http_handle\<close> as the transport (the base address must be
    \<open>http://host\<close> with no slash in the host, \<open>http_base\<close>);
    \<open>block_device\<close> is the driver's contract, implemented
    by \<open>remote_device\<close> and \<open>stub_device\<close>; \<open>spec_read\<close>/\<open>spec_write\<close> over a
    \<open>geometry\<close> is the spec's contract, which the adapter over the server
    refines for single operations and, by induction over the list, for every
    sequence (\<open>client_run\<close> against \<open>spec_run\<close>).  The client's script
    runs here against the block store (\<open>client_script_completes\<close>).

  \<^bold>\<open>What the lemmas show.\<close>  Refinement of the spec's contract by the
  adapter over the server (single operations and every sequence), through
  the URLs the adapter formats, which the server parses back to the same
  integers, and the 500 a malformed query gets; the server's invariant over
  all reachable states, also under every interleaving of requests; the
  behaviour of \<open>/data/\<close> on every branch, including the ones the spec forbids
  (partial writes, negative indices, no payload length check, torn reads,
  interleaved writers); that a POST's copy loop ends after exactly one step
  per byte, with the payload in place; the Base64, JSON and hex round trips;
  the hex dump's row loop against its closed form; that the fuel of the JSON
  member loop is always enough; the filesystems' error behaviour; the exit
  codes and lines of the client's bootstrap when \<open>/info/\<close> fails; and the
  complete output of the three scripts.

  \<^bold>\<open>Bounds and fuel.\<close>  The server's geometry is fixed by the source at
  512 sectors of 512 bytes.  Every loop of the code runs over a finite list
  and is structural recursion, except \<open>range_up\<close> (terminating by the measure
  \<open>b - a\<close>) and the JSON member loop, whose fuel is the length of the text,
  one unit per member at least.  Request parameters are unbounded \<open>int\<close>, as
  in Python; \<open>len(buf) / 512\<close> truncated is \<open>div\<close>.  Strings are \<open>char\<close>
  lists of code points below 256.

  \<^bold>\<open>Not modelled.\<close>  What the firmware does is an input, not a model:
  the Wi-Fi radio (the address it reports, or failure), sockets, whether
  \<open>storage.mount\<close> succeeds and what \<open>os.listdir("/")\<close> then shows, the
  initial \<open>sys.path\<close>, and the order of a printed dict.  The \<open>VfsFat\<close>
  driver is modelled by two contracts: as the issuer of block operations
  (\<open>client_run\<close>) and as a store of named files (\<open>fat_files\<close>); the block
  traffic of \<open>mkfs\<close> and of the script's file writes is not modelled, so
  the client script's model returns no server state.  \<open>import\<close> runs only
  sources that are one \<open>print\<close> of a plain literal (the sources the
  repository imports); any other source is \<open>Unmodelled\<close>.  HTTP headers,
  redirects (a 308 is returned to the client as a status), garbage
  collection and response closing are not modelled; \<open>random.random()\<close> is
  a real parameter, without the float's rounding.  CPython's name mangling
  of \<open>__FILE_SYSTEM_CONTENT\<close> and its evaluation of the annotations naming
  the unimported \<open>Union\<close> are not modelled: the repository targets
  CircuitPython, which does neither.  The \<open>VfsFat\<close> driver itself and the
  MicroPython runtime are not code of this repository: they are modelled
  only as far as the scripts observe them.  A server is observed after a
  finite sequence of requests; \<open>app.run\<close> never returns, and the bound
  is the observer's.  What is left of the sources is imports, class
  attribute annotations and comments.
\<close>

section \<open>The system: adapter, wire and block store\<close>

text \<open>
  The block store behind its HTTP layer as the adapter's transport: a
  request whose URL \<open>adafruit_requests\<close> refuses raises in the session
  (\<open>InvalidUrl\<close>); every other request is routed by Flask and its response
  comes back; \<open>now\<close> is the server's clock.
\<close>

definition server_transport :: "int \<Rightarrow> server_state transport" where
  "server_transport now timeout r s =
     (case http_handle now r s of
        None \<Rightarrow> (Inl InvalidUrl, s)
      | Some (resp, s') \<Rightarrow> (Inr resp, s'))"

section \<open>The block-device contract\<close>

text \<open>
  What a filesystem driver may expect of a block device of a given geometry
  (spec sections 3 and 4.2): a read of whole sectors inside the device returns
  their bytes, a write of whole sectors replaces them; anything else is not a
  valid request (\<open>None\<close>).
\<close>

record geometry =
  geo_sector_size :: nat
  geo_sector_count :: nat

definition server_geometry :: geometry where
  "server_geometry = \<lparr>geo_sector_size = BLD_MIN_SECTOR_SIZE, geo_sector_count = BLD_SECTOR_COUNT\<rparr>"

definition valid_range :: "geometry \<Rightarrow> nat \<Rightarrow> nat \<Rightarrow> bool" where
  "valid_range g start len \<longleftrightarrow>
     0 < geo_sector_size g \<and> len mod geo_sector_size g = 0 \<and> start < geo_sector_count g \<and>
     start * geo_sector_size g + len \<le> geo_sector_count g * geo_sector_size g"

definition spec_read :: "geometry \<Rightarrow> byte list \<Rightarrow> nat \<Rightarrow> nat \<Rightarrow> byte list option" where
  "spec_read g disk start len =
     (if valid_range g start len then Some (take len (drop (start * geo_sector_size g) disk)) else None)"

definition spec_write :: "geometry \<Rightarrow> byte list \<Rightarrow> nat \<Rightarrow> byte list \<Rightarrow> byte list option" where
  "spec_write g disk start data =
     (if valid_range g start (length data)
      then Some (overwrite disk (start * geo_sector_size g) data) else None)"

section \<open>Sequences of block operations\<close>

text \<open>
  The filesystem driver (\<open>VfsFat\<close>) issues block operations one after the
  other, each a blocking round trip.  A run is a list of operations: the
  client side threads the server state through \<open>readblocks\<close> (into a fresh
  buffer of the given length) and \<open>writeblocks\<close>; the specification side
  threads the disk contents through \<open>spec_read\<close> and \<open>spec_write\<close>.
\<close>

datatype block_op = ReadBlocks nat nat | WriteBlocks nat "byte list"

datatype op_result = ReadData "byte list" | Written

text \<open>
  The capability contract of a block device as the driver uses it, over the
  state of whatever holds the data: \<open>count\<close>, \<open>readblocks\<close> (which returns
  the new contents of the buffer) and \<open>writeblocks\<close>.  The remote adapter over
  the block store and the stub device are its two implementations.
\<close>

record 'st block_device =
  dev_count :: "'st \<Rightarrow> int"
  dev_read :: "int \<Rightarrow> byte list \<Rightarrow> 'st \<Rightarrow> (device_error + byte list) \<times> 'st"
  dev_write :: "int \<Rightarrow> byte list \<Rightarrow> 'st \<Rightarrow> (device_error + unit) \<times> 'st"

definition remote_device :: "int \<Rightarrow> remote_block_device \<Rightarrow> server_state block_device" where
  "remote_device now bd =
     \<lparr>dev_count = \<lambda>s. count bd, dev_read = readblocks (server_transport now) bd,
      dev_write = writeblocks (server_transport now) bd\<rparr>"

definition stub_device :: "unit block_device" where
  "stub_device =
     \<lparr>dev_count = stub_count,
      dev_read = \<lambda>start buf self. (Inr (stub_readblocks self start buf), self),
      dev_write = \<lambda>start buf self. (Inr (stub_writeblocks self start buf), self)\<rparr>"

fun client_run ::
  "'st block_device \<Rightarrow> block_op list \<Rightarrow> 'st \<Rightarrow> (device_error + op_result) list \<times> 'st" where
  "client_run dev [] s = ([], s)"
| "client_run dev (ReadBlocks start n # ops) s =
     (let (r, s') = dev_read dev (int start) (replicate n 0) s;
          (rs, s'') = client_run dev ops s'
      in (map_sum id ReadData r # rs, s''))"
| "client_run dev (WriteBlocks start buf # ops) s =
     (let (r, s') = dev_write dev (int start) buf s;
          (rs, s'') = client_run dev ops s'
      in (map_sum id (\<lambda>_. Written) r # rs, s''))"

fun spec_run :: "geometry \<Rightarrow> block_op list \<Rightarrow> byte list \<Rightarrow> op_result option list \<times> byte list" where
  "spec_run g [] disk = ([], disk)"
| "spec_run g (ReadBlocks start n # ops) disk =
     (let (rs, disk') = spec_run g ops disk
      in (map_option ReadData (spec_read g disk start n) # rs, disk'))"
| "spec_run g (WriteBlocks start buf # ops) disk =
     (case spec_write g disk start buf of
        None \<Rightarrow> (let (rs, disk') = spec_run g ops disk in (None # rs, disk'))
      | Some d \<Rightarrow> (let (rs, disk') = spec_run g ops d in (Some Written # rs, disk')))"

text \<open>
  The device \<open>src/BLD-Remote/client/code.py\<close> builds once \<open>/info/\<close> has answered:
  the server's address, \<open>SERVER_TIMEOUT = 10\<close> and the server's geometry.
\<close>

definition demo_device :: remote_block_device where
  "demo_device = \<lparr>server_base_address = ''http://192.168.1.10:8080'', server_timeout = 10,
                   sector_count = 512, sector_size = 512\<rparr>"

text \<open>
  A board that runs \<open>src/BLD-Remote/client/code.py\<close>: CircuitPython with the
  modules the script needs, the \<open>secrets\<close> of a server at
  \<open>192.168.1.10:8080\<close>, a Wi-Fi network that answers, and a root that lists
  the mount point once it is mounted.
\<close>

definition demo_board :: board where
  "demo_board =
     \<lparr>implementation_name = ''circuitpython'',
      board_modules = [''wifi'', ''binascii'', ''adafruit_requests'', ''secrets''],
      board_secrets = [(''ssid'', ''home''), (''password'', ''hunter22''),
                       (''server_host'', ''192.168.1.10''), (''server_port'', ''8080'')],
      wifi_connect = \<lambda>ssid pw. Some ''192.168.1.42'',
      board_root = \<lparr>vfs_open = \<lambda>p m. Inl (OSError ''''), vfs_stat = \<lambda>p. Inl (OSError ''''),
                    vfs_ilistdir = \<lambda>p. Inr [], vfs_statvfs = []\<rparr>,
      board_mount = \<lambda>mp. Some [''lib'', ''remote_bld''],
      board_sys_path = ['''', ''/'', ''.frozen'', ''/lib''], dict_items = id\<rparr>"

section \<open>The adapter over the block store\<close>

lemma demo_device_http_base: "http_base (server_base_address demo_device)"
  by (simp add: http_base_def demo_device_def)

lemma valid_range_server:
  "valid_range server_geometry start len \<longleftrightarrow>
     len mod BLD_MIN_SECTOR_SIZE = 0 \<and> start < BLD_SECTOR_COUNT \<and> start * BLD_MIN_SECTOR_SIZE + len \<le> bld_size"
  by (simp add: valid_range_def server_geometry_def BLD_MIN_SECTOR_SIZE_def)

text \<open>
  A range that starts inside the device and whose bytes fit in it passes
  the server's bounds checks, whether or not its length is a whole number of
  sectors: the adapter sends \<open>sc = len(buf) // 512\<close>.
\<close>

lemma whole_sectors_le: "n div BLD_MIN_SECTOR_SIZE * BLD_MIN_SECTOR_SIZE \<le> n"
  using div_mult_mod_eq[of n BLD_MIN_SECTOR_SIZE] by linarith

lemma fits_sectors:
  assumes "start < BLD_SECTOR_COUNT" "start * BLD_MIN_SECTOR_SIZE + len \<le> bld_size"
  shows "int start < int BLD_SECTOR_COUNT"
    "int start + int (len div BLD_MIN_SECTOR_SIZE) \<le> int BLD_SECTOR_COUNT"
proof -
  show "int start < int BLD_SECTOR_COUNT" using assms(1) by simp
  have "start * BLD_MIN_SECTOR_SIZE + len div BLD_MIN_SECTOR_SIZE * BLD_MIN_SECTOR_SIZE \<le> bld_size"
    using whole_sectors_le[of len] assms(2) by linarith
  then have "(start + len div BLD_MIN_SECTOR_SIZE) * BLD_MIN_SECTOR_SIZE \<le> BLD_SECTOR_COUNT * BLD_MIN_SECTOR_SIZE"
    by (simp add: add_mult_distrib)
  then show "int start + int (len div BLD_MIN_SECTOR_SIZE) \<le> int BLD_SECTOR_COUNT"
    by (simp add: BLD_MIN_SECTOR_SIZE_def)
qed

lemma server_transport_data:
  "http_base b \<Longrightarrow>
   server_transport now t \<lparr>req_method = m, req_url = data_url b ssi sc, req_body = d\<rparr> s
     = (Inr (fst (handle now (DataRequest m ssi sc d) s)), snd (handle now (DataRequest m ssi sc d) s))"
  by (simp add: server_transport_def http_handle_data case_prod_unfold)

lemma server_transport_info:
  "http_base b \<Longrightarrow>
   server_transport now t \<lparr>req_method = GET, req_url = info_url b, req_body = []\<rparr> s = (Inr (fst (route_info now s)), s)"
  by (simp add: server_transport_def http_handle_info route_info_def)

lemma transport_get:
  assumes "wf_server s" "start < BLD_SECTOR_COUNT" "start * BLD_MIN_SECTOR_SIZE + len \<le> bld_size"
    and hb: "http_base b"
  shows "server_transport now t
      \<lparr>req_method = GET, req_url = data_url b (int start) (int (len div BLD_MIN_SECTOR_SIZE_client)), req_body = []\<rparr> s
      = (Inr \<lparr>status = 200, body = b64encode (take (len div BLD_MIN_SECTOR_SIZE * BLD_MIN_SECTOR_SIZE)
           (drop (start * BLD_MIN_SECTOR_SIZE) (block_level_data s)))\<rparr>, s)"
  using search_get[OF assms(1), of "int start" "int (len div BLD_MIN_SECTOR_SIZE)"] fits_sectors[OF assms(2,3)]
  by (simp add: server_transport_data[OF hb] BLD_MIN_SECTOR_SIZE_client_def BLD_MIN_SECTOR_SIZE_def)

lemma transport_post:
  assumes "wf_server s" "start < BLD_SECTOR_COUNT" "start * BLD_MIN_SECTOR_SIZE + length buf \<le> bld_size"
    and hb: "http_base b"
  shows "server_transport now t
      \<lparr>req_method = POST, req_url = data_url b (int start) (int (length buf div BLD_MIN_SECTOR_SIZE_client)),
       req_body = b2a_base64 buf\<rparr> s
      = (Inr \<lparr>status = 200, body = []\<rparr>,
         s\<lparr>block_level_data := overwrite (block_level_data s) (start * BLD_MIN_SECTOR_SIZE) buf\<rparr>)"
  using search_post[OF assms(1), of "int start" "int (length buf div BLD_MIN_SECTOR_SIZE)" "b2a_base64 buf" buf]
    fits_sectors[OF assms(2,3)] assms(3)
  by (simp add: server_transport_data[OF hb] b64decode_b2a_base64 BLD_MIN_SECTOR_SIZE_client_def BLD_MIN_SECTOR_SIZE_def)

lemma take_sectors_length:
  assumes "wf_server s" "start * BLD_MIN_SECTOR_SIZE + len \<le> bld_size"
  shows "length (take (len div BLD_MIN_SECTOR_SIZE * BLD_MIN_SECTOR_SIZE)
           (drop (start * BLD_MIN_SECTOR_SIZE) (block_level_data s)))
         = len div BLD_MIN_SECTOR_SIZE * BLD_MIN_SECTOR_SIZE"
proof -
  have "len div BLD_MIN_SECTOR_SIZE * BLD_MIN_SECTOR_SIZE
      \<le> length (block_level_data s) - start * BLD_MIN_SECTOR_SIZE"
    using assms whole_sectors_le[of len] unfolding wf_server_def by linarith
  then show ?thesis by simp
qed

lemma readblocks_server:
  assumes "wf_server s" "valid_range server_geometry start (length buf)"
    and hb: "http_base (server_base_address bd)"
  shows "readblocks (server_transport now) bd (int start) buf s
     = (Inr (take (length buf) (drop (start * BLD_MIN_SECTOR_SIZE) (block_level_data s))), s)"
proof -
  have v: "length buf mod BLD_MIN_SECTOR_SIZE = 0" "start < BLD_SECTOR_COUNT"
      "start * BLD_MIN_SECTOR_SIZE + length buf \<le> bld_size"
    using assms(2) by (simp_all add: valid_range_server)
  have len: "length buf div BLD_MIN_SECTOR_SIZE * BLD_MIN_SECTOR_SIZE = length buf"
    using v(1) div_mult_mod_eq[of "length buf" BLD_MIN_SECTOR_SIZE] by simp
  show ?thesis
    using readblocks_ok[where session = "server_transport now", OF transport_get[OF assms(1) v(2,3) hb]]
      take_sectors_length[OF assms(1) v(3)]
    by (simp add: mp_a2b_base64_b64encode len)
qed

lemma writeblocks_server:
  assumes "wf_server s" "start < BLD_SECTOR_COUNT" "start * BLD_MIN_SECTOR_SIZE + length buf \<le> bld_size"
    and hb: "http_base (server_base_address bd)"
  shows "writeblocks (server_transport now) bd (int start) buf s
     = (Inr (), s\<lparr>block_level_data := overwrite (block_level_data s) (start * BLD_MIN_SECTOR_SIZE) buf\<rparr>)"
  by (rule writeblocks_ok[where session = "server_transport now", OF transport_post[OF assms(1-3) hb]]) simp

lemma wf_overwrite:
  "wf_server s \<Longrightarrow> i + length ys \<le> bld_size \<Longrightarrow>
   wf_server (s\<lparr>block_level_data := overwrite (block_level_data s) i ys\<rparr>)"
  by (simp add: wf_server_def)

lemma spec_write_server:
  "spec_write server_geometry disk start buf = Some d \<Longrightarrow>
   valid_range server_geometry start (length buf) \<and> d = overwrite disk (start * BLD_MIN_SECTOR_SIZE) buf"
  by (simp add: spec_write_def server_geometry_def split: if_splits)

lemma spec_read_server:
  "spec_read server_geometry disk start n = Some d \<Longrightarrow>
   valid_range server_geometry start n \<and> d = take n (drop (start * BLD_MIN_SECTOR_SIZE) disk)"
  by (simp add: spec_read_def server_geometry_def split: if_splits)

lemma readblocks_unaligned:
  assumes "wf_server s" "start < BLD_SECTOR_COUNT" "start * BLD_MIN_SECTOR_SIZE + length buf \<le> bld_size"
    "length buf mod BLD_MIN_SECTOR_SIZE \<noteq> 0"
    and hb: "http_base (server_base_address bd)"
  shows "readblocks (server_transport now) bd (int start) buf s
     = (Inl (SizeMismatch (length buf) (length buf div BLD_MIN_SECTOR_SIZE * BLD_MIN_SECTOR_SIZE)), s)"
proof -
  have ne: "length buf div BLD_MIN_SECTOR_SIZE * BLD_MIN_SECTOR_SIZE \<noteq> length buf"
    using assms(4) div_mult_mod_eq[of "length buf" BLD_MIN_SECTOR_SIZE] by linarith
  show ?thesis
    using transport_get[OF assms(1-3) hb, of now "server_timeout bd"] take_sectors_length[OF assms(1,3)] ne
    by (simp add: readblocks_def mp_a2b_base64_b64encode)
qed

text \<open>A run the contract accepts, taken apart at its first operation.\<close>

lemma spec_run_read_Cons:
  assumes "spec_run g (ReadBlocks start n # ops) disk = (rs, disk')" "None \<notin> set rs"
  obtains d rs' where "spec_read g disk start n = Some d" "rs = Some (ReadData d) # rs'"
    "spec_run g ops disk = (rs', disk')"
  using assms by (cases "spec_read g disk start n"; cases "spec_run g ops disk") auto

lemma spec_run_write_Cons:
  assumes "spec_run g (WriteBlocks start buf # ops) disk = (rs, disk')" "None \<notin> set rs"
  obtains d rs' where "spec_write g disk start buf = Some d" "rs = Some Written # rs'"
    "spec_run g ops d = (rs', disk')"
  using assms by (cases "spec_write g disk start buf") (auto split: prod.splits)

section \<open>Properties of the system\<close>

text \<open>
  C1. Coherence of the remote device: after \<open>writeblocks\<close> of a whole number of
  sectors inside the device succeeds, a \<open>readblocks\<close> of the same range into a
  buffer of the same length returns exactly the bytes written, and the
  server holds them at \<open>start * 512\<close>.
\<close>

theorem write_then_read:
  assumes "wf_server s" "valid_range server_geometry start (length buf)" "length dst = length buf"
    and hb: "http_base (server_base_address bd)" and hb': "http_base (server_base_address bd')"
  shows "readblocks (server_transport now') bd' (int start) dst
           (snd (writeblocks (server_transport now) bd (int start) buf s))
         = (Inr buf, s\<lparr>block_level_data := overwrite (block_level_data s) (start * BLD_MIN_SECTOR_SIZE) buf\<rparr>)"
proof -
  let ?s' = "s\<lparr>block_level_data := overwrite (block_level_data s) (start * BLD_MIN_SECTOR_SIZE) buf\<rparr>"
  have v: "start < BLD_SECTOR_COUNT" "start * BLD_MIN_SECTOR_SIZE + length buf \<le> bld_size"
    using assms(2) by (simp_all add: valid_range_server)
  have wf': "wf_server ?s'" using wf_overwrite[OF assms(1) v(2)] .
  have "readblocks (server_transport now') bd' (int start) dst ?s'
      = (Inr (take (length dst) (drop (start * BLD_MIN_SECTOR_SIZE) (block_level_data ?s'))), ?s')"
    using readblocks_server[OF wf' _ hb'] assms(2,3) by simp
  moreover have "take (length dst) (drop (start * BLD_MIN_SECTOR_SIZE) (block_level_data ?s')) = buf"
    using drop_take_overwrite[of "start * BLD_MIN_SECTOR_SIZE" buf "block_level_data s"] assms(1,3) v(2)
    by (simp add: wf_server_def)
  ultimately show ?thesis
    using writeblocks_server[OF assms(1) v hb] by simp
qed

theorem write_then_read_witness:
  "readblocks (server_transport 1700000001) demo_device 0 (replicate 512 0)
     (snd (writeblocks (server_transport 1700000000) demo_device 0 (replicate 512 171) (server_start None)))
   = (Inr (replicate 512 171), (server_start None)\<lparr>block_level_data :=
        overwrite (replicate 262144 0) 0 (replicate 512 171)\<rparr>)"
  using write_then_read[OF wf_server_start_None, of 0 "replicate 512 171" "replicate 512 0" demo_device
      demo_device 1700000001 1700000000] demo_device_http_base
  by (simp add: valid_range_server BLD_SECTOR_COUNT_def BLD_MIN_SECTOR_SIZE_def)

text \<open>
  C2. Refinement of reads: whenever the block-device contract defines a read
  of \<open>len(buf)\<close> bytes at \<open>start\<close> (whole sectors inside the device), the
  adapter over the block store returns those bytes and leaves the server
  unchanged.
\<close>

theorem readblocks_refines:
  assumes "wf_server s" "spec_read server_geometry (block_level_data s) start (length buf) = Some data"
    and hb: "http_base (server_base_address bd)"
  shows "readblocks (server_transport now) bd (int start) buf s = (Inr data, s)"
  using spec_read_server[OF assms(2)] readblocks_server[OF assms(1) _ hb] by simp

theorem readblocks_refines_witness:
  "readblocks (server_transport 0) demo_device 3 (replicate 1024 0) (server_start None)
     = (Inr (replicate 1024 0), server_start None)"
  using readblocks_refines[OF wf_server_start_None, of 3 "replicate 1024 0" "replicate 1024 0" demo_device 0]
    demo_device_http_base
  by (simp add: spec_read_def valid_range_def server_geometry_def BLD_SECTOR_COUNT_def BLD_MIN_SECTOR_SIZE_def)

text \<open>
  C3. Refinement of writes: whenever the contract defines a write of \<open>buf\<close> at
  \<open>start\<close>, the adapter's \<open>writeblocks\<close> succeeds and the server's buffer
  becomes the contract's new disk, which is again a well-formed state.
\<close>

theorem writeblocks_refines:
  assumes "wf_server s" "spec_write server_geometry (block_level_data s) start buf = Some disk"
    and hb: "http_base (server_base_address bd)"
  shows "writeblocks (server_transport now) bd (int start) buf s = (Inr (), s\<lparr>block_level_data := disk\<rparr>)
         \<and> wf_server (s\<lparr>block_level_data := disk\<rparr>)"
proof -
  have v: "start < BLD_SECTOR_COUNT" "start * BLD_MIN_SECTOR_SIZE + length buf \<le> bld_size"
      "disk = overwrite (block_level_data s) (start * BLD_MIN_SECTOR_SIZE) buf"
    using spec_write_server[OF assms(2)] by (simp_all add: valid_range_server)
  show ?thesis
    using writeblocks_server[OF assms(1) v(1,2) hb] wf_overwrite[OF assms(1) v(2)] v(3) by simp
qed

theorem writeblocks_refines_witness:
  "writeblocks (server_transport 0) demo_device 2 (replicate 512 5) (server_start None)
     = (Inr (), (server_start None)\<lparr>block_level_data := overwrite (replicate 262144 0) 1024 (replicate 512 5)\<rparr>)"
  using writeblocks_refines[OF wf_server_start_None, of 2 "replicate 512 5"
      "overwrite (replicate 262144 0) 1024 (replicate 512 5)" demo_device 0] demo_device_http_base
  by (simp add: spec_write_def valid_range_def server_geometry_def BLD_SECTOR_COUNT_def BLD_MIN_SECTOR_SIZE_def)

text \<open>
  C4. Simulation of a session: for every sequence of block operations that
  the contract accepts (no operation out of range or misaligned), the adapter
  over the block store, run from any well-formed state, returns the
  contract's results in order and leaves the server holding the contract's
  final disk.
\<close>

theorem run_refines:
  "http_base (server_base_address bd) \<Longrightarrow>
   wf_server s \<Longrightarrow> spec_run server_geometry ops (block_level_data s) = (rs, disk) \<Longrightarrow>
   None \<notin> set rs \<Longrightarrow>
   client_run (remote_device now bd) ops s = (map (\<lambda>r. Inr (the r)) rs, s\<lparr>block_level_data := disk\<rparr>)"
proof (induction ops arbitrary: s rs disk)
  case Nil
  then show ?case by simp
next
  case (Cons op ops)
  show ?case
  proof (cases op)
    case (ReadBlocks start n)
    obtain d rs' where d: "spec_read server_geometry (block_level_data s) start n = Some d"
        and rs: "rs = Some (ReadData d) # rs'" and X: "spec_run server_geometry ops (block_level_data s) = (rs', disk)"
      using spec_run_read_Cons[OF Cons.prems(3)[unfolded ReadBlocks] Cons.prems(4)] .
    have r: "readblocks (server_transport now) bd (int start) (replicate n 0) s = (Inr d, s)"
      using spec_read_server[OF d] readblocks_server[OF Cons.prems(2), of start "replicate n 0"] Cons.prems(1) by simp
    show ?thesis
      using Cons.IH[OF Cons.prems(1,2) X] Cons.prems(4) rs r ReadBlocks by (simp add: remote_device_def)
  next
    case (WriteBlocks start buf)
    obtain d rs' where d: "spec_write server_geometry (block_level_data s) start buf = Some d"
        and rs: "rs = Some Written # rs'" and X: "spec_run server_geometry ops d = (rs', disk)"
      using spec_run_write_Cons[OF Cons.prems(3)[unfolded WriteBlocks] Cons.prems(4)] .
    let ?s1 = "s\<lparr>block_level_data := d\<rparr>"
    have v: "start < BLD_SECTOR_COUNT" "start * BLD_MIN_SECTOR_SIZE + length buf \<le> bld_size"
        "d = overwrite (block_level_data s) (start * BLD_MIN_SECTOR_SIZE) buf"
      using spec_write_server[OF d] by (simp_all add: valid_range_server)
    have w: "writeblocks (server_transport now) bd (int start) buf s = (Inr (), ?s1)"
      using writeblocks_server[OF Cons.prems(2) v(1,2) Cons.prems(1)] v(3) by simp
    have wf1: "wf_server ?s1" using wf_overwrite[OF Cons.prems(2) v(2)] v(3) by simp
    show ?thesis
      using Cons.IH[OF Cons.prems(1) wf1, of rs' disk] X Cons.prems(4) rs w WriteBlocks
      by (simp add: remote_device_def)
  qed
qed

theorem run_refines_witness:
  "client_run (remote_device 0 demo_device) [WriteBlocks 1 (replicate 512 7), ReadBlocks 1 512] (server_start None)
   = ([Inr Written, Inr (ReadData (replicate 512 7))],
      (server_start None)\<lparr>block_level_data := overwrite (replicate 262144 0) 512 (replicate 512 7)\<rparr>)"
proof -
  have sr: "spec_run server_geometry [WriteBlocks 1 (replicate 512 7), ReadBlocks 1 512]
        (block_level_data (server_start None))
      = ([Some Written, Some (ReadData (replicate 512 7))], overwrite (replicate 262144 0) 512 (replicate 512 7))"
    by (simp add: spec_write_def spec_read_def valid_range_def server_geometry_def
        BLD_SECTOR_COUNT_def BLD_MIN_SECTOR_SIZE_def overwrite_def)
  show ?thesis
    using run_refines[OF demo_device_http_base wf_server_start_None sr] by (simp add: BLD_SECTOR_COUNT_def BLD_MIN_SECTOR_SIZE_def)
qed

text \<open>
  C10. The adapter does not check that a buffer is a whole number of
  sectors, and the two directions disagree on one that is not: a write of
  \<open>len(buf)\<close> bytes inside the device succeeds and stores every byte (the
  server copies the whole decoded body although \<open>sc = len(buf) // 512\<close>), but
  a read of the same range into a buffer of the same length receives only
  \<open>sc * 512\<close> bytes and fails with the size-mismatch \<open>OSError\<close>.
\<close>

theorem unaligned_write_then_read:
  assumes "wf_server s" "start < BLD_SECTOR_COUNT" "start * BLD_MIN_SECTOR_SIZE + length buf \<le> bld_size"
    "length buf mod BLD_MIN_SECTOR_SIZE \<noteq> 0" "length dst = length buf"
    and hb: "http_base (server_base_address bd)" and hb': "http_base (server_base_address bd')"
  shows "writeblocks (server_transport now) bd (int start) buf s
           = (Inr (), s\<lparr>block_level_data := overwrite (block_level_data s) (start * BLD_MIN_SECTOR_SIZE) buf\<rparr>)
         \<and> fst (readblocks (server_transport now') bd' (int start) dst
                  (snd (writeblocks (server_transport now) bd (int start) buf s)))
           = Inl (SizeMismatch (length buf) (length buf div BLD_MIN_SECTOR_SIZE * BLD_MIN_SECTOR_SIZE))"
proof -
  let ?s' = "s\<lparr>block_level_data := overwrite (block_level_data s) (start * BLD_MIN_SECTOR_SIZE) buf\<rparr>"
  have wf': "wf_server ?s'" using wf_overwrite[OF assms(1,3)] .
  show ?thesis
    using writeblocks_server[OF assms(1-3) hb] readblocks_unaligned[OF wf' assms(2), of dst] hb' assms(3-5) by simp
qed

theorem unaligned_write_then_read_witness:
  "writeblocks (server_transport 0) demo_device 0 (replicate 1000 5) (server_start None)
     = (Inr (), (server_start None)\<lparr>block_level_data := overwrite (replicate 262144 0) 0 (replicate 1000 5)\<rparr>)
   \<and> fst (readblocks (server_transport 0) demo_device 0 (replicate 1000 0)
            (snd (writeblocks (server_transport 0) demo_device 0 (replicate 1000 5) (server_start None))))
     = Inl (SizeMismatch 1000 512)"
  using unaligned_write_then_read[OF wf_server_start_None, of 0 "replicate 1000 5" "replicate 1000 0"
      demo_device demo_device 0 0] demo_device_http_base
  by (auto simp: BLD_SECTOR_COUNT_def BLD_MIN_SECTOR_SIZE_def)

text \<open>
  C15. The server loads \<open>./bld.bin\<close> whatever its size.  When the file holds
  fewer than 512 bytes, the slice of sector 0 is the whole short file, the
  GET still answers 200, and the adapter's read of one sector fails with the
  size-mismatch \<open>OSError\<close>, naming the file's length.
\<close>

theorem readblocks_short_file:
  assumes "length c < BLD_MIN_SECTOR_SIZE" "length buf = BLD_MIN_SECTOR_SIZE"
    and hb: "http_base (server_base_address bd)"
  shows "readblocks (server_transport now) bd 0 buf (server_start (Some c))
     = (Inl (SizeMismatch (length buf) (length c)), server_start (Some c))"
proof -
  have "py_slice c 0 (int BLD_MIN_SECTOR_SIZE) = c"
    using assms(1) by (simp add: py_slice_def py_bound_def)
  then have "search GET 0 1 [] (server_start (Some c))
      = (\<lparr>status = 200, body = b64encode c\<rparr>, server_start (Some c))"
    by (simp add: search_def BLD_SECTOR_COUNT_def)
  then show ?thesis
    using assms(1,2) by (simp add: readblocks_def server_transport_data[OF hb] mp_a2b_base64_b64encode
        BLD_MIN_SECTOR_SIZE_client_def BLD_MIN_SECTOR_SIZE_def)
qed

theorem readblocks_short_file_witness:
  "readblocks (server_transport 0) demo_device 0 (replicate 512 0) (server_start (Some (replicate 100 0)))
     = (Inl (SizeMismatch 512 100), server_start (Some (replicate 100 0)))"
  using readblocks_short_file[of "replicate 100 0" "replicate 512 0" demo_device 0] demo_device_http_base
  by (simp add: BLD_MIN_SECTOR_SIZE_def)

lemma route_info_status: "status (fst (route_info now s)) = 200"
  by (simp add: route_info_def)

text \<open>The body of \<open>/info/\<close> parses back to the dictionary the server dumped.\<close>

lemma route_info_loads:
  "json_loads (ascii_decode (body (fst (route_info now s)))) =
     Some [(''sector_size'', 512), (''sector_count'', 512), (''server_time'', now)]"
proof -
  let ?d = "[(''sector_size'', int BLD_MIN_SECTOR_SIZE), (''sector_count'', int BLD_SECTOR_COUNT),
             (''server_time'', now)]"
  have "json_loads (json_dumps ?d) = Some ?d"
    by (rule json_loads_json_dumps) (simp_all add: json_plain_def)
  then show ?thesis
    by (simp add: route_info_def BLD_SECTOR_COUNT_def BLD_MIN_SECTOR_SIZE_def)
qed

text \<open>
  C29. Geometry negotiation: the client's bootstrap against the block store
  gets status 200, parses the \<open>/info/\<close> body and builds a device whose
  sector count and sector size are the server's \<open>BLD_SECTOR_COUNT\<close> and
  \<open>BLD_MIN_SECTOR_SIZE\<close>, whatever the server's clock says, printing the
  parsed dict and both values; the server's state is untouched.
\<close>

theorem bootstrap_server:
  "http_base base \<Longrightarrow>
   bootstrap b (server_transport now) base s =
     ((Inr \<lparr>server_base_address = base, server_timeout = 10,
            sector_count = int BLD_SECTOR_COUNT, sector_size = int BLD_MIN_SECTOR_SIZE\<rparr>,
       [''Grabbing the BLD info from the remote server...'', ''> GET: '' @ base @ ''/info/'',
        ''> Parsing JSON data...'',
        ''> '' @ py_repr_dict (dict_items b [(''sector_size'', 512), (''sector_count'', 512), (''server_time'', now)]),
        ''Preparing the BLD class...'', ''> Sector count: 512'', ''> Sector size:  512'']), s)"
  using route_info_loads[of now s] server_transport_info[of base now SERVER_TIMEOUT s]
  by (simp add: route_info_status bootstrap_def py_dict_get_def SERVER_TIMEOUT_def
      script_simps py_dict_of_def py_str_nat.simps BLD_SECTOR_COUNT_def BLD_MIN_SECTOR_SIZE_def)

lemma bootstrap_server_witness:
  "bootstrap demo_board (server_transport 1700000000) ''http://192.168.1.10:8080'' (server_start None) =
     ((Inr \<lparr>server_base_address = ''http://192.168.1.10:8080'', server_timeout = 10,
            sector_count = 512, sector_size = 512\<rparr>,
       [''Grabbing the BLD info from the remote server...'', ''> GET: http://192.168.1.10:8080/info/'',
        ''> Parsing JSON data...'',
        ''> '' @ py_repr_dict [(''sector_size'', 512), (''sector_count'', 512), (''server_time'', 1700000000)],
        ''Preparing the BLD class...'', ''> Sector count: 512'', ''> Sector size:  512'']), server_start None)"
  using bootstrap_server[of "''http://192.168.1.10:8080''" demo_board 1700000000 "server_start None"]
  by (simp add: http_base_def demo_board_def BLD_SECTOR_COUNT_def BLD_MIN_SECTOR_SIZE_def)

text \<open>
  C33. The client's script, end to end: on a CircuitPython board with the
  four optional modules, the four keys in \<open>secrets\<close>, a Wi-Fi connection
  and a root that lists \<open>remote_bld\<close> once it is mounted, against the block
  store, the script runs to its end.  It builds the device from the
  server's geometry, reads \<open>test.txt\<close> back as the text it wrote with the
  first random number, and the \<open>import test\<close> runs the \<open>test.py\<close> it wrote
  on the new filesystem (\<open>/remote_bld\<close> is in front of \<open>sys.path\<close>), which
  prints the line with the second number, whatever the board's own
  filesystem and \<open>sys.path\<close> hold.  The theorem gives every line printed.
\<close>

theorem client_script_completes:
  assumes "implementation_name b = ''circuitpython''"
    and "{''wifi'', ''binascii'', ''adafruit_requests'', ''secrets''} \<subseteq> set (board_modules b)"
    and "py_dict_get (board_secrets b) ''ssid'' = Some ssid"
    and "py_dict_get (board_secrets b) ''password'' = Some pw"
    and "py_dict_get (board_secrets b) ''server_host'' = Some host"
    and "py_dict_get (board_secrets b) ''server_port'' = Some port"
    and "wifi_connect b ssid pw = Some ip"
    and "board_mount b ''/remote_bld'' = Some names" and "''remote_bld'' \<in> set names"
    and "CHR ''/'' \<notin> set host" and "CHR ''/'' \<notin> set port"
  shows "client_script b (server_transport now) s old r1 r2 =
    (Completed,
     [''Preparing the Wi-Fi connection...'', ''> Connecting to '' @ sq ssid, ''> Done !'', ''> IPv4: '' @ ip,
      ''Preparing the socketpool and session for the BLD...'',
      ''Grabbing the BLD info from the remote server...'', ''> GET: http://'' @ host @ '':'' @ port @ ''/info/'',
      ''> Parsing JSON data...'',
      ''> '' @ py_repr_dict (dict_items b [(''sector_size'', 512), (''sector_count'', 512), (''server_time'', now)]),
      ''Preparing the BLD class...'', ''> Sector count: 512'', ''> Sector size:  512'',
      ''Preparing the VfsFat...'',
      ''> Doing a quick format of the file system using the builtin formatter.  (This may take a while !)'',
      ''> Mounting the file system at '' @ sq ''/remote_bld'' @ '' in RW mode...'',
      ''Checking if we can see it in the MCU'' @ [CHR 0x27] @ ''s root folder:'',
      ''> '' @ py_repr_list names, ''> It is present !'',
      ''Creating a new file under '' @ sq ''/remote_bld/test.txt'',
      ''> Unique number: '' @ py_str_int (unique_number r1), ''> Done !'', ''> Reading it...'',
      ''> Hello world !  ('' @ py_str_int (unique_number r1) @ '')'',
      ''Creating a new python file under '' @ sq ''/remote_bld/test.py'',
      ''> Unique number: '' @ py_str_int (unique_number r2), ''> Done !'',
      ''Preparing the '' @ sq ''sys.path'' @ '' list to let us import from the new file system'',
      ''> Old: '' @ py_repr_list (board_sys_path b),
      ''> New: '' @ py_repr_list (''/remote_bld'' # board_sys_path b),
      ''Importing the '' @ sq ''test'' @ '' module from '' @ sq ''/remote_bld/test.py'',
      ''> Hello world !  ('' @ py_str_int (unique_number r2) @ '')''])"
  using assms route_info_loads[of now s] hello_exec[of "unique_number r2"]
    server_transport_info[OF SERVER_BASE_ADDRESS_http_base[OF assms(10,11)], of now SERVER_TIMEOUT s]
  by (simp add: client_script_def check_circuitpython_def require_modules_ok CLIENT_MODULES_def
      read_secrets_def connect_wifi_def bootstrap_def route_info_status
      py_dict_get_def SERVER_TIMEOUT_def SERVER_BASE_ADDRESS_def script_simps py_dict_of_def
      py_str_nat.simps BLD_SECTOR_COUNT_def BLD_MIN_SECTOR_SIZE_def FORMAT_BEFORE_MOUNT_def
      file_test_def MOUNTING_POINT_client_def lstrip_slash_def fat_write_def mounted_open_def abs_path_def
      fat_vfs_def py_str_read_def client_import_def import_test_def import_module_def mounted_kind_def module_path_def Let_def
      ends_with_b_def)

lemma client_script_completes_witness:
  "fst (client_script demo_board (server_transport 1700000000) (server_start None) [] (1 / 2) (3 / 4))
     = Completed \<and>
   last (snd (client_script demo_board (server_transport 1700000000) (server_start None) [] (1 / 2) (3 / 4)))
     = ''> Hello world !  (75)''"
  using client_script_completes[of demo_board
      "''home''" "''hunter22''" "''192.168.1.10''" "''8080''" "''192.168.1.42''"
      "[''lib'', ''remote_bld'']" 1700000000 "server_start None" "[]" "1 / 2" "3 / 4"]
  by (simp add: demo_board_def py_dict_get_def unique_number_def py_str_nat.simps)

end
